theory Spec2Isabelle
  imports Main "HOL-Library.AList"
begin

section \<open>Python values, exceptions and the state-and-exception monad\<close>

text \<open>
  The two source files \<^verbatim>\<open>database_manager.py\<close> and \<^verbatim>\<open>azure_agent_manager.py\<close> talk to
  three libraries whose code is not part of the repository: psycopg2 (the database engine),
  json, and the Azure agent service client. Each library call is a parameter of the model:
  a function on an abstract world \<open>'w\<close> that returns either an exception or a value,
  together with the new world. The model itself keeps a trace of the library calls it
  makes, in order.

  Python exceptions are values. \<^verbatim>\<open>psycopg2.Error\<close> is told apart from every other subclass
  of \<^verbatim>\<open>Exception\<close> because \<^verbatim>\<open>execute_query\<close> has a handler for each; both carry the text
  \<^verbatim>\<open>str(e)\<close>. Exceptions outside \<^verbatim>\<open>Exception\<close> (KeyboardInterrupt, SystemExit) and the
  calls to the logger are not modelled. Strings are lists of 8-bit characters; floats are
  not modelled.
\<close>

datatype exn = Psycopg2Error string | PyException string

fun exn_str :: "exn \<Rightarrow> string" where
  "exn_str (Psycopg2Error m) = m"
| "exn_str (PyException m) = m"

text \<open>
  Python objects as far as the code meets them: what \<^verbatim>\<open>json.loads\<close> returns, what a
  database cell holds, and what arrives as the \<^verbatim>\<open>query\<close> argument. \<open>PyOpaque t\<close> is an
  object of a class \<open>t\<close> that \<^verbatim>\<open>json.dumps\<close> cannot serialise (datetime, Decimal, ...).
\<close>

datatype pyval =
    PyNone
  | PyBool bool
  | PyInt int
  | PyStr string
  | PyList "pyval list"
  | PyDict "(string \<times> pyval) list"
  | PyOpaque string

fun py_type_name :: "pyval \<Rightarrow> string" where
  "py_type_name PyNone = ''NoneType''"
| "py_type_name (PyBool _) = ''bool''"
| "py_type_name (PyInt _) = ''int''"
| "py_type_name (PyStr _) = ''str''"
| "py_type_name (PyList _) = ''list''"
| "py_type_name (PyDict _) = ''dict''"
| "py_type_name (PyOpaque t) = t"

record tool_call =
  tc_id :: string
  fn_name :: string
  fn_arguments :: string

record tool_output =
  tool_call_id :: string
  output_text :: string

text \<open>The library calls, as they appear in the trace.\<close>

datatype event =
    DbConnect string
  | DbCursor
  | DbExecute pyval
  | DbFetchall
  | DbCommit
  | DbRollback
  | DbClose
  | Sleep nat
  | CreateThread
  | CreateMessage string string string
  | CreateRun string string
  | GetRun string string
  | SubmitToolOutputs string string "tool_output list"
  | ListMessages string

fun is_db_event :: "event \<Rightarrow> bool" where
  "is_db_event (DbConnect _) = True"
| "is_db_event DbCursor = True"
| "is_db_event (DbExecute _) = True"
| "is_db_event DbFetchall = True"
| "is_db_event DbCommit = True"
| "is_db_event DbRollback = True"
| "is_db_event DbClose = True"
| "is_db_event _ = False"

type_synonym 'w state = "'w \<times> event list"

type_synonym ('w, 'a) py = "'w state \<Rightarrow> (exn + 'a) \<times> 'w state"

definition py_return :: "'a \<Rightarrow> ('w, 'a) py" where
  "py_return a s = (Inr a, s)"

definition py_raise :: "exn \<Rightarrow> ('w, 'a) py" where
  "py_raise e s = (Inl e, s)"

definition py_lift :: "exn + 'a \<Rightarrow> ('w, 'a) py" where
  "py_lift r s = (r, s)"

definition py_bind :: "('w, 'a) py \<Rightarrow> ('a \<Rightarrow> ('w, 'b) py) \<Rightarrow> ('w, 'b) py" where
  "py_bind m f s = (case m s of (Inl e, s') \<Rightarrow> (Inl e, s') | (Inr a, s') \<Rightarrow> f a s')"

text \<open>A library call: run it on the world, and record it in the trace.\<close>

definition call :: "event \<Rightarrow> ('w \<Rightarrow> (exn + 'a) \<times> 'w) \<Rightarrow> ('w, 'a) py" where
  "call ev f s = (case f (fst s) of (r, w') \<Rightarrow> (r, (w', snd s @ [ev])))"

text \<open>
  \<^verbatim>\<open>with cm: body\<close>. When the body ends normally (also by \<^verbatim>\<open>return\<close>) the exit for
  the normal case runs; when it raises, the exit for the exceptional case runs and the
  exception is raised again. An exception of the exit itself replaces either outcome.
\<close>

definition with_exit :: "('w, 'a) py \<Rightarrow> ('w, unit) py \<Rightarrow> ('w, unit) py \<Rightarrow> ('w, 'a) py" where
  "with_exit body on_ok on_exn s =
     (case body s of
        (Inr v, s') \<Rightarrow>
          (case on_ok s' of (Inr _, s'') \<Rightarrow> (Inr v, s'') | (Inl e, s'') \<Rightarrow> (Inl e, s''))
      | (Inl e, s') \<Rightarrow>
          (case on_exn s' of (Inr _, s'') \<Rightarrow> (Inl e, s'') | (Inl e', s'') \<Rightarrow> (Inl e', s'')))"

text \<open>A computation that adds nothing but database calls to the trace.\<close>

definition db_only :: "('w, 'a) py \<Rightarrow> bool" where
  "db_only m =
     (\<forall>s r s'. m s = (r, s') \<longrightarrow> (\<exists>evs. snd s' = snd s @ evs \<and> list_all is_db_event evs))"

section \<open>Strings\<close>

text \<open>
  \<^verbatim>\<open>str.strip()\<close> removes the characters for which \<^verbatim>\<open>str.isspace()\<close> holds, at both
  ends; \<^verbatim>\<open>str.upper()\<close> is modelled on the letters a to z. Among 8-bit characters no other
  character has an upper-case form that begins with an ASCII letter other than S (for the
  sharp s, whose upper-case form is SS), so the two prefix tests below are decided as
  Python decides them.
\<close>

definition is_space :: "char \<Rightarrow> bool" where
  "is_space c = ((of_char c :: nat) \<in> {9, 10, 11, 12, 13, 28, 29, 30, 31, 32, 133, 160})"

definition strip :: "string \<Rightarrow> string" where
  "strip s = rev (dropWhile is_space (rev (dropWhile is_space s)))"

definition upper_char :: "char \<Rightarrow> char" where
  "upper_char c =
     (case map_of (zip ''abcdefghijklmnopqrstuvwxyz'' ''ABCDEFGHIJKLMNOPQRSTUVWXYZ'') c of
        Some u \<Rightarrow> u
      | None \<Rightarrow> c)"

definition upper :: "string \<Rightarrow> string" where
  "upper s = map upper_char s"

definition startswith :: "string \<Rightarrow> string \<Rightarrow> bool" where
  "startswith s p = (take (length p) s = p)"

text \<open>A name between apostrophes, as Python's messages print it.\<close>

definition quoted :: "string \<Rightarrow> string" where
  "quoted t = CHR 0x27 # t @ [CHR 0x27]"

definition digit_char :: "nat \<Rightarrow> char" where
  "digit_char d = ''0123456789'' ! d"

fun str_nat :: "nat \<Rightarrow> string" where
  "str_nat n = (if n < 10 then [digit_char n] else str_nat (n div 10) @ [digit_char (n mod 10)])"

declare str_nat.simps [simp del]

definition str_int :: "int \<Rightarrow> string" where
  "str_int i = (if i < 0 then CHR ''-'' # str_nat (nat (- i)) else str_nat (nat i))"

section \<open>The database engine\<close>

text \<open>
  The psycopg2 calls made by \<^verbatim>\<open>execute_query\<close>. \<open>description\<close> and \<open>rowcount\<close> are
  attribute reads of the cursor; \<open>description\<close> is \<open>None\<close> when the last statement
  returned no rows, and its entries are (name, type code). The connection's context
  manager commits when its block ends normally and rolls back when it raises; the cursor's
  closes the cursor.
\<close>

record 'w engine =
  connect :: "string \<Rightarrow> 'w \<Rightarrow> (exn + unit) \<times> 'w"
  cursor :: "'w \<Rightarrow> (exn + unit) \<times> 'w"
  execute :: "pyval \<Rightarrow> 'w \<Rightarrow> (exn + unit) \<times> 'w"
  fetchall :: "'w \<Rightarrow> (exn + pyval list list) \<times> 'w"
  description :: "'w \<Rightarrow> (string \<times> nat) list option"
  rowcount :: "'w \<Rightarrow> int"
  commit :: "'w \<Rightarrow> (exn + unit) \<times> 'w"
  rollback :: "'w \<Rightarrow> (exn + unit) \<times> 'w"
  close :: "'w \<Rightarrow> (exn + unit) \<times> 'w"

text \<open>
  What the engine has answered so far: the errors it raised and the rows it returned, in
  order. A world may keep this record; \<open>logs_responses E responses\<close> says that
  \<open>responses\<close> reads it from the world of the engine \<open>E\<close>: every call that raises adds
  the exception, a \<open>fetchall\<close> that returns adds the rows, and nothing else changes it.
\<close>

datatype response = Raised exn | Fetched "pyval list list"

fun raised :: "response list \<Rightarrow> exn list" where
  "raised [] = []"
| "raised (Raised e # rs) = e # raised rs"
| "raised (Fetched _ # rs) = raised rs"

definition logs_call ::
  "('w \<Rightarrow> response list) \<Rightarrow> ('a \<Rightarrow> response list) \<Rightarrow> ('w \<Rightarrow> (exn + 'a) \<times> 'w) \<Rightarrow> bool" where
  "logs_call responses entry f =
     (\<forall>w. case f w of
            (Inl e, w') \<Rightarrow> responses w' = responses w @ [Raised e]
          | (Inr a, w') \<Rightarrow> responses w' = responses w @ entry a)"

definition logs_responses :: "'w engine \<Rightarrow> ('w \<Rightarrow> response list) \<Rightarrow> bool" where
  "logs_responses E responses =
     ((\<forall>cs. logs_call responses (\<lambda>_. []) (connect E cs))
      \<and> logs_call responses (\<lambda>_. []) (cursor E)
      \<and> (\<forall>q. logs_call responses (\<lambda>_. []) (execute E q))
      \<and> logs_call responses (\<lambda>rows. [Fetched rows]) (fetchall E)
      \<and> logs_call responses (\<lambda>_. []) (commit E)
      \<and> logs_call responses (\<lambda>_. []) (rollback E)
      \<and> logs_call responses (\<lambda>_. []) (close E))"

text \<open>Any engine with the record added to its world.\<close>

definition logged_call ::
  "('a \<Rightarrow> response list) \<Rightarrow> ('w \<Rightarrow> (exn + 'a) \<times> 'w)
     \<Rightarrow> 'w \<times> response list \<Rightarrow> (exn + 'a) \<times> ('w \<times> response list)" where
  "logged_call entry f wl =
     (case f (fst wl) of
        (Inl e, w') \<Rightarrow> (Inl e, (w', snd wl @ [Raised e]))
      | (Inr a, w') \<Rightarrow> (Inr a, (w', snd wl @ entry a)))"

definition logged :: "'w engine \<Rightarrow> ('w \<times> response list) engine" where
  "logged E =
     \<lparr>connect = (\<lambda>cs. logged_call (\<lambda>_. []) (connect E cs)),
      cursor = logged_call (\<lambda>_. []) (cursor E),
      execute = (\<lambda>q. logged_call (\<lambda>_. []) (execute E q)),
      fetchall = logged_call (\<lambda>rows. [Fetched rows]) (fetchall E),
      description = (\<lambda>wl. description E (fst wl)),
      rowcount = (\<lambda>wl. rowcount E (fst wl)),
      commit = logged_call (\<lambda>_. []) (commit E),
      rollback = logged_call (\<lambda>_. []) (rollback E),
      close = logged_call (\<lambda>_. []) (close E)\<rparr>"

text \<open>
  Computations that only add to the record (\<open>grows\<close>), and computations whose outcome
  the record tells: no error recorded when they return, and when they raise, either the
  exception is the last error recorded, or nothing was recorded and the exception is
  Python's own (\<open>tracks\<close>). Engine calls always record what they raise (\<open>strict\<close>).
\<close>

definition grows :: "('w \<Rightarrow> response list) \<Rightarrow> ('w, 'a) py \<Rightarrow> bool" where
  "grows responses m =
     (\<forall>s r s'. m s = (r, s') \<longrightarrow> (\<exists>new. responses (fst s') = responses (fst s) @ new))"

definition tracks :: "('w \<Rightarrow> response list) \<Rightarrow> ('w, 'a) py \<Rightarrow> bool" where
  "tracks responses m =
     (\<forall>s r s'. m s = (r, s') \<longrightarrow>
        (\<exists>new. responses (fst s') = responses (fst s) @ new
           \<and> (case r of
                 Inr _ \<Rightarrow> raised new = []
               | Inl e \<Rightarrow> (raised new = [] \<and> (\<exists>m. e = PyException m))
                          \<or> (raised new \<noteq> [] \<and> last (raised new) = e))))"

definition strict :: "('w \<Rightarrow> response list) \<Rightarrow> ('w, 'a) py \<Rightarrow> bool" where
  "strict responses m =
     (\<forall>s r s'. m s = (r, s') \<longrightarrow>
        (\<exists>new. responses (fst s') = responses (fst s) @ new
           \<and> (case r of
                 Inr _ \<Rightarrow> raised new = []
               | Inl e \<Rightarrow> raised new \<noteq> [] \<and> last (raised new) = e)))"

text \<open>
  The record changes nothing else: a computation on the world with the record mirrors a
  computation on the world alone when, the record erased, both return the same and leave
  the same world and trace.
\<close>

definition erase :: "('w \<times> response list) state \<Rightarrow> 'w state" where
  "erase s = (fst (fst s), snd s)"

definition mirrors :: "('w, 'a) py \<Rightarrow> ('w \<times> response list, 'a) py \<Rightarrow> bool" where
  "mirrors m m' = (\<forall>s. m (erase s) = (fst (m' s), erase (snd (m' s))))"

section \<open>The query executor: \<^verbatim>\<open>DatabaseManager.execute_query\<close>\<close>

text \<open>
  The dictionary that \<^verbatim>\<open>execute_query\<close> returns. Its keys are fixed, so it is a record;
  \<open>None\<close> is Python's \<^verbatim>\<open>None\<close>, except for \<open>message\<close>, a key that only the UPDATE branch
  sets: there \<open>None\<close> is the absent key.
\<close>

record query_result =
  success :: bool
  data :: "(string \<times> pyval) list list option"
  row_count :: int
  columns :: "string list option"
  error :: "string option"
  message :: "string option"

text \<open>\<^verbatim>\<open>dict(pairs)\<close>: keys keep the position of their first occurrence, the last value wins.\<close>

definition py_dict :: "(string \<times> pyval) list \<Rightarrow> (string \<times> pyval) list" where
  "py_dict kvs = foldl (\<lambda>d kv. AList.update (fst kv) (snd kv) d) [] kvs"

text \<open>\<^verbatim>\<open>query.strip().upper().startswith(kw)\<close>; an object that is not a string has no \<^verbatim>\<open>strip\<close>.\<close>

definition is_select :: "string \<Rightarrow> bool" where
  "is_select q = startswith (upper (strip q)) ''SELECT''"

definition is_update :: "string \<Rightarrow> bool" where
  "is_update q = startswith (upper (strip q)) ''UPDATE''"

fun query_startswith :: "(string \<Rightarrow> bool) \<Rightarrow> pyval \<Rightarrow> exn + bool" where
  "query_startswith test (PyStr q) = Inr (test q)"
| "query_startswith test v =
     Inl (PyException (quoted (py_type_name v) @ '' object has no attribute '' @ quoted ''strip''))"

definition failure :: "string \<Rightarrow> query_result" where
  "failure msg =
     \<lparr>success = False, data = None, row_count = 0, columns = None, error = Some msg,
      message = None\<rparr>"

definition unsupported :: query_result where
  "unsupported = failure ''Unsupported query type. Only SELECT and UPDATE are allowed.''"

text \<open>The SELECT branch (lines 30 to 40).\<close>

definition select_branch :: "'w engine \<Rightarrow> ('w, query_result) py" where
  "select_branch E =
     py_bind (call DbFetchall (fetchall E)) (\<lambda>rows s.
       (case description E (fst s) of
          None \<Rightarrow> py_raise (PyException (quoted ''NoneType'' @ '' object is not iterable'')) s
        | Some desc \<Rightarrow>
            (let columns = map fst desc;
                 data = map (\<lambda>row. py_dict (zip columns row)) rows
             in py_return
                  \<lparr>success = True, data = Some data, row_count = int (length data),
                   columns = Some columns, error = None, message = None\<rparr> s)))"

text \<open>The UPDATE branch (lines 44 to 54).\<close>

definition update_branch :: "'w engine \<Rightarrow> ('w, query_result) py" where
  "update_branch E s =
     (let affected_rows = rowcount E (fst s)
      in py_bind (call DbCommit (commit E)) (\<lambda>_.
           py_return
             \<lparr>success = True, data = None, row_count = affected_rows, columns = None,
              error = None,
              message = Some (''Updated '' @ str_int affected_rows @ '' row(s)'')\<rparr>) s)"

text \<open>The statements inside the two \<^verbatim>\<open>with\<close> blocks (lines 26 to 63).\<close>

definition run_statement :: "'w engine \<Rightarrow> pyval \<Rightarrow> ('w, query_result) py" where
  "run_statement E query =
     py_bind (call (DbExecute query) (execute E query)) (\<lambda>_.
     py_bind (py_lift (query_startswith is_select query)) (\<lambda>sel.
       if sel then select_branch E
       else py_bind (py_lift (query_startswith is_update query)) (\<lambda>upd.
         if upd then update_branch E else py_return unsupported)))"

text \<open>The body of the \<^verbatim>\<open>try\<close> (lines 24 to 63).\<close>

definition execute_query_body :: "'w engine \<Rightarrow> string \<Rightarrow> pyval \<Rightarrow> ('w, query_result) py" where
  "execute_query_body E connection_string query =
     py_bind (call (DbConnect connection_string) (connect E connection_string)) (\<lambda>_.
       with_exit
         (py_bind (call DbCursor (cursor E)) (\<lambda>_.
            with_exit (run_statement E query) (call DbClose (close E)) (call DbClose (close E))))
         (call DbCommit (commit E))
         (call DbRollback (rollback E)))"

text \<open>\<^verbatim>\<open>execute_query\<close>: the body under its two handlers (lines 65 to 82).\<close>

definition execute_query :: "'w engine \<Rightarrow> string \<Rightarrow> pyval \<Rightarrow> ('w, query_result) py" where
  "execute_query E connection_string query s =
     (case execute_query_body E connection_string query s of
        (Inr r, s') \<Rightarrow> (Inr r, s')
      | (Inl (Psycopg2Error m), s') \<Rightarrow> (Inr (failure m), s')
      | (Inl (PyException m), s') \<Rightarrow> (Inr (failure (''Unexpected error: '' @ m)), s'))"

text \<open>The two shapes of a result: a success, and a failure as the handlers build it.\<close>

definition success_shape :: "query_result \<Rightarrow> bool" where
  "success_shape r = (success r \<and> error r = None)"

definition failure_shape :: "query_result \<Rightarrow> bool" where
  "failure_shape r =
     (\<not> success r \<and> data r = None \<and> row_count r = 0 \<and> columns r = None \<and> error r \<noteq> None
      \<and> message r = None)"

section \<open>JSON\<close>

text \<open>
  \<^verbatim>\<open>json.dumps\<close> with its default settings: separators \<^verbatim>\<open>", "\<close> and \<^verbatim>\<open>": "\<close>, every
  character outside the printable ASCII range escaped, the keys of a dictionary in
  insertion order, and a TypeError for an object of a class it does not know.
  \<^verbatim>\<open>json.loads\<close> is a parameter, a field of the agent manager below.
\<close>

definition hex_digit :: "nat \<Rightarrow> char" where
  "hex_digit d = ''0123456789abcdef'' ! d"

definition json_escape_char :: "char \<Rightarrow> string" where
  "json_escape_char c =
     (let n = (of_char c :: nat) in
      if n = 0x22 then [CHR 0x5C, CHR 0x22]
      else if n = 0x5C then [CHR 0x5C, CHR 0x5C]
      else if n = 10 then [CHR 0x5C, CHR ''n'']
      else if n = 13 then [CHR 0x5C, CHR ''r'']
      else if n = 9 then [CHR 0x5C, CHR ''t'']
      else if n = 8 then [CHR 0x5C, CHR ''b'']
      else if n = 12 then [CHR 0x5C, CHR ''f'']
      else if n < 32 \<or> 126 < n then
        [CHR 0x5C, CHR ''u'', CHR ''0'', CHR ''0'', hex_digit (n div 16), hex_digit (n mod 16)]
      else [c])"

definition json_string :: "string \<Rightarrow> string" where
  "json_string s = CHR 0x22 # concat (map json_escape_char s) @ [CHR 0x22]"

fun join :: "string \<Rightarrow> string list \<Rightarrow> string" where
  "join sep [] = []"
| "join sep [x] = x"
| "join sep (x # y # ys) = x @ sep @ join sep (y # ys)"

fun first_some :: "'a option list \<Rightarrow> 'a option" where
  "first_some [] = None"
| "first_some (None # xs) = first_some xs"
| "first_some (Some x # xs) = Some x"

text \<open>The class of the first object that cannot be serialised, if there is one.\<close>

fun first_opaque :: "pyval \<Rightarrow> string option" where
  "first_opaque (PyOpaque t) = Some t"
| "first_opaque (PyList xs) = first_some (map first_opaque xs)"
| "first_opaque (PyDict kvs) = first_some (map (\<lambda>kv. first_opaque (snd kv)) kvs)"
| "first_opaque _ = None"

fun json_text :: "pyval \<Rightarrow> string" where
  "json_text PyNone = ''null''"
| "json_text (PyBool b) = (if b then ''true'' else ''false'')"
| "json_text (PyInt i) = str_int i"
| "json_text (PyStr s) = json_string s"
| "json_text (PyList xs) = ''['' @ join '', '' (map json_text xs) @ '']''"
| "json_text (PyDict kvs) =
     ''{'' @ join '', '' (map (\<lambda>kv. json_string (fst kv) @ '': '' @ json_text (snd kv)) kvs) @ ''}''"
| "json_text (PyOpaque t) = []"

definition json_dumps :: "pyval \<Rightarrow> exn + string" where
  "json_dumps v =
     (case first_opaque v of
        Some t \<Rightarrow> Inl (PyException (''Object of type '' @ t @ '' is not JSON serializable''))
      | None \<Rightarrow> Inr (json_text v))"

text \<open>The result dictionary as a Python object, its keys in the order of the source.\<close>

definition result_dict :: "query_result \<Rightarrow> pyval" where
  "result_dict r =
     PyDict
       ([(''success'', PyBool (success r)),
         (''data'', case data r of None \<Rightarrow> PyNone | Some ds \<Rightarrow> PyList (map PyDict ds)),
         (''row_count'', PyInt (row_count r)),
         (''columns'', case columns r of None \<Rightarrow> PyNone | Some cs \<Rightarrow> PyList (map PyStr cs)),
         (''error'', case error r of None \<Rightarrow> PyNone | Some m \<Rightarrow> PyStr m)]
        @ (case message r of None \<Rightarrow> [] | Some m \<Rightarrow> [(''message'', PyStr m)]))"

section \<open>The agent service\<close>

datatype run_status = QUEUED | IN_PROGRESS | REQUIRES_ACTION | COMPLETED | OtherStatus string

text \<open>
  The four statuses the source names, and every other status (failed, cancelled, expired,
  ...) by its value. How a status is printed inside an f-string depends on the enum class
  of the service library and on the Python that runs it (the value, or the class and
  member name); it is a parameter, a field of the agent manager below.
\<close>

text \<open>
  A run: \<open>required_action\<close> holds \<^verbatim>\<open>run.required_action.submit_tool_outputs.tool_calls\<close>, or
  \<open>None\<close> when \<^verbatim>\<open>run.required_action\<close> is \<^verbatim>\<open>None\<close>.
\<close>

record run =
  run_id :: string
  status :: run_status
  required_action :: "tool_call list option"

text \<open>A content part is a text or an object of another class (an image), named by its class.\<close>

datatype content_part = TextContent string | OtherContent string

record thread_message =
  role :: string
  content :: "content_part list"
  created_at :: nat

text \<open>The calls on \<^verbatim>\<open>project_client.agents\<close>; a thread is known by its id.\<close>

record 'w remote =
  create_thread :: "'w \<Rightarrow> (exn + string) \<times> 'w"
  create_message :: "string \<Rightarrow> string \<Rightarrow> string \<Rightarrow> 'w \<Rightarrow> (exn + unit) \<times> 'w"
  create_run :: "string \<Rightarrow> string \<Rightarrow> pyval \<Rightarrow> 'w \<Rightarrow> (exn + run) \<times> 'w"
  get_run :: "string \<Rightarrow> string \<Rightarrow> 'w \<Rightarrow> (exn + run) \<times> 'w"
  submit_tool_outputs_to_run ::
    "string \<Rightarrow> string \<Rightarrow> tool_output list \<Rightarrow> 'w \<Rightarrow> (exn + run) \<times> 'w"
  list_messages :: "string \<Rightarrow> 'w \<Rightarrow> (exn + thread_message list) \<times> 'w"

section \<open>The tool gateway and the run orchestrator: \<^verbatim>\<open>AzureAgentManager\<close>\<close>

text \<open>
  The object \<^verbatim>\<open>self\<close> after \<^verbatim>\<open>__init__\<close>: the service client, the database manager (its
  engine and connection string) and the master agent's id, with the json module's
  \<^verbatim>\<open>loads\<close> and the way an f-string prints a status.
\<close>

record 'w agent_manager =
  project_client :: "'w remote"
  db_engine :: "'w engine"
  connection_string :: string
  master_agent_id :: string
  json_loads :: "string \<Rightarrow> exn + pyval"
  format_status :: "run_status \<Rightarrow> string"

text \<open>\<^verbatim>\<open>query[:100]\<close>, evaluated for the log line of \<^verbatim>\<open>db_call\<close>: only sequences can be sliced.\<close>

fun query_slice :: "pyval \<Rightarrow> exn + unit" where
  "query_slice (PyStr _) = Inr ()"
| "query_slice (PyList _) = Inr ()"
| "query_slice (PyDict _) = Inl (PyException (''unhashable type: '' @ quoted ''slice''))"
| "query_slice v = Inl (PyException (quoted (py_type_name v) @ '' object is not subscriptable''))"

definition db_call :: "'w agent_manager \<Rightarrow> pyval \<Rightarrow> ('w, query_result) py" where
  "db_call self query =
     py_bind (py_lift (query_slice query)) (\<lambda>_.
       execute_query (db_engine self) (connection_string self) query)"

definition register_tools :: pyval where
  "register_tools =
     PyList [PyDict
       [(''type'', PyStr ''function''),
        (''function'', PyDict
          [(''name'', PyStr ''db_call''),
           (''description'', PyStr ''Execute SQL queries on the PostgreSQL database''),
           (''parameters'', PyDict
             [(''type'', PyStr ''object''),
              (''properties'', PyDict
                [(''query'', PyDict
                  [(''type'', PyStr ''string''),
                   (''description'', PyStr ''The SQL query to execute'')])]),
              (''required'', PyList [PyStr ''query''])])])]]"

text \<open>\<^verbatim>\<open>args.get("query", "")\<close>: only a dictionary has \<^verbatim>\<open>get\<close>.\<close>

fun args_get_query :: "pyval \<Rightarrow> exn + pyval" where
  "args_get_query (PyDict kvs) =
     Inr (case map_of kvs ''query'' of Some v \<Rightarrow> v | None \<Rightarrow> PyStr [])"
| "args_get_query v =
     Inl (PyException (quoted (py_type_name v) @ '' object has no attribute '' @ quoted ''get''))"

text \<open>
  \<^verbatim>\<open>_handle_tool_calls\<close>: the loop over the requests, with the list \<^verbatim>\<open>tool_outputs\<close>
  built so far. An exception leaves the loop and the function.
\<close>

fun handle_tool_calls ::
  "'w agent_manager \<Rightarrow> tool_call list \<Rightarrow> tool_output list \<Rightarrow> ('w, tool_output list) py" where
  "handle_tool_calls self [] tool_outputs = py_return tool_outputs"
| "handle_tool_calls self (tc # tool_calls) tool_outputs =
     (if fn_name tc = ''db_call'' then
        py_bind (py_lift (json_loads self (fn_arguments tc))) (\<lambda>args.
        py_bind (py_lift (args_get_query args)) (\<lambda>query.
        py_bind (db_call self query) (\<lambda>result.
        py_bind (py_lift (json_dumps (result_dict result))) (\<lambda>body.
          handle_tool_calls self tool_calls
            (tool_outputs @ [\<lparr>tool_call_id = tc_id tc, output_text = body\<rparr>])))))
      else handle_tool_calls self tool_calls tool_outputs)"

text \<open>The statements before the loop (lines 121 to 136): thread, message, run.\<close>

definition start_run :: "'w agent_manager \<Rightarrow> string \<Rightarrow> ('w, string \<times> run) py" where
  "start_run self user_message =
     py_bind (call CreateThread (create_thread (project_client self))) (\<lambda>thread_id.
     py_bind (call (CreateMessage thread_id ''user'' user_message)
               (create_message (project_client self) thread_id ''user'' user_message)) (\<lambda>_.
     py_bind (call (CreateRun thread_id (master_agent_id self))
               (create_run (project_client self) thread_id (master_agent_id self) register_tools))
       (\<lambda>run. py_return (thread_id, run))))"

definition polling :: "run_status \<Rightarrow> bool" where
  "polling st = (st \<in> set [QUEUED, IN_PROGRESS, REQUIRES_ACTION])"

definition tool_calls_of :: "run \<Rightarrow> exn + tool_call list" where
  "tool_calls_of r =
     (case required_action r of
        None \<Rightarrow>
          Inl (PyException
                (quoted ''NoneType'' @ '' object has no attribute '' @ quoted ''submit_tool_outputs''))
      | Some tcs \<Rightarrow> Inr tcs)"

text \<open>One turn of the \<^verbatim>\<open>while\<close> loop (lines 140 to 152).\<close>

definition poll_step :: "'w agent_manager \<Rightarrow> string \<Rightarrow> run \<Rightarrow> ('w, run) py" where
  "poll_step self thread_id run0 =
     py_bind (call (Sleep 1) (\<lambda>w. (Inr (), w))) (\<lambda>_.
     py_bind (call (GetRun thread_id (run_id run0))
               (get_run (project_client self) thread_id (run_id run0))) (\<lambda>run1.
       if status run1 = REQUIRES_ACTION then
         py_bind (py_lift (tool_calls_of run1)) (\<lambda>tool_calls.
         py_bind (handle_tool_calls self tool_calls []) (\<lambda>tool_outputs.
           call (SubmitToolOutputs thread_id (run_id run1) tool_outputs)
             (submit_tool_outputs_to_run (project_client self) thread_id (run_id run1)
                tool_outputs)))
       else py_return run1))"

text \<open>
  The \<^verbatim>\<open>while\<close> loop. It has no bound: the result is \<open>None\<close> when the loop never ends.
\<close>

partial_function (option) poll_loop ::
  "'w agent_manager \<Rightarrow> string \<Rightarrow> run \<Rightarrow> 'w state \<Rightarrow> ((exn + run) \<times> 'w state) option" where
  "poll_loop self thread_id run0 s =
     (if polling (status run0) then
        (case poll_step self thread_id run0 s of
           (Inl e, s') \<Rightarrow> Some (Inl e, s')
         | (Inr run1, s') \<Rightarrow> poll_loop self thread_id run1 s')
      else Some (Inr run0, s))"

declare poll_loop.simps [code]

text \<open>The same loop cut off after \<open>n\<close> turns: \<open>None\<close> when it has not ended by then.\<close>

fun poll_loop_within ::
  "nat \<Rightarrow> 'w agent_manager \<Rightarrow> string \<Rightarrow> run \<Rightarrow> 'w state \<Rightarrow> ((exn + run) \<times> 'w state) option" where
  "poll_loop_within 0 self thread_id run0 s =
     (if polling (status run0) then None else Some (Inr run0, s))"
| "poll_loop_within (Suc n) self thread_id run0 s =
     (if polling (status run0) then
        (case poll_step self thread_id run0 s of
           (Inl e, s') \<Rightarrow> Some (Inl e, s')
         | (Inr run1, s') \<Rightarrow> poll_loop_within n self thread_id run1 s')
      else Some (Inr run0, s))"

text \<open>\<^verbatim>\<open>message.content[0].text.value\<close>.\<close>

fun message_text :: "thread_message \<Rightarrow> exn + string" where
  "message_text m =
     (case content m of
        [] \<Rightarrow> Inl (PyException ''list index out of range'')
      | TextContent t # _ \<Rightarrow> Inr t
      | OtherContent c # _ \<Rightarrow>
          Inl (PyException (quoted c @ '' object has no attribute '' @ quoted ''text'')))"

text \<open>The \<^verbatim>\<open>for\<close> loop over \<^verbatim>\<open>messages.data\<close> and the \<^verbatim>\<open>return\<close> after it (lines 159 to 163).\<close>

fun assistant_reply :: "thread_message list \<Rightarrow> exn + string" where
  "assistant_reply [] = Inr ''No response received from agent''"
| "assistant_reply (m # ms) =
     (if role m = ''assistant'' then message_text m else assistant_reply ms)"

text \<open>The statements after the loop (lines 154 to 165).\<close>

definition final_response :: "'w agent_manager \<Rightarrow> string \<Rightarrow> run \<Rightarrow> ('w, string) py" where
  "final_response self thread_id run1 =
     (if status run1 = COMPLETED then
        py_bind (call (ListMessages thread_id) (list_messages (project_client self) thread_id))
          (\<lambda>messages. py_lift (assistant_reply messages))
      else py_return (''Run failed with status: '' @ format_status self (status run1)))"

text \<open>The body of the \<^verbatim>\<open>try\<close> of \<^verbatim>\<open>chat_with_master_agent\<close> (lines 121 to 165).\<close>

definition chat_body ::
  "'w agent_manager \<Rightarrow> string \<Rightarrow> 'w state \<Rightarrow> ((exn + string) \<times> 'w state) option" where
  "chat_body self user_message s =
     (case start_run self user_message s of
        (Inl e, s1) \<Rightarrow> Some (Inl e, s1)
      | (Inr (thread_id, run0), s1) \<Rightarrow>
          (case poll_loop self thread_id run0 s1 of
             None \<Rightarrow> None
           | Some (Inl e, s2) \<Rightarrow> Some (Inl e, s2)
           | Some (Inr run1, s2) \<Rightarrow> Some (final_response self thread_id run1 s2)))"

text \<open>\<^verbatim>\<open>chat_with_master_agent\<close>: the body under its handler (lines 167 to 169).\<close>

definition chat_with_master_agent ::
  "'w agent_manager \<Rightarrow> string \<Rightarrow> 'w state \<Rightarrow> ((exn + string) \<times> 'w state) option" where
  "chat_with_master_agent self user_message s =
     (case chat_body self user_message s of
        None \<Rightarrow> None
      | Some (Inl e, s') \<Rightarrow> Some (Inr (''Error: '' @ exn_str e), s')
      | Some (Inr text, s') \<Rightarrow> Some (Inr text, s'))"

section \<open>A world to run the model on\<close>

text \<open>
  The world of the runs below is a journal, the statements of the open transaction and the
  statements committed so far, with the script of the agent service: the runs it will
  answer with, in order.
\<close>

record sim =
  pending :: "pyval list"
  committed :: "pyval list"
  script :: "run list"

definition sim0 :: "run list \<Rightarrow> sim" where
  "sim0 rs = \<lparr>pending = [], committed = [], script = rs\<rparr>"

text \<open>
  An engine on that world. Every call succeeds except the execution of a statement listed
  in \<open>bad\<close>, which raises the engine's error for it. \<open>fetchall\<close> returns \<open>rows\<close>,
  \<open>description\<close> is \<open>desc\<close> and \<open>rowcount\<close> is \<open>rc\<close>.
\<close>

definition journal_engine ::
  "pyval list list \<Rightarrow> (string \<times> nat) list option \<Rightarrow> int \<Rightarrow> (pyval \<times> string) list
     \<Rightarrow> sim engine" where
  "journal_engine rows desc rc bad =
     \<lparr>connect = (\<lambda>_ w. (Inr (), w)),
      cursor = (\<lambda>w. (Inr (), w)),
      execute = (\<lambda>q w. case map_of bad q of
                          Some m \<Rightarrow> (Inl (Psycopg2Error m), w)
                        | None \<Rightarrow> (Inr (), w\<lparr>pending := pending w @ [q]\<rparr>)),
      fetchall = (\<lambda>w. (Inr rows, w)),
      description = (\<lambda>_. desc),
      rowcount = (\<lambda>_. rc),
      commit = (\<lambda>w. (Inr (), w\<lparr>committed := committed w @ pending w, pending := []\<rparr>)),
      rollback = (\<lambda>w. (Inr (), w\<lparr>pending := []\<rparr>)),
      close = (\<lambda>w. (Inr (), w))\<rparr>"

text \<open>
  A service on that world. Creating, fetching and submitting to a run each answer with the
  next run of the script, or with \<open>idle\<close> once the script is used up; the thread holds
  the messages \<open>msgs\<close>.
\<close>

definition next_run :: "exn + run \<Rightarrow> sim \<Rightarrow> (exn + run) \<times> sim" where
  "next_run idle w =
     (case script w of [] \<Rightarrow> (idle, w) | r # rs \<Rightarrow> (Inr r, w\<lparr>script := rs\<rparr>))"

definition scripted_remote :: "thread_message list \<Rightarrow> exn + run \<Rightarrow> sim remote" where
  "scripted_remote msgs idle =
     \<lparr>create_thread = (\<lambda>w. (Inr ''thread_1'', w)),
      create_message = (\<lambda>_ _ _ w. (Inr (), w)),
      create_run = (\<lambda>_ _ _. next_run idle),
      get_run = (\<lambda>_ _. next_run idle),
      submit_tool_outputs_to_run = (\<lambda>_ _ _. next_run idle),
      list_messages = (\<lambda>_ w. (Inr msgs, w))\<rparr>"

text \<open>A json.loads for the runs below: the texts of \<open>table\<close> parse, any other text does not.\<close>

definition table_loads :: "(string \<times> pyval) list \<Rightarrow> string \<Rightarrow> exn + pyval" where
  "table_loads table text =
     (case map_of table text of
        Some v \<Rightarrow> Inr v
      | None \<Rightarrow> Inl (PyException ''Expecting value: line 1 column 1 (char 0)''))"

text \<open>
  A status printed as class and member name, as Python 3.11 and later print a member of
  an enum class: the member's name is its value in upper case.
\<close>

fun member_format :: "run_status \<Rightarrow> string" where
  "member_format QUEUED = ''RunStatus.QUEUED''"
| "member_format IN_PROGRESS = ''RunStatus.IN_PROGRESS''"
| "member_format REQUIRES_ACTION = ''RunStatus.REQUIRES_ACTION''"
| "member_format COMPLETED = ''RunStatus.COMPLETED''"
| "member_format (OtherStatus v) = ''RunStatus.'' @ upper v"

text \<open>
  An agent manager on that world: the scripted service, the journal engine (which, as
  psycopg2 does, refuses to execute the empty statement), a \<^verbatim>\<open>json.loads\<close> that knows
  the two argument texts \<^verbatim>\<open>{"query": "SELECT 1"}\<close> and \<^verbatim>\<open>{}\<close>, and statuses printed as
  class and member name.
\<close>

definition demo_manager ::
  "thread_message list \<Rightarrow> exn + run \<Rightarrow> pyval list list \<Rightarrow> (string \<times> nat) list option
     \<Rightarrow> sim agent_manager" where
  \<open>demo_manager msgs idle rows desc =
     \<lparr>project_client = scripted_remote msgs idle,
      db_engine = journal_engine rows desc 0 [(PyStr [], ''can't execute an empty query'')],
      connection_string = ''postgresql://db'',
      master_agent_id = ''asst_1'',
      json_loads = table_loads
        [(''{"query": "SELECT 1"}'', PyDict [(''query'', PyStr ''SELECT 1'')]),
         (''{}'', PyDict [])],
      format_status = member_format\<rparr>\<close>

text \<open>The same manager on the world with the record: the engine logged, the rest unchanged.\<close>

definition on_fst :: "('w \<Rightarrow> 'a \<times> 'w) \<Rightarrow> 'w \<times> 'l \<Rightarrow> 'a \<times> ('w \<times> 'l)" where
  "on_fst f wl = (case f (fst wl) of (r, w') \<Rightarrow> (r, (w', snd wl)))"

definition logged_manager :: "'w agent_manager \<Rightarrow> ('w \<times> response list) agent_manager" where
  "logged_manager self =
     \<lparr>project_client =
        \<lparr>create_thread = on_fst (create_thread (project_client self)),
         create_message = (\<lambda>t r c. on_fst (create_message (project_client self) t r c)),
         create_run = (\<lambda>t a tools. on_fst (create_run (project_client self) t a tools)),
         get_run = (\<lambda>t r. on_fst (get_run (project_client self) t r)),
         submit_tool_outputs_to_run =
           (\<lambda>t r outs. on_fst (submit_tool_outputs_to_run (project_client self) t r outs)),
         list_messages = (\<lambda>t. on_fst (list_messages (project_client self) t))\<rparr>,
      db_engine = logged (db_engine self),
      connection_string = connection_string self,
      master_agent_id = master_agent_id self,
      json_loads = json_loads self,
      format_status = format_status self\<rparr>"

text \<open>
  Three notions for the tool gateway. The rows recorded in a stretch of the record are
  serialisable when \<^verbatim>\<open>json.dumps\<close> knows every cell; a computation fetches what it
  returns when its result can be serialised as soon as the rows it added to the record are
  serialisable; and the arguments of a request are well formed when they parse as a JSON
  object in which \<^verbatim>\<open>query\<close> is absent, a string or an array.
\<close>

definition serialisable_rows :: "response list \<Rightarrow> bool" where
  "serialisable_rows new =
     (\<forall>rows. Fetched rows \<in> set new
        \<longrightarrow> (\<forall>row \<in> set rows. \<forall>v \<in> set row. first_opaque v = None))"

definition fetches :: "('w \<Rightarrow> response list) \<Rightarrow> ('w, query_result) py \<Rightarrow> bool" where
  "fetches responses m =
     (\<forall>s r s'. m s = (Inr r, s') \<longrightarrow>
        (\<exists>new. responses (fst s') = responses (fst s) @ new
           \<and> (serialisable_rows new \<longrightarrow> first_opaque (result_dict r) = None)))"

definition well_formed :: "'w agent_manager \<Rightarrow> tool_call \<Rightarrow> bool" where
  "well_formed self tc =
     (\<exists>args q. json_loads self (fn_arguments tc) = Inr args \<and> args_get_query args = Inr q
        \<and> query_slice q = Inr ())"

section \<open>Facts about the monad\<close>

lemma py_bind_InrD:
  "py_bind m f s = (Inr b, s') \<Longrightarrow> \<exists>a s1. m s = (Inr a, s1) \<and> f a s1 = (Inr b, s')"
  by (auto simp: py_bind_def split: prod.splits sum.splits)

lemma py_lift_Inr: "py_bind (py_lift (Inr a)) f s = f a s"
  by (simp add: py_bind_def py_lift_def)

lemma with_exit_InrD:
  "with_exit body on_ok on_exn s = (Inr v, s') \<Longrightarrow> \<exists>s1. body s = (Inr v, s1)"
  by (auto simp: with_exit_def split: prod.splits sum.splits)

section \<open>Facts about strings and dictionaries\<close>

lemmas str_tests =
  is_select_def is_update_def startswith_def upper_def upper_char_def strip_def is_space_def

lemma update_not_select: "is_update q \<Longrightarrow> \<not> is_select q"
  by (auto simp: is_select_def is_update_def startswith_def)

lemma empty_not_select: "\<not> is_select []"
  by (simp add: str_tests)

lemma empty_not_update: "\<not> is_update []"
  by (simp add: str_tests)

lemma foldl_update_map_of:
  "map_of (foldl (\<lambda>d kv. AList.update (fst kv) (snd kv) d) d kvs) = map_of d ++ map_of (rev kvs)"
proof (induction kvs arbitrary: d)
  case Nil
  show ?case by simp
next
  case (Cons kv kvs)
  have "map_of (AList.update (fst kv) (snd kv) d) ++ map_of (rev kvs)
        = map_of d ++ (map_of [kv] ++ map_of (rev kvs))"
    by (cases kv) (simp add: update_conv' map_add_def fun_eq_iff split: option.splits)
  with Cons show ?case by simp
qed

lemma py_dict_map_of: "map_of (py_dict kvs) = map_of (rev kvs)"
  by (simp add: py_dict_def foldl_update_map_of)

lemma foldl_update_keys:
  "fst ` set (foldl (\<lambda>d kv. AList.update (fst kv) (snd kv) d) d kvs)
     = fst ` set d \<union> fst ` set kvs"
proof (induction kvs arbitrary: d)
  case Nil
  show ?case by simp
next
  case (Cons kv kvs)
  have "fst ` set (AList.update (fst kv) (snd kv) d) \<union> fst ` set kvs
        = fst ` set d \<union> fst ` set (kv # kvs)"
    unfolding dom_update by auto
  with Cons [of "AList.update (fst kv) (snd kv) d"] show ?case by simp
qed

lemma py_dict_keys: "set (map fst (py_dict kvs)) = set (map fst kvs)"
  by (simp add: py_dict_def foldl_update_keys)

lemma foldl_update_distinct:
  "distinct (map fst d)
     \<Longrightarrow> distinct (map fst (foldl (\<lambda>d kv. AList.update (fst kv) (snd kv) d) d kvs))"
  by (induction kvs arbitrary: d) (simp_all add: distinct_update)

lemma py_dict_distinct: "distinct (map fst (py_dict kvs))"
  by (simp add: py_dict_def foldl_update_distinct)

lemma update_fresh: "k \<notin> set (map fst d) \<Longrightarrow> AList.update k v d = d @ [(k, v)]"
  by (induction d) auto

lemma foldl_update_fresh:
  "distinct (map fst (d @ kvs))
     \<Longrightarrow> foldl (\<lambda>d kv. AList.update (fst kv) (snd kv) d) d kvs = d @ kvs"
proof (induction kvs arbitrary: d)
  case Nil
  show ?case by simp
next
  case (Cons kv kvs)
  from Cons.prems have fresh: "fst kv \<notin> set (map fst d)" by auto
  from Cons.prems have "distinct (map fst ((d @ [kv]) @ kvs))" by simp
  from Cons.IH [OF this] fresh show ?case by (simp add: update_fresh)
qed

lemma py_dict_distinct_keys: "distinct (map fst kvs) \<Longrightarrow> py_dict kvs = kvs"
  using foldl_update_fresh [of "[]" kvs] by (simp add: py_dict_def)

lemma foldl_update_values:
  "set (foldl (\<lambda>d kv. AList.update (fst kv) (snd kv) d) d kvs) \<subseteq> set d \<union> set kvs"
proof (induction kvs arbitrary: d)
  case Nil
  show ?case by simp
next
  case (Cons kv kvs)
  have "set (AList.update (fst kv) (snd kv) d) \<subseteq> insert kv (set d)"
    by (induction d) auto
  with Cons [of "AList.update (fst kv) (snd kv) d"] show ?case by auto
qed

lemma py_dict_subset: "set (py_dict kvs) \<subseteq> set kvs"
  using foldl_update_values [of "[]" kvs] by (simp add: py_dict_def)

section \<open>The paths through \<^verbatim>\<open>execute_query\<close>\<close>

lemma failure_shape_failure: "failure_shape (failure m)"
  by (simp add: failure_shape_def failure_def)

lemma select_branch_shape: "select_branch E s = (Inr r, s') \<Longrightarrow> success_shape r"
  unfolding select_branch_def
  by (auto dest!: py_bind_InrD simp: py_return_def py_raise_def success_shape_def Let_def
      split: option.splits)

lemma update_branch_shape: "update_branch E s = (Inr r, s') \<Longrightarrow> success_shape r"
  unfolding update_branch_def
  by (auto dest!: py_bind_InrD simp: py_return_def success_shape_def Let_def)

lemma run_statement_shape:
  "run_statement E q s = (Inr r, s') \<Longrightarrow> success_shape r \<or> failure_shape r"
  unfolding run_statement_def
  by (auto dest!: py_bind_InrD select_branch_shape update_branch_shape
      simp: py_return_def unsupported_def failure_shape_failure split: if_splits)

lemma run_statement_rejects:
  "run_statement E (PyStr q) s = (Inr r, s') \<Longrightarrow> \<not> is_select q \<Longrightarrow> \<not> is_update q
     \<Longrightarrow> r = unsupported"
  unfolding run_statement_def
  by (auto dest!: py_bind_InrD simp: py_return_def py_lift_def)

lemma execute_query_body_shape:
  "execute_query_body E cs q s = (Inr r, s') \<Longrightarrow> success_shape r \<or> failure_shape r"
  unfolding execute_query_body_def
  by (blast dest: py_bind_InrD with_exit_InrD run_statement_shape)

lemma execute_query_body_rejects:
  "execute_query_body E cs (PyStr q) s = (Inr r, s') \<Longrightarrow> \<not> is_select q \<Longrightarrow> \<not> is_update q
     \<Longrightarrow> r = unsupported"
  unfolding execute_query_body_def
  by (blast dest: py_bind_InrD with_exit_InrD run_statement_rejects)

lemma execute_query_cases:
  obtains (returned) r s' where "execute_query_body E cs q s = (Inr r, s')"
      and "execute_query E cs q s = (Inr r, s')"
    | (engine_error) m s' where "execute_query_body E cs q s = (Inl (Psycopg2Error m), s')"
      and "execute_query E cs q s = (Inr (failure m), s')"
    | (unexpected) m s' where "execute_query_body E cs q s = (Inl (PyException m), s')"
      and "execute_query E cs q s = (Inr (failure (''Unexpected error: '' @ m)), s')"
proof -
  obtain res s1 where body: "execute_query_body E cs q s = (res, s1)"
    by (cases "execute_query_body E cs q s")
  show thesis
  proof (cases res)
    case (Inr r)
    with body show thesis by (intro returned [of r s1]) (simp_all add: execute_query_def)
  next
    case (Inl e)
    with body show thesis
      by (cases e)
        (simp_all add: execute_query_def engine_error [of _ s1] unexpected [of _ s1])
  qed
qed

lemma execute_query_total: "\<exists>r s'. execute_query E cs q s = (Inr r, s')"
  by (rule execute_query_cases [of E cs q s]) blast+

lemma execute_query_shape:
  assumes "execute_query E cs q s = (Inr r, s')"
  shows "success_shape r \<or> failure_shape r"
  using assms
  by (rule_tac execute_query_cases [of E cs q s])
    (auto dest: execute_query_body_shape simp: failure_shape_failure)

lemma execute_query_rejects:
  assumes "execute_query E cs (PyStr q) s = (Inr r, s')" "\<not> is_select q" "\<not> is_update q"
  shows "failure_shape r"
  using assms
  by (rule_tac execute_query_cases [of E cs "PyStr q" s])
    (auto dest: execute_query_body_rejects simp: failure_shape_failure unsupported_def)

text \<open>Two paths: a statement that is neither SELECT nor UPDATE, and a failing execution.\<close>

lemma rejected_path:
  assumes "\<not> is_select q" and "\<not> is_update q"
    and "connect E cs w0 = (Inr (), w1)" and "cursor E w1 = (Inr (), w2)"
    and "execute E (PyStr q) w2 = (Inr (), w3)"
    and "close E w3 = (Inr (), w4)" and "commit E w4 = (Inr (), w5)"
  shows "execute_query E cs (PyStr q) (w0, tr) =
           (Inr unsupported,
            (w5, tr @ [DbConnect cs, DbCursor, DbExecute (PyStr q), DbClose, DbCommit]))"
proof -
  have "run_statement E (PyStr q) (w2, tr @ [DbConnect cs, DbCursor]) =
          (Inr unsupported, (w3, tr @ [DbConnect cs, DbCursor, DbExecute (PyStr q)]))"
    using assms(1,2,5)
    by (simp add: run_statement_def py_bind_def call_def py_lift_def py_return_def)
  then show ?thesis
    using assms(3,4,6,7)
    by (simp add: execute_query_def execute_query_body_def py_bind_def call_def with_exit_def)
qed

lemma execute_error_path:
  assumes "connect E cs w0 = (Inr (), w1)" and "cursor E w1 = (Inr (), w2)"
    and "execute E q w2 = (Inl e, w3)"
    and "close E w3 = (Inr (), w4)" and "rollback E w4 = (Inr (), w5)"
  shows "execute_query_body E cs q (w0, tr) =
           (Inl e, (w5, tr @ [DbConnect cs, DbCursor, DbExecute q, DbClose, DbRollback]))"
proof -
  have "run_statement E q (w2, tr @ [DbConnect cs, DbCursor]) =
          (Inl e, (w3, tr @ [DbConnect cs, DbCursor, DbExecute q]))"
    using assms(3) by (simp add: run_statement_def py_bind_def call_def)
  then show ?thesis
    using assms(1,2,4,5)
    by (simp add: execute_query_body_def py_bind_def call_def with_exit_def)
qed

lemmas sim_defs = journal_engine_def sim0_def

lemma digit_char_value: "d < 10 \<Longrightarrow> of_char (digit_char d) = 48 + d"
proof -
  assume "d < 10"
  then have "d \<in> {0, 1, 2, 3, 4, 5, 6, 7, 8, 9}" by auto
  then show ?thesis by (auto simp: digit_char_def)
qed

text \<open>\<open>str_nat\<close> writes a number in decimal: reading the digits back gives the number.\<close>

lemma digits_snoc:
  "(\<Sum>i<length (ds @ [c]). (of_char ((ds @ [c]) ! i) - 48) * 10 ^ (length (ds @ [c]) - Suc i))
   = 10 * (\<Sum>i<length ds. (of_char (ds ! i) - 48) * 10 ^ (length ds - Suc i))
     + (of_char c - 48 :: nat)"
proof -
  have "(of_char ((ds @ [c]) ! i) - 48) * 10 ^ (length ds - i)
        = 10 * ((of_char (ds ! i) - 48) * 10 ^ (length ds - Suc i) :: nat)"
    if "i < length ds" for i
  proof -
    from that have "length ds - i = Suc (length ds - Suc i)" by simp
    with that show ?thesis by (simp add: nth_append)
  qed
  then have "(\<Sum>i<length ds. (of_char ((ds @ [c]) ! i) - 48) * 10 ^ (length ds - i))
        = (\<Sum>i<length ds. 10 * ((of_char (ds ! i) - 48) * 10 ^ (length ds - Suc i) :: nat))"
    by (intro sum.cong) simp_all
  then show ?thesis by (simp add: sum_distrib_left)
qed

lemma below_ten: "d < 10 \<Longrightarrow> d \<in> {0, 1, 2, 3, 4, 5, 6, 7, 8, 9 :: nat}"
  by auto

lemma str_nat_decimal:
  "str_nat n \<noteq> []
   \<and> set (str_nat n) \<subseteq> set ''0123456789''
   \<and> (\<Sum>i<length (str_nat n). (of_char (str_nat n ! i) - 48) * 10 ^ (length (str_nat n) - Suc i)) = n
   \<and> (hd (str_nat n) = CHR ''0'' \<longrightarrow> n = 0)"
proof (induction n rule: str_nat.induct)
  case (1 n)
  show ?case
  proof (cases "n < 10")
    case True
    then have n: "n \<in> {0, 1, 2, 3, 4, 5, 6, 7, 8, 9}" by (rule below_ten)
    have "str_nat n = [digit_char n]" using True by (subst str_nat.simps) simp
    with n show ?thesis by (auto simp: digit_char_def)
  next
    case False
    have unfold: "str_nat n = str_nat (n div 10) @ [digit_char (n mod 10)]"
      using False by (subst str_nat.simps) simp
    from False 1 have IH: "str_nat (n div 10) \<noteq> []"
      "set (str_nat (n div 10)) \<subseteq> set ''0123456789''"
      "(\<Sum>i<length (str_nat (n div 10)).
          (of_char (str_nat (n div 10) ! i) - 48) * 10 ^ (length (str_nat (n div 10)) - Suc i))
       = n div 10"
      "hd (str_nat (n div 10)) = CHR ''0'' \<longrightarrow> n div 10 = 0"
      by simp_all
    have "n mod 10 \<in> {0, 1, 2, 3, 4, 5, 6, 7, 8, 9}" by (rule below_ten) simp
    then have d: "digit_char (n mod 10) \<in> set ''0123456789''"
      by (auto simp: digit_char_def)
    have v: "of_char (digit_char (n mod 10)) - 48 = n mod 10"
      using digit_char_value [of "n mod 10"] by simp
    from False have "n div 10 \<noteq> 0" by simp
    with IH(1,4) have "hd (str_nat n) \<noteq> CHR ''0''"
      by (simp add: unfold)
    moreover have "(\<Sum>i<length (str_nat n).
        (of_char (str_nat n ! i) - 48) * 10 ^ (length (str_nat n) - Suc i)) = n"
      unfolding unfold digits_snoc IH(3) v by simp
    ultimately show ?thesis using IH(2) d by (simp add: unfold)
  qed
qed

lemma str_int_decimal:
  "\<exists>ds. str_int m = (if m < 0 then ''-'' else []) @ ds
     \<and> ds \<noteq> [] \<and> set ds \<subseteq> set ''0123456789''
     \<and> (\<Sum>i<length ds. (of_char (ds ! i) - 48) * 10 ^ (length ds - Suc i)) = nat \<bar>m\<bar>
     \<and> (hd ds = CHR ''0'' \<longrightarrow> m = 0)"
proof -
  define ds where "ds = str_nat (nat \<bar>m\<bar>)"
  have sign: "str_int m = (if m < 0 then ''-'' else []) @ ds"
    by (cases "m < 0") (simp_all add: str_int_def ds_def abs_if)
  from str_nat_decimal [of "nat \<bar>m\<bar>"]
  have "ds \<noteq> []" and "set ds \<subseteq> set ''0123456789''"
    and "(\<Sum>i<length ds. (of_char (ds ! i) - 48) * 10 ^ (length ds - Suc i)) = nat \<bar>m\<bar>"
    and "hd ds = CHR ''0'' \<longrightarrow> nat \<bar>m\<bar> = 0"
    unfolding ds_def by blast+
  moreover from this(4) have "hd ds = CHR ''0'' \<longrightarrow> m = 0" by auto
  ultimately show ?thesis using sign by blast
qed

section \<open>Facts about the record of the engine's answers\<close>

lemma raised_append: "raised (xs @ ys) = raised xs @ raised ys"
  by (induction xs rule: raised.induct) simp_all

lemma logs_responses_logged: "logs_responses (logged E) snd"
  by (simp add: logs_responses_def logs_call_def logged_def logged_call_def
      split: prod.splits sum.splits)

lemma strict_call:
  assumes "logs_call responses entry f" and "\<And>a. raised (entry a) = []"
  shows "strict responses (call ev f)"
  unfolding strict_def
proof (intro allI impI)
  fix s r s'
  assume run: "call ev f s = (r, s')"
  obtain r0 w' where f: "f (fst s) = (r0, w')" by (cases "f (fst s)")
  with run have r: "r = r0" and s': "s' = (w', snd s @ [ev])" by (simp_all add: call_def)
  from assms(1) f have log: "case r0 of
      Inl e \<Rightarrow> responses w' = responses (fst s) @ [Raised e]
    | Inr a \<Rightarrow> responses w' = responses (fst s) @ entry a"
    unfolding logs_call_def by (drule_tac x = "fst s" in spec) simp
  show "\<exists>new. responses (fst s') = responses (fst s) @ new
           \<and> (case r of
                 Inr _ \<Rightarrow> raised new = []
               | Inl e \<Rightarrow> raised new \<noteq> [] \<and> last (raised new) = e)"
  proof (cases r0)
    case (Inl e)
    with log r s' show ?thesis by (intro exI [of _ "[Raised e]"]) simp
  next
    case (Inr a)
    with log r s' assms(2) [of a] show ?thesis by (intro exI [of _ "entry a"]) simp
  qed
qed

lemma strict_tracks: "strict responses m \<Longrightarrow> tracks responses m"
  unfolding strict_def tracks_def
proof (intro allI impI)
  fix s r s'
  assume all: "\<forall>s r s'. m s = (r, s') \<longrightarrow>
        (\<exists>new. responses (fst s') = responses (fst s) @ new
           \<and> (case r of
                 Inr _ \<Rightarrow> raised new = []
               | Inl e \<Rightarrow> raised new \<noteq> [] \<and> last (raised new) = e))"
    and run: "m s = (r, s')"
  then obtain new where "responses (fst s') = responses (fst s) @ new"
    and "case r of Inr _ \<Rightarrow> raised new = []
               | Inl e \<Rightarrow> raised new \<noteq> [] \<and> last (raised new) = e"
    by blast
  then show "\<exists>new. responses (fst s') = responses (fst s) @ new
           \<and> (case r of
                 Inr _ \<Rightarrow> raised new = []
               | Inl e \<Rightarrow> (raised new = [] \<and> (\<exists>m. e = PyException m))
                          \<or> (raised new \<noteq> [] \<and> last (raised new) = e))"
    by (intro exI [of _ new]) (simp split: sum.splits)
qed

lemma tracks_return: "tracks responses (py_return a)"
  by (simp add: tracks_def py_return_def)

lemma tracks_raise: "tracks responses (py_raise (PyException m))"
  by (simp add: tracks_def py_raise_def)

lemma tracks_lift:
  "(\<And>e. r = Inl e \<Longrightarrow> \<exists>m. e = PyException m) \<Longrightarrow> tracks responses (py_lift r)"
  by (cases r) (simp_all add: tracks_def py_lift_def)

lemma tracksD:
  assumes "tracks responses m" and "m s = (r, s')"
  shows "\<exists>new. responses (fst s') = responses (fst s) @ new
    \<and> (\<forall>a. r = Inr a \<longrightarrow> raised new = [])
    \<and> (\<forall>e. r = Inl e \<longrightarrow> (raised new = [] \<and> (\<exists>m. e = PyException m))
                          \<or> (raised new \<noteq> [] \<and> last (raised new) = e))"
proof -
  from assms obtain new where n: "responses (fst s') = responses (fst s) @ new"
    and c: "case r of Inr _ \<Rightarrow> raised new = []
               | Inl e \<Rightarrow> (raised new = [] \<and> (\<exists>m. e = PyException m))
                          \<or> (raised new \<noteq> [] \<and> last (raised new) = e)"
    unfolding tracks_def by blast
  from n c show ?thesis by (intro exI [of _ new]) (simp split: sum.splits)
qed

lemma strictD:
  assumes "strict responses m" and "m s = (r, s')"
  shows "\<exists>new. responses (fst s') = responses (fst s) @ new
    \<and> (\<forall>a. r = Inr a \<longrightarrow> raised new = [])
    \<and> (\<forall>e. r = Inl e \<longrightarrow> raised new \<noteq> [] \<and> last (raised new) = e)"
proof -
  from assms obtain new where n: "responses (fst s') = responses (fst s) @ new"
    and c: "case r of Inr _ \<Rightarrow> raised new = []
               | Inl e \<Rightarrow> raised new \<noteq> [] \<and> last (raised new) = e"
    unfolding strict_def by blast
  from n c show ?thesis by (intro exI [of _ new]) (simp split: sum.splits)
qed

lemma tracksI:
  assumes "\<And>s r s'. m s = (r, s') \<Longrightarrow>
        \<exists>new. responses (fst s') = responses (fst s) @ new
           \<and> (case r of
                 Inr _ \<Rightarrow> raised new = []
               | Inl e \<Rightarrow> (raised new = [] \<and> (\<exists>m. e = PyException m))
                          \<or> (raised new \<noteq> [] \<and> last (raised new) = e))"
  shows "tracks responses m"
  unfolding tracks_def using assms by blast

lemma tracks_bind:
  assumes "tracks responses m" and "\<And>a. tracks responses (f a)"
  shows "tracks responses (py_bind m f)"
proof (rule tracksI)
  fix s r s'
  assume run: "py_bind m f s = (r, s')"
  obtain r1 s1 where m: "m s = (r1, s1)" by (cases "m s")
  from tracksD [OF assms(1) m] obtain new1 where n1: "responses (fst s1) = responses (fst s) @ new1"
    and ok1: "\<forall>a. r1 = Inr a \<longrightarrow> raised new1 = []"
    and bad1: "\<forall>e. r1 = Inl e \<longrightarrow> (raised new1 = [] \<and> (\<exists>m. e = PyException m))
                          \<or> (raised new1 \<noteq> [] \<and> last (raised new1) = e)"
    by blast
  show "\<exists>new. responses (fst s') = responses (fst s) @ new
           \<and> (case r of
                 Inr _ \<Rightarrow> raised new = []
               | Inl e \<Rightarrow> (raised new = [] \<and> (\<exists>m. e = PyException m))
                          \<or> (raised new \<noteq> [] \<and> last (raised new) = e))"
  proof (cases r1)
    case (Inl e)
    with run m have "r = Inl e" "s' = s1" by (simp_all add: py_bind_def)
    with n1 bad1 Inl show ?thesis by (intro exI [of _ new1]) simp
  next
    case (Inr a)
    with run m have f: "f a s1 = (r, s')" by (simp add: py_bind_def)
    from tracksD [OF assms(2) [of a] f] obtain new2 where n2: "responses (fst s') = responses (fst s1) @ new2"
    and ok2: "\<forall>b. r = Inr b \<longrightarrow> raised new2 = []"
    and bad2: "\<forall>e. r = Inl e \<longrightarrow> (raised new2 = [] \<and> (\<exists>m. e = PyException m))
                          \<or> (raised new2 \<noteq> [] \<and> last (raised new2) = e)"
    by blast
    from ok1 Inr have r12: "raised (new1 @ new2) = raised new2"
      by (simp add: raised_append)
    show ?thesis
    proof (cases r)
      case (Inl e)
      with n1 n2 r12 bad2 Inl show ?thesis by (intro exI [of _ "new1 @ new2"]) simp
    next
      case (Inr b)
      with n1 n2 r12 ok2 Inr show ?thesis by (intro exI [of _ "new1 @ new2"]) simp
    qed
  qed
qed

lemma tracks_with_exit:
  assumes "tracks responses body" and "strict responses on_ok" and "strict responses on_exn"
  shows "tracks responses (with_exit body on_ok on_exn)"
proof (rule tracksI)
  fix s r s'
  assume run: "with_exit body on_ok on_exn s = (r, s')"
  obtain r1 s1 where b: "body s = (r1, s1)" by (cases "body s")
  from tracksD [OF assms(1) b] obtain new1 where n1: "responses (fst s1) = responses (fst s) @ new1"
    and ok1: "\<forall>a. r1 = Inr a \<longrightarrow> raised new1 = []"
    and bad1: "\<forall>e. r1 = Inl e \<longrightarrow> (raised new1 = [] \<and> (\<exists>m. e = PyException m))
                          \<or> (raised new1 \<noteq> [] \<and> last (raised new1) = e)"
    by blast
  show "\<exists>new. responses (fst s') = responses (fst s) @ new
           \<and> (case r of
                 Inr _ \<Rightarrow> raised new = []
               | Inl e \<Rightarrow> (raised new = [] \<and> (\<exists>m. e = PyException m))
                          \<or> (raised new \<noteq> [] \<and> last (raised new) = e))"
  proof (cases r1)
    case (Inr v)
    obtain r2 s2 where x: "on_ok s1 = (r2, s2)" by (cases "on_ok s1")
    from strictD [OF assms(2) x] obtain new2 where n2: "responses (fst s2) = responses (fst s1) @ new2"
    and ok2: "\<forall>a. r2 = Inr a \<longrightarrow> raised new2 = []"
    and bad2: "\<forall>e. r2 = Inl e \<longrightarrow> raised new2 \<noteq> [] \<and> last (raised new2) = e"
    by blast
    show ?thesis
    proof (cases r2)
      case (Inl e)
      with run b Inr x have "r = Inl e" "s' = s2" by (simp_all add: with_exit_def)
      with n1 n2 bad2 Inl show ?thesis
        by (intro exI [of _ "new1 @ new2"]) (simp add: raised_append)
    next
      case r2: (Inr u)
      with run b Inr x have "r = Inr v" "s' = s2" by (simp_all add: with_exit_def)
      with n1 n2 ok1 Inr ok2 r2 show ?thesis
        by (intro exI [of _ "new1 @ new2"]) (simp add: raised_append)
    qed
  next
    case (Inl e)
    obtain r2 s2 where x: "on_exn s1 = (r2, s2)" by (cases "on_exn s1")
    from strictD [OF assms(3) x] obtain new2 where n2: "responses (fst s2) = responses (fst s1) @ new2"
    and ok2: "\<forall>a. r2 = Inr a \<longrightarrow> raised new2 = []"
    and bad2: "\<forall>e. r2 = Inl e \<longrightarrow> raised new2 \<noteq> [] \<and> last (raised new2) = e"
    by blast
    show ?thesis
    proof (cases r2)
      case e': (Inl e')
      with run b Inl x have "r = Inl e'" "s' = s2" by (simp_all add: with_exit_def)
      with n1 n2 bad2 e' show ?thesis
        by (intro exI [of _ "new1 @ new2"]) (simp add: raised_append)
    next
      case (Inr u)
      with run b Inl x have "r = Inl e" "s' = s2" by (simp_all add: with_exit_def)
      with n1 n2 bad1 Inl ok2 Inr show ?thesis
        by (intro exI [of _ "new1 @ new2"]) (simp add: raised_append)
    qed
  qed
qed

lemma logs_responsesD:
  assumes "logs_responses E responses"
  shows "strict responses (call ev1 (connect E cs))"
    and "strict responses (call ev2 (cursor E))"
    and "strict responses (call ev3 (execute E q))"
    and "strict responses (call ev4 (fetchall E))"
    and "strict responses (call ev5 (commit E))"
    and "strict responses (call ev6 (rollback E))"
    and "strict responses (call ev7 (close E))"
  using assms unfolding logs_responses_def by (auto intro!: strict_call)

lemma query_startswith_exn:
  "query_startswith test q = Inl e \<Longrightarrow> \<exists>m. e = PyException m"
  by (cases q) auto

lemma tracks_select_branch:
  assumes "logs_responses E responses"
  shows "tracks responses (select_branch E)"
  unfolding select_branch_def
proof (rule tracks_bind)
  show "tracks responses (call DbFetchall (fetchall E))"
    by (rule strict_tracks, rule logs_responsesD [OF assms])
next
  fix rows
  show "tracks responses (\<lambda>s. case description E (fst s) of
          None \<Rightarrow> py_raise (PyException (quoted ''NoneType'' @ '' object is not iterable'')) s
        | Some desc \<Rightarrow>
            (let columns = map fst desc;
                 data = map (\<lambda>row. py_dict (zip columns row)) rows
             in py_return
                  \<lparr>success = True, data = Some data, row_count = int (length data),
                   columns = Some columns, error = None, message = None\<rparr> s))"
    by (rule tracksI) (auto simp: py_raise_def py_return_def Let_def split: option.splits)
qed

lemma tracks_update_branch:
  assumes "logs_responses E responses"
  shows "tracks responses (update_branch E)"
proof (rule tracksI)
  fix s r s'
  assume run: "update_branch E s = (r, s')"
  have "tracks responses (py_bind (call DbCommit (commit E)) (\<lambda>_.
           py_return
             \<lparr>success = True, data = None, row_count = rowcount E (fst s), columns = None,
              error = None,
              message = Some (''Updated '' @ str_int (rowcount E (fst s)) @ '' row(s)'')\<rparr>))"
    by (intro tracks_bind tracks_return strict_tracks logs_responsesD [OF assms])
  moreover from run have "py_bind (call DbCommit (commit E)) (\<lambda>_.
           py_return
             \<lparr>success = True, data = None, row_count = rowcount E (fst s), columns = None,
              error = None,
              message = Some (''Updated '' @ str_int (rowcount E (fst s)) @ '' row(s)'')\<rparr>) s
         = (r, s')"
    by (simp add: update_branch_def Let_def)
  ultimately show "\<exists>new. responses (fst s') = responses (fst s) @ new
           \<and> (case r of
                 Inr _ \<Rightarrow> raised new = []
               | Inl e \<Rightarrow> (raised new = [] \<and> (\<exists>m. e = PyException m))
                          \<or> (raised new \<noteq> [] \<and> last (raised new) = e))"
    unfolding tracks_def by blast
qed

lemma tracks_run_statement:
  assumes "logs_responses E responses"
  shows "tracks responses (run_statement E q)"
proof -
  have lift: "tracks responses (py_lift (query_startswith test q) :: ('a, bool) py)" for test
    by (rule tracks_lift) (rule query_startswith_exn)
  have upd: "tracks responses (if upd then update_branch E else py_return unsupported)" for upd
    by (simp add: tracks_update_branch [OF assms] tracks_return)
  have rest: "tracks responses
      (py_bind (py_lift (query_startswith is_update q))
         (\<lambda>upd. if upd then update_branch E else py_return unsupported))"
    by (rule tracks_bind [OF lift upd])
  have sel: "tracks responses
      (if sel then select_branch E
       else py_bind (py_lift (query_startswith is_update q))
         (\<lambda>upd. if upd then update_branch E else py_return unsupported))" for sel
    by (simp add: tracks_select_branch [OF assms] rest)
  have "tracks responses (call (DbExecute q) (execute E q))"
    by (rule strict_tracks) (rule logs_responsesD [OF assms])
  then show ?thesis
    unfolding run_statement_def
    by (rule tracks_bind) (rule tracks_bind [OF lift sel])
qed

lemma tracks_execute_query_body:
  assumes "logs_responses E responses"
  shows "tracks responses (execute_query_body E cs q)"
proof -
  have inner: "tracks responses
      (with_exit (run_statement E q) (call DbClose (close E)) (call DbClose (close E)))"
    by (rule tracks_with_exit [OF tracks_run_statement [OF assms]])
      (rule logs_responsesD [OF assms])+
  have "tracks responses (call DbCursor (cursor E))"
    by (rule strict_tracks) (rule logs_responsesD [OF assms])
  then have "tracks responses
      (py_bind (call DbCursor (cursor E)) (\<lambda>_.
            with_exit (run_statement E q) (call DbClose (close E)) (call DbClose (close E))))"
    by (rule tracks_bind) (rule inner)
  then have outer: "tracks responses
      (with_exit
         (py_bind (call DbCursor (cursor E)) (\<lambda>_.
            with_exit (run_statement E q) (call DbClose (close E)) (call DbClose (close E))))
         (call DbCommit (commit E))
         (call DbRollback (rollback E)))"
    by (rule tracks_with_exit) (rule logs_responsesD [OF assms])+
  have "tracks responses (call (DbConnect cs) (connect E cs))"
    by (rule strict_tracks) (rule logs_responsesD [OF assms])
  then show ?thesis
    unfolding execute_query_body_def
    by (rule tracks_bind) (rule outer)
qed

lemma mirrorsI:
  "(\<And>w l tr. m (w, tr) = (fst (m' ((w, l), tr)), erase (snd (m' ((w, l), tr)))))
     \<Longrightarrow> mirrors m m'"
  by (simp add: mirrors_def erase_def)

lemma mirrorsD:
  "mirrors m m' \<Longrightarrow> m' s = (r, s') \<Longrightarrow> m (erase s) = (r, erase s')"
  unfolding mirrors_def by (erule allE [of _ s]) simp

lemma mirrors_return: "mirrors (py_return a) (py_return a)"
  by (simp add: mirrors_def py_return_def)

lemma mirrors_raise: "mirrors (py_raise e) (py_raise e)"
  by (simp add: mirrors_def py_raise_def)

lemma mirrors_lift: "mirrors (py_lift r) (py_lift r)"
  by (simp add: mirrors_def py_lift_def)

lemma mirrors_call: "mirrors (call ev f) (call ev (logged_call entry f))"
  by (simp add: mirrors_def call_def logged_call_def erase_def split: prod.splits sum.splits)

lemma mirrors_bind:
  assumes "mirrors m m'" and "\<And>a. mirrors (f a) (f' a)"
  shows "mirrors (py_bind m f) (py_bind m' f')"
  unfolding mirrors_def
proof
  fix s
  obtain r1 s1 where m': "m' s = (r1, s1)" by (cases "m' s")
  from mirrorsD [OF assms(1) this] have m: "m (erase s) = (r1, erase s1)" .
  show "py_bind m f (erase s) = (fst (py_bind m' f' s), erase (snd (py_bind m' f' s)))"
  proof (cases r1)
    case (Inl e)
    with m m' show ?thesis by (simp add: py_bind_def)
  next
    case (Inr a)
    obtain r2 s2 where f': "f' a s1 = (r2, s2)" by (cases "f' a s1")
    from mirrorsD [OF assms(2) this] have "f a (erase s1) = (r2, erase s2)" .
    with m m' Inr f' show ?thesis by (simp add: py_bind_def)
  qed
qed

lemma mirrors_with_exit:
  assumes "mirrors body body'" and "mirrors on_ok on_ok'" and "mirrors on_exn on_exn'"
  shows "mirrors (with_exit body on_ok on_exn) (with_exit body' on_ok' on_exn')"
  unfolding mirrors_def
proof
  fix s
  obtain r1 s1 where b': "body' s = (r1, s1)" by (cases "body' s")
  from mirrorsD [OF assms(1) this] have b: "body (erase s) = (r1, erase s1)" .
  show "with_exit body on_ok on_exn (erase s)
        = (fst (with_exit body' on_ok' on_exn' s), erase (snd (with_exit body' on_ok' on_exn' s)))"
  proof (cases r1)
    case (Inr v)
    obtain r2 s2 where x': "on_ok' s1 = (r2, s2)" by (cases "on_ok' s1")
    from mirrorsD [OF assms(2) this] have "on_ok (erase s1) = (r2, erase s2)" .
    with b b' Inr x' show ?thesis by (cases r2) (simp_all add: with_exit_def)
  next
    case (Inl e)
    obtain r2 s2 where x': "on_exn' s1 = (r2, s2)" by (cases "on_exn' s1")
    from mirrorsD [OF assms(3) this] have "on_exn (erase s1) = (r2, erase s2)" .
    with b b' Inl x' show ?thesis by (cases r2) (simp_all add: with_exit_def)
  qed
qed

lemma logged_simps:
  "connect (logged E) cs = logged_call (\<lambda>_. []) (connect E cs)"
  "cursor (logged E) = logged_call (\<lambda>_. []) (cursor E)"
  "execute (logged E) q = logged_call (\<lambda>_. []) (execute E q)"
  "fetchall (logged E) = logged_call (\<lambda>rows. [Fetched rows]) (fetchall E)"
  "commit (logged E) = logged_call (\<lambda>_. []) (commit E)"
  "rollback (logged E) = logged_call (\<lambda>_. []) (rollback E)"
  "close (logged E) = logged_call (\<lambda>_. []) (close E)"
  "description (logged E) wl = description E (fst wl)"
  "rowcount (logged E) wl = rowcount E (fst wl)"
  by (simp_all add: logged_def)

lemma mirrors_select_branch: "mirrors (select_branch E) (select_branch (logged E))"
  unfolding select_branch_def logged_simps
proof (rule mirrors_bind [OF mirrors_call])
  fix rows
  show "mirrors
     (\<lambda>s. case description E (fst s) of
          None \<Rightarrow> py_raise (PyException (quoted ''NoneType'' @ '' object is not iterable'')) s
        | Some desc \<Rightarrow>
            (let columns = map fst desc;
                 data = map (\<lambda>row. py_dict (zip columns row)) rows
             in py_return
                  \<lparr>success = True, data = Some data, row_count = int (length data),
                   columns = Some columns, error = None, message = None\<rparr> s))
     (\<lambda>s. case description E (fst (fst s)) of
          None \<Rightarrow> py_raise (PyException (quoted ''NoneType'' @ '' object is not iterable'')) s
        | Some desc \<Rightarrow>
            (let columns = map fst desc;
                 data = map (\<lambda>row. py_dict (zip columns row)) rows
             in py_return
                  \<lparr>success = True, data = Some data, row_count = int (length data),
                   columns = Some columns, error = None, message = None\<rparr> s))"
    by (simp add: mirrors_def erase_def py_raise_def py_return_def Let_def split: option.splits)
qed

lemma mirrors_update_branch: "mirrors (update_branch E) (update_branch (logged E))"
proof (rule mirrorsI)
  fix w l tr
  have "mirrors
      (py_bind (call DbCommit (commit E)) (\<lambda>_.
           py_return
             \<lparr>success = True, data = None, row_count = rowcount E w, columns = None,
              error = None, message = Some (''Updated '' @ str_int (rowcount E w) @ '' row(s)'')\<rparr>))
      (py_bind (call DbCommit (logged_call (\<lambda>_. []) (commit E))) (\<lambda>_.
           py_return
             \<lparr>success = True, data = None, row_count = rowcount E w, columns = None,
              error = None, message = Some (''Updated '' @ str_int (rowcount E w) @ '' row(s)'')\<rparr>))"
    by (rule mirrors_bind [OF mirrors_call mirrors_return])
  then show "update_branch E (w, tr)
      = (fst (update_branch (logged E) ((w, l), tr)),
         erase (snd (update_branch (logged E) ((w, l), tr))))"
    by (simp add: mirrors_def update_branch_def logged_simps Let_def erase_def)
qed

lemma mirrors_run_statement: "mirrors (run_statement E q) (run_statement (logged E) q)"
proof -
  have upd: "mirrors (if upd then update_branch E else py_return unsupported)
      (if upd then update_branch (logged E) else py_return unsupported)" for upd
    by (simp add: mirrors_update_branch mirrors_return)
  have rest: "mirrors
      (py_bind (py_lift (query_startswith is_update q))
         (\<lambda>upd. if upd then update_branch E else py_return unsupported))
      (py_bind (py_lift (query_startswith is_update q))
         (\<lambda>upd. if upd then update_branch (logged E) else py_return unsupported))"
    by (rule mirrors_bind [OF mirrors_lift upd])
  have sel: "mirrors
      (if sel then select_branch E
       else py_bind (py_lift (query_startswith is_update q))
         (\<lambda>upd. if upd then update_branch E else py_return unsupported))
      (if sel then select_branch (logged E)
       else py_bind (py_lift (query_startswith is_update q))
         (\<lambda>upd. if upd then update_branch (logged E) else py_return unsupported))" for sel
    by (simp add: mirrors_select_branch rest)
  show ?thesis
    unfolding run_statement_def logged_simps
    by (rule mirrors_bind [OF mirrors_call]) (rule mirrors_bind [OF mirrors_lift sel])
qed

lemma mirrors_execute_query_body:
  "mirrors (execute_query_body E cs q) (execute_query_body (logged E) cs q)"
proof -
  have inner: "mirrors
      (with_exit (run_statement E q) (call DbClose (close E)) (call DbClose (close E)))
      (with_exit (run_statement (logged E) q) (call DbClose (logged_call (\<lambda>_. []) (close E)))
         (call DbClose (logged_call (\<lambda>_. []) (close E))))"
    by (rule mirrors_with_exit [OF mirrors_run_statement mirrors_call mirrors_call])
  have cur: "mirrors
      (py_bind (call DbCursor (cursor E)) (\<lambda>_.
            with_exit (run_statement E q) (call DbClose (close E)) (call DbClose (close E))))
      (py_bind (call DbCursor (logged_call (\<lambda>_. []) (cursor E))) (\<lambda>_.
            with_exit (run_statement (logged E) q) (call DbClose (logged_call (\<lambda>_. []) (close E)))
              (call DbClose (logged_call (\<lambda>_. []) (close E)))))"
    by (rule mirrors_bind [OF mirrors_call inner])
  show ?thesis
    unfolding execute_query_body_def logged_simps
    by (rule mirrors_bind [OF mirrors_call])
      (rule mirrors_with_exit [OF cur mirrors_call mirrors_call])
qed

lemma mirrors_execute_query:
  "mirrors (execute_query E cs q) (execute_query (logged E) cs q)"
  unfolding mirrors_def
proof
  fix s
  obtain r1 s1 where b': "execute_query_body (logged E) cs q s = (r1, s1)"
    by (cases "execute_query_body (logged E) cs q s")
  from mirrorsD [OF mirrors_execute_query_body this]
  have b: "execute_query_body E cs q (erase s) = (r1, erase s1)" .
  show "execute_query E cs q (erase s)
        = (fst (execute_query (logged E) cs q s), erase (snd (execute_query (logged E) cs q s)))"
  proof (cases r1)
    case (Inr r)
    with b b' show ?thesis by (simp add: execute_query_def)
  next
    case (Inl e)
    with b b' show ?thesis by (cases e) (simp_all add: execute_query_def)
  qed
qed

lemma run_statement_returns:
  "run_statement E q s = (Inr r, s') \<Longrightarrow> success_shape r \<or> r = unsupported"
  unfolding run_statement_def
  by (auto dest!: py_bind_InrD select_branch_shape update_branch_shape
      simp: py_return_def split: if_splits)

lemma execute_query_body_returns:
  "execute_query_body E cs q s = (Inr r, s') \<Longrightarrow> success_shape r \<or> r = unsupported"
  unfolding execute_query_body_def
  by (blast dest: py_bind_InrD with_exit_InrD run_statement_returns)

lemma execute_query_tells:
  assumes "logs_responses E responses"
  shows "\<exists>r s' new. execute_query E cs q s = (Inr r, s')
    \<and> responses (fst s') = responses (fst s) @ new
    \<and> (\<forall>m. raised new \<noteq> [] \<and> last (raised new) = Psycopg2Error m \<longrightarrow> r = failure m)
    \<and> (\<forall>m. raised new \<noteq> [] \<and> last (raised new) = PyException m
          \<longrightarrow> r = failure (''Unexpected error: '' @ m))
    \<and> (raised new = [] \<longrightarrow>
          success_shape r \<or> r = unsupported
          \<or> (\<exists>m. r = failure (''Unexpected error: '' @ m)))"
proof -
  obtain r1 s1 where b: "execute_query_body E cs q s = (r1, s1)"
    by (cases "execute_query_body E cs q s")
  from tracksD [OF tracks_execute_query_body [OF assms] b]
  obtain new where n: "responses (fst s1) = responses (fst s) @ new"
    and ok: "\<forall>a. r1 = Inr a \<longrightarrow> raised new = []"
    and bad: "\<forall>e. r1 = Inl e \<longrightarrow> (raised new = [] \<and> (\<exists>m. e = PyException m))
                          \<or> (raised new \<noteq> [] \<and> last (raised new) = e)"
    by blast
  show ?thesis
  proof (cases r1)
    case (Inr r)
    with b have run: "execute_query E cs q s = (Inr r, s1)" by (simp add: execute_query_def)
    from b Inr have "success_shape r \<or> r = unsupported"
      by (intro execute_query_body_returns [of E cs q s r s1]) simp
    with run n ok Inr show ?thesis by (intro exI [of _ r] exI [of _ s1] exI [of _ new]) auto
  next
    case (Inl e)
    show ?thesis
    proof (cases e)
      case (Psycopg2Error m)
      with b Inl have run: "execute_query E cs q s = (Inr (failure m), s1)"
        by (simp add: execute_query_def)
      from bad Inl Psycopg2Error have "raised new \<noteq> [] \<and> last (raised new) = Psycopg2Error m"
        by simp
      with run n show ?thesis
        by (intro exI [of _ "failure m"] exI [of _ s1] exI [of _ new]) simp
    next
      case (PyException m)
      with b Inl have run: "execute_query E cs q s
          = (Inr (failure (''Unexpected error: '' @ m)), s1)"
        by (simp add: execute_query_def)
      from bad Inl PyException
      have "raised new = [] \<or> (raised new \<noteq> [] \<and> last (raised new) = PyException m)"
        by auto
      with run n show ?thesis
        by (intro exI [of _ "failure (''Unexpected error: '' @ m)"] exI [of _ s1] exI [of _ new])
          auto
    qed
  qed
qed

section \<open>The claims about the query executor\<close>

text \<open>
  C1. The claim: a statement whose trimmed, upper-cased text begins with neither SELECT nor
  UPDATE is rejected with the fixed error without any execution being attempted, and the
  store is not touched. The source executes the statement (line 26) before it looks at
  its first word (lines 29 and 43). On an engine that accepts it, \<^verbatim>\<open>DELETE FROM users\<close> is
  executed, then committed by the connection's context manager when \<^verbatim>\<open>return\<close> leaves the
  block, and only then is the fixed error the result.
\<close>

theorem unsupported_statement_is_executed:
  "execute_query (journal_engine [] None 0 []) ''postgresql://db'' (PyStr ''DELETE FROM users'')
     (sim0 [], [])
   = (Inr \<lparr>success = False, data = None, row_count = 0, columns = None,
           error = Some ''Unsupported query type. Only SELECT and UPDATE are allowed.'',
           message = None\<rparr>,
      (\<lparr>pending = [], committed = [PyStr ''DELETE FROM users''], script = []\<rparr>,
       [DbConnect ''postgresql://db'', DbCursor, DbExecute (PyStr ''DELETE FROM users''),
        DbClose, DbCommit]))"
proof -
  have "\<not> is_select ''DELETE FROM users''" and "\<not> is_update ''DELETE FROM users''"
    by (simp_all add: str_tests)
  then show ?thesis
    using rejected_path
      [of "''DELETE FROM users''" "journal_engine [] None 0 []" "''postgresql://db''"
        "sim0 []" "sim0 []" "sim0 []"
        "\<lparr>pending = [PyStr ''DELETE FROM users''], committed = [], script = []\<rparr>"
        "\<lparr>pending = [PyStr ''DELETE FROM users''], committed = [], script = []\<rparr>"
        "\<lparr>pending = [], committed = [PyStr ''DELETE FROM users''], script = []\<rparr>" "[]"]
    by (simp add: sim_defs unsupported_def failure_def)
qed

text \<open>
  C3. A SELECT statement whose execution succeeds with the rows \<open>rows\<close> and the column
  descriptions \<open>desc\<close>, every row as wide as the description: the result has
  \<open>success = True\<close>, \<open>error = None\<close>, \<open>row_count\<close> the number of rows, \<open>columns\<close> the
  column names in the order of the description, and \<open>data\<close> one dictionary for each row,
  in order. The keys of each dictionary are exactly the column names, each once; a key
  holds the value at the last position where its name stands in the description, so
  when the names are distinct the dictionary is the row paired with the names, position
  by position.
\<close>

theorem select_returns_rows:
  assumes "is_select q"
    and "connect E cs w0 = (Inr (), w1)" and "cursor E w1 = (Inr (), w2)"
    and "execute E (PyStr q) w2 = (Inr (), w3)" and "fetchall E w3 = (Inr rows, w4)"
    and "description E w4 = Some desc"
    and "close E w4 = (Inr (), w5)" and "commit E w5 = (Inr (), w6)"
    and "\<forall>row \<in> set rows. length row = length desc"
  shows "execute_query E cs (PyStr q) (w0, tr) =
           (Inr \<lparr>success = True,
                 data = Some (map (\<lambda>row. py_dict (zip (map fst desc) row)) rows),
                 row_count = int (length rows), columns = Some (map fst desc), error = None,
                 message = None\<rparr>,
            (w6, tr @ [DbConnect cs, DbCursor, DbExecute (PyStr q), DbFetchall, DbClose,
                       DbCommit]))
         \<and> length (map (\<lambda>row. py_dict (zip (map fst desc) row)) rows) = length rows
         \<and> (\<forall>row \<in> set rows.
              fst ` set (py_dict (zip (map fst desc) row)) = set (map fst desc)
              \<and> distinct (map fst (py_dict (zip (map fst desc) row)))
              \<and> map_of (py_dict (zip (map fst desc) row)) = map_of (rev (zip (map fst desc) row))
              \<and> (distinct (map fst desc)
                   \<longrightarrow> py_dict (zip (map fst desc) row) = zip (map fst desc) row))"
proof (intro conjI ballI impI)
  have "select_branch E (w3, tr @ [DbConnect cs, DbCursor, DbExecute (PyStr q)]) =
          (Inr \<lparr>success = True,
                data = Some (map (\<lambda>row. py_dict (zip (map fst desc) row)) rows),
                row_count = int (length rows), columns = Some (map fst desc), error = None,
                message = None\<rparr>,
           (w4, tr @ [DbConnect cs, DbCursor, DbExecute (PyStr q), DbFetchall]))"
    using assms(5,6)
    by (simp add: select_branch_def py_bind_def call_def py_return_def Let_def)
  then have "run_statement E (PyStr q) (w2, tr @ [DbConnect cs, DbCursor]) =
          (Inr \<lparr>success = True,
                data = Some (map (\<lambda>row. py_dict (zip (map fst desc) row)) rows),
                row_count = int (length rows), columns = Some (map fst desc), error = None,
                message = None\<rparr>,
           (w4, tr @ [DbConnect cs, DbCursor, DbExecute (PyStr q), DbFetchall]))"
    using assms(1,4) by (simp add: run_statement_def py_bind_def call_def py_lift_def)
  then show "execute_query E cs (PyStr q) (w0, tr) =
           (Inr \<lparr>success = True,
                 data = Some (map (\<lambda>row. py_dict (zip (map fst desc) row)) rows),
                 row_count = int (length rows), columns = Some (map fst desc), error = None,
                 message = None\<rparr>,
            (w6, tr @ [DbConnect cs, DbCursor, DbExecute (PyStr q), DbFetchall, DbClose,
                       DbCommit]))"
    using assms(2,3,7,8)
    by (simp add: execute_query_def execute_query_body_def py_bind_def call_def with_exit_def)
next
  show "length (map (\<lambda>row. py_dict (zip (map fst desc) row)) rows) = length rows"
    by simp
next
  fix row assume "row \<in> set rows"
  with assms(9) have len: "length row = length desc" by blast
  then have keys: "map fst (zip (map fst desc) row) = map fst desc"
    by (simp add: map_fst_zip)
  show "fst ` set (py_dict (zip (map fst desc) row)) = set (map fst desc)"
    using py_dict_keys [of "zip (map fst desc) row"] keys by (metis set_map)
  show "distinct (map fst (py_dict (zip (map fst desc) row)))"
    by (rule py_dict_distinct)
  show "map_of (py_dict (zip (map fst desc) row)) = map_of (rev (zip (map fst desc) row))"
    by (rule py_dict_map_of)
  assume "distinct (map fst desc)"
  with keys show "py_dict (zip (map fst desc) row) = zip (map fst desc) row"
    by (simp add: py_dict_distinct_keys)
qed

theorem select_returns_rows_witness:
  "execute_query
     (journal_engine [[PyInt 1, PyStr ''ada''], [PyInt 2, PyStr ''bob'']]
        (Some [(''id'', 23), (''name'', 25)]) 2 [])
     ''postgresql://db'' (PyStr ''  select id, name from users'') (sim0 [], [])
   = (Inr \<lparr>success = True,
           data = Some [[(''id'', PyInt 1), (''name'', PyStr ''ada'')],
                        [(''id'', PyInt 2), (''name'', PyStr ''bob'')]],
           row_count = 2, columns = Some [''id'', ''name''], error = None, message = None\<rparr>,
      (\<lparr>pending = [], committed = [PyStr ''  select id, name from users''], script = []\<rparr>,
       [DbConnect ''postgresql://db'', DbCursor,
        DbExecute (PyStr ''  select id, name from users''), DbFetchall, DbClose, DbCommit]))"
proof -
  have sel: "is_select ''  select id, name from users''"
    by (simp add: str_tests)
  show ?thesis
    using select_returns_rows
      [of "''  select id, name from users''"
        "journal_engine [[PyInt 1, PyStr ''ada''], [PyInt 2, PyStr ''bob'']]
           (Some [(''id'', 23), (''name'', 25)]) 2 []"
        "''postgresql://db''" "sim0 []" "sim0 []" "sim0 []"
        "\<lparr>pending = [PyStr ''  select id, name from users''], committed = [], script = []\<rparr>"
        "[[PyInt 1, PyStr ''ada''], [PyInt 2, PyStr ''bob'']]"
        "\<lparr>pending = [PyStr ''  select id, name from users''], committed = [], script = []\<rparr>"
        "[(''id'', 23), (''name'', 25)]"
        "\<lparr>pending = [PyStr ''  select id, name from users''], committed = [], script = []\<rparr>"
        "\<lparr>pending = [], committed = [PyStr ''  select id, name from users''], script = []\<rparr>"
        "[]", OF sel]
    by (simp add: sim_defs py_dict_def)
qed

text \<open>
  C4. \<^verbatim>\<open>execute_query\<close> never raises: for every engine, statement and world it returns a
  result. Which result is told by what the engine answered during the call. Run on the same
  engine with the record added (\<open>logged E\<close>), the call returns the same result and leaves
  the same world and trace, and adds \<open>new\<close> to the record. If the engine raised during the
  call, the last exception it raised decides: for the engine's error (\<^verbatim>\<open>psycopg2.Error\<close>)
  the result is \<open>success = False\<close>, \<open>row_count = 0\<close>, \<open>data = None\<close> with the engine's text as
  the error; for any other exception the result has the same shape and the text follows
  \<^verbatim>\<open>Unexpected error: \<close>. This covers every call on the engine: connecting, opening the
  cursor, executing, fetching, committing, and the closing, committing and rolling back
  done when the \<^verbatim>\<open>with\<close> blocks are left. If the engine raised nothing, the result is a
  success, the rejection of the statement, or the failure built for an exception of Python's
  own. Two ways for the engine to report an error are spelled out with their traces: the
  connection fails, or the execution of the statement fails.
\<close>

theorem execute_query_never_raises:
  "(\<exists>r w' tr' new.
       execute_query E cs q (w, tr) = (Inr r, (w', tr'))
     \<and> execute_query (logged E) cs q ((w, l), tr) = (Inr r, ((w', l @ new), tr'))
     \<and> (\<forall>m. raised new \<noteq> [] \<and> last (raised new) = Psycopg2Error m
           \<longrightarrow> r = \<lparr>success = False, data = None, row_count = 0, columns = None,
                      error = Some m, message = None\<rparr>)
     \<and> (\<forall>m. raised new \<noteq> [] \<and> last (raised new) = PyException m
           \<longrightarrow> r = \<lparr>success = False, data = None, row_count = 0, columns = None,
                      error = Some (''Unexpected error: '' @ m), message = None\<rparr>)
     \<and> (raised new \<noteq> []
           \<longrightarrow> \<not> success r \<and> data r = None \<and> row_count r = 0 \<and> error r \<noteq> None)
     \<and> (raised new = []
           \<longrightarrow> (success r \<and> error r = None)
               \<or> r = \<lparr>success = False, data = None, row_count = 0, columns = None,
                        error = Some ''Unsupported query type. Only SELECT and UPDATE are allowed.'',
                        message = None\<rparr>
               \<or> (\<exists>m. r = \<lparr>success = False, data = None, row_count = 0, columns = None,
                             error = Some (''Unexpected error: '' @ m), message = None\<rparr>)))
   \<and> (\<forall>m w1. connect E cs w = (Inl (Psycopg2Error m), w1)
        \<longrightarrow> execute_query E cs q (w, tr) =
              (Inr \<lparr>success = False, data = None, row_count = 0, columns = None,
                    error = Some m, message = None\<rparr>, (w1, tr @ [DbConnect cs])))
   \<and> (\<forall>m w1 w2 w3 w4 w5.
          connect E cs w = (Inr (), w1) \<and> cursor E w1 = (Inr (), w2)
          \<and> execute E q w2 = (Inl (Psycopg2Error m), w3)
          \<and> close E w3 = (Inr (), w4) \<and> rollback E w4 = (Inr (), w5)
        \<longrightarrow> execute_query E cs q (w, tr) =
              (Inr \<lparr>success = False, data = None, row_count = 0, columns = None,
                    error = Some m, message = None\<rparr>,
               (w5, tr @ [DbConnect cs, DbCursor, DbExecute q, DbClose, DbRollback])))"
proof (intro conjI allI impI)
  from execute_query_tells [OF logs_responses_logged, of E cs q "((w, l), tr)"]
  obtain r s' new where run': "execute_query (logged E) cs q ((w, l), tr) = (Inr r, s')"
    and n0: "snd (fst s') = snd (fst ((w, l), tr)) @ new"
    and engine: "\<forall>m. raised new \<noteq> [] \<and> last (raised new) = Psycopg2Error m \<longrightarrow> r = failure m"
    and other: "\<forall>m. raised new \<noteq> [] \<and> last (raised new) = PyException m
          \<longrightarrow> r = failure (''Unexpected error: '' @ m)"
    and quiet: "raised new = [] \<longrightarrow>
          success_shape r \<or> r = unsupported
          \<or> (\<exists>m. r = failure (''Unexpected error: '' @ m))"
    by (elim exE conjE)
  obtain w' l' tr' where s': "s' = ((w', l'), tr')" by (cases s') auto
  with n0 have l': "l' = l @ new" by simp
  from mirrorsD [OF mirrors_execute_query run']
  have run: "execute_query E cs q (w, tr) = (Inr r, (w', tr'))"
    by (simp add: erase_def s')
  have shape: "\<not> success r \<and> data r = None \<and> row_count r = 0 \<and> error r \<noteq> None"
    if "raised new \<noteq> []"
  proof (cases "last (raised new)")
    case (Psycopg2Error m)
    with that engine show ?thesis by (simp add: failure_def)
  next
    case (PyException m)
    with that other show ?thesis by (simp add: failure_def)
  qed
  show "\<exists>r w' tr' new.
       execute_query E cs q (w, tr) = (Inr r, (w', tr'))
     \<and> execute_query (logged E) cs q ((w, l), tr) = (Inr r, ((w', l @ new), tr'))
     \<and> (\<forall>m. raised new \<noteq> [] \<and> last (raised new) = Psycopg2Error m
           \<longrightarrow> r = \<lparr>success = False, data = None, row_count = 0, columns = None,
                      error = Some m, message = None\<rparr>)
     \<and> (\<forall>m. raised new \<noteq> [] \<and> last (raised new) = PyException m
           \<longrightarrow> r = \<lparr>success = False, data = None, row_count = 0, columns = None,
                      error = Some (''Unexpected error: '' @ m), message = None\<rparr>)
     \<and> (raised new \<noteq> []
           \<longrightarrow> \<not> success r \<and> data r = None \<and> row_count r = 0 \<and> error r \<noteq> None)
     \<and> (raised new = []
           \<longrightarrow> (success r \<and> error r = None)
               \<or> r = \<lparr>success = False, data = None, row_count = 0, columns = None,
                        error = Some ''Unsupported query type. Only SELECT and UPDATE are allowed.'',
                        message = None\<rparr>
               \<or> (\<exists>m. r = \<lparr>success = False, data = None, row_count = 0, columns = None,
                             error = Some (''Unexpected error: '' @ m), message = None\<rparr>))"
  proof (intro exI [of _ r] exI [of _ w'] exI [of _ tr'] exI [of _ new] conjI)
    show "execute_query E cs q (w, tr) = (Inr r, (w', tr'))" by (rule run)
    show "execute_query (logged E) cs q ((w, l), tr) = (Inr r, ((w', l @ new), tr'))"
      using run' s' l' by simp
    show "\<forall>m. raised new \<noteq> [] \<and> last (raised new) = Psycopg2Error m
           \<longrightarrow> r = \<lparr>success = False, data = None, row_count = 0, columns = None,
                      error = Some m, message = None\<rparr>"
      using engine by (simp add: failure_def)
    show "\<forall>m. raised new \<noteq> [] \<and> last (raised new) = PyException m
           \<longrightarrow> r = \<lparr>success = False, data = None, row_count = 0, columns = None,
                      error = Some (''Unexpected error: '' @ m), message = None\<rparr>"
      using other by (simp add: failure_def)
    show "raised new \<noteq> []
           \<longrightarrow> \<not> success r \<and> data r = None \<and> row_count r = 0 \<and> error r \<noteq> None"
      using shape by blast
    show "raised new = []
           \<longrightarrow> (success r \<and> error r = None)
               \<or> r = \<lparr>success = False, data = None, row_count = 0, columns = None,
                        error = Some ''Unsupported query type. Only SELECT and UPDATE are allowed.'',
                        message = None\<rparr>
               \<or> (\<exists>m. r = \<lparr>success = False, data = None, row_count = 0, columns = None,
                             error = Some (''Unexpected error: '' @ m), message = None\<rparr>)"
      using quiet by (simp add: success_shape_def unsupported_def failure_def)
  qed
next
  fix m w1 assume "connect E cs w = (Inl (Psycopg2Error m), w1)"
  then show "execute_query E cs q (w, tr) =
              (Inr \<lparr>success = False, data = None, row_count = 0, columns = None,
                    error = Some m, message = None\<rparr>, (w1, tr @ [DbConnect cs]))"
    by (simp add: execute_query_def execute_query_body_def py_bind_def call_def failure_def)
next
  fix m w1 w2 w3 w4 w5
  assume a: "connect E cs w = (Inr (), w1) \<and> cursor E w1 = (Inr (), w2)
          \<and> execute E q w2 = (Inl (Psycopg2Error m), w3)
          \<and> close E w3 = (Inr (), w4) \<and> rollback E w4 = (Inr (), w5)"
  then have "execute_query_body E cs q (w, tr) =
      (Inl (Psycopg2Error m),
       (w5, tr @ [DbConnect cs, DbCursor, DbExecute q, DbClose, DbRollback]))"
    using execute_error_path [of E cs w w1 w2 q "Psycopg2Error m" w3 w4 w5 tr]
    by blast
  then show "execute_query E cs q (w, tr) =
              (Inr \<lparr>success = False, data = None, row_count = 0, columns = None,
                    error = Some m, message = None\<rparr>,
               (w5, tr @ [DbConnect cs, DbCursor, DbExecute q, DbClose, DbRollback]))"
    by (simp add: execute_query_def failure_def)
qed

theorem execute_query_never_raises_witness:
  "execute_query
     (logged (journal_engine [] None 0 [(PyStr ''SELEC 1'', ''syntax error at or near SELEC'')]))
     ''postgresql://db'' (PyStr ''SELEC 1'') ((sim0 [], []), [])
   = (Inr \<lparr>success = False, data = None, row_count = 0, columns = None,
           error = Some ''syntax error at or near SELEC'', message = None\<rparr>,
      ((sim0 [], [Raised (Psycopg2Error ''syntax error at or near SELEC'')]),
       [DbConnect ''postgresql://db'', DbCursor, DbExecute (PyStr ''SELEC 1''), DbClose,
        DbRollback]))
   \<and> execute_query
       (journal_engine [] None 0 [(PyStr ''SELEC 1'', ''syntax error at or near SELEC'')])
       ''postgresql://db'' (PyStr ''SELEC 1'') (sim0 [], [])
     = (Inr \<lparr>success = False, data = None, row_count = 0, columns = None,
             error = Some ''syntax error at or near SELEC'', message = None\<rparr>,
        (sim0 [],
         [DbConnect ''postgresql://db'', DbCursor, DbExecute (PyStr ''SELEC 1''), DbClose,
          DbRollback]))"
proof -
  let ?E = "journal_engine [] None 0 [(PyStr ''SELEC 1'', ''syntax error at or near SELEC'')]"
  let ?tr = "[DbConnect ''postgresql://db'', DbCursor, DbExecute (PyStr ''SELEC 1''), DbClose,
        DbRollback]"
  from execute_query_never_raises
    [of ?E "''postgresql://db''" "PyStr ''SELEC 1''" "sim0 []" "[]" "[]", THEN conjunct1]
  obtain r w' tr' new where
    run: "execute_query ?E ''postgresql://db'' (PyStr ''SELEC 1'') (sim0 [], []) = (Inr r, (w', tr'))"
    and run': "execute_query (logged ?E) ''postgresql://db'' (PyStr ''SELEC 1'') ((sim0 [], []), [])
      = (Inr r, ((w', new), tr'))"
    and engine: "\<forall>m. raised new \<noteq> [] \<and> last (raised new) = Psycopg2Error m
           \<longrightarrow> r = \<lparr>success = False, data = None, row_count = 0, columns = None,
                      error = Some m, message = None\<rparr>"
    by (elim exE conjE) simp
  have "snd (execute_query (logged ?E) ''postgresql://db'' (PyStr ''SELEC 1'') ((sim0 [], []), []))
      = ((sim0 [], [Raised (Psycopg2Error ''syntax error at or near SELEC'')]), ?tr)"
    by (simp add: execute_query_def execute_query_body_def run_statement_def py_bind_def call_def
        with_exit_def logged_def logged_call_def sim_defs)
  with run' have new: "new = [Raised (Psycopg2Error ''syntax error at or near SELEC'')]"
    and w': "w' = sim0 []" and tr': "tr' = ?tr"
    by simp_all
  from engine new have "r = \<lparr>success = False, data = None, row_count = 0, columns = None,
                      error = Some ''syntax error at or near SELEC'', message = None\<rparr>"
    by simp
  with run run' new w' tr' show ?thesis by simp
qed

text \<open>
  C8. An UPDATE statement whose execution succeeds and for which the engine reports \<open>m\<close>
  affected rows: the transaction is committed (line 45, and once more when the block is
  left), and the result has \<open>success = True\<close>, \<open>data = None\<close>, \<open>columns = None\<close>,
  \<open>row_count = m\<close> and the message \<^verbatim>\<open>Updated \<close>, the count \<open>m\<close> in decimal, \<^verbatim>\<open> row(s)\<close>.
  The decimal text is pinned down by what it denotes, not by the function that prints it:
  a minus sign exactly when \<open>m\<close> is negative, then a non-empty word \<open>ds\<close> of the digits 0 to 9
  whose value in base ten is the absolute value of \<open>m\<close>, with no leading zero unless
  \<open>m\<close> is 0.
\<close>

theorem update_commits_and_reports:
  assumes "is_update q"
    and "connect E cs w0 = (Inr (), w1)" and "cursor E w1 = (Inr (), w2)"
    and "execute E (PyStr q) w2 = (Inr (), w3)" and "rowcount E w3 = m"
    and "commit E w3 = (Inr (), w4)"
    and "close E w4 = (Inr (), w5)" and "commit E w5 = (Inr (), w6)"
  shows "\<exists>ds. execute_query E cs (PyStr q) (w0, tr) =
           (Inr \<lparr>success = True, data = None, row_count = m, columns = None, error = None,
                 message = Some (''Updated '' @ (if m < 0 then ''-'' else []) @ ds @ '' row(s)'')\<rparr>,
            (w6, tr @ [DbConnect cs, DbCursor, DbExecute (PyStr q), DbCommit, DbClose,
                       DbCommit]))
         \<and> ds \<noteq> [] \<and> set ds \<subseteq> set ''0123456789''
         \<and> (\<Sum>i<length ds. (of_char (ds ! i) - 48) * 10 ^ (length ds - Suc i)) = nat \<bar>m\<bar>
         \<and> (hd ds = CHR ''0'' \<longrightarrow> m = 0)"
proof -
  have "update_branch E (w3, tr @ [DbConnect cs, DbCursor, DbExecute (PyStr q)]) =
          (Inr \<lparr>success = True, data = None, row_count = m, columns = None, error = None,
                message = Some (''Updated '' @ str_int m @ '' row(s)'')\<rparr>,
           (w4, tr @ [DbConnect cs, DbCursor, DbExecute (PyStr q), DbCommit]))"
    using assms(5,6) by (simp add: update_branch_def py_bind_def call_def py_return_def)
  then have "run_statement E (PyStr q) (w2, tr @ [DbConnect cs, DbCursor]) =
          (Inr \<lparr>success = True, data = None, row_count = m, columns = None, error = None,
                message = Some (''Updated '' @ str_int m @ '' row(s)'')\<rparr>,
           (w4, tr @ [DbConnect cs, DbCursor, DbExecute (PyStr q), DbCommit]))"
    using assms(1,4) update_not_select [OF assms(1)]
    by (simp add: run_statement_def py_bind_def call_def py_lift_def)
  then have run: "execute_query E cs (PyStr q) (w0, tr) =
           (Inr \<lparr>success = True, data = None, row_count = m, columns = None, error = None,
                 message = Some (''Updated '' @ str_int m @ '' row(s)'')\<rparr>,
            (w6, tr @ [DbConnect cs, DbCursor, DbExecute (PyStr q), DbCommit, DbClose,
                       DbCommit]))"
    using assms(2,3,7,8)
    by (simp add: execute_query_def execute_query_body_def py_bind_def call_def with_exit_def)
  from str_int_decimal [of m] obtain ds where
    ds: "str_int m = (if m < 0 then ''-'' else []) @ ds" "ds \<noteq> []"
      "set ds \<subseteq> set ''0123456789''"
      "(\<Sum>i<length ds. (of_char (ds ! i) - 48) * 10 ^ (length ds - Suc i)) = nat \<bar>m\<bar>"
      "hd ds = CHR ''0'' \<longrightarrow> m = 0"
    by blast
  from run ds(1) have "execute_query E cs (PyStr q) (w0, tr) =
           (Inr \<lparr>success = True, data = None, row_count = m, columns = None, error = None,
                 message = Some (''Updated '' @ (if m < 0 then ''-'' else []) @ ds @ '' row(s)'')\<rparr>,
            (w6, tr @ [DbConnect cs, DbCursor, DbExecute (PyStr q), DbCommit, DbClose,
                       DbCommit]))"
    by simp
  with ds(2-5) show ?thesis by blast
qed

theorem update_commits_and_reports_witness:
  "execute_query (journal_engine [] None 120 []) ''postgresql://db''
     (PyStr ''update users set active = false'') (sim0 [], [])
   = (Inr \<lparr>success = True, data = None, row_count = 120, columns = None, error = None,
           message = Some ''Updated 120 row(s)''\<rparr>,
      (\<lparr>pending = [], committed = [PyStr ''update users set active = false''], script = []\<rparr>,
       [DbConnect ''postgresql://db'', DbCursor,
        DbExecute (PyStr ''update users set active = false''), DbCommit, DbClose, DbCommit]))"
proof -
  have upd: "is_update ''update users set active = false''"
    by (simp add: str_tests)
  from update_commits_and_reports
      [of "''update users set active = false''" "journal_engine [] None 120 []"
        "''postgresql://db''" "sim0 []" "sim0 []" "sim0 []"
        "\<lparr>pending = [PyStr ''update users set active = false''], committed = [], script = []\<rparr>"
        120
        "\<lparr>pending = [], committed = [PyStr ''update users set active = false''], script = []\<rparr>"
        "\<lparr>pending = [], committed = [PyStr ''update users set active = false''], script = []\<rparr>"
        "\<lparr>pending = [], committed = [PyStr ''update users set active = false''], script = []\<rparr>"
        "[]", OF upd]
  obtain ds where
    run: "execute_query (journal_engine [] None 120 []) ''postgresql://db''
            (PyStr ''update users set active = false'') (sim0 [], [])
          = (Inr \<lparr>success = True, data = None, row_count = 120, columns = None, error = None,
                  message = Some (''Updated '' @ ds @ '' row(s)'')\<rparr>,
             (\<lparr>pending = [], committed = [PyStr ''update users set active = false''],
               script = []\<rparr>,
              [DbConnect ''postgresql://db'', DbCursor,
               DbExecute (PyStr ''update users set active = false''), DbCommit, DbClose,
               DbCommit]))"
    by (auto simp: sim_defs)
  have "execute_query (journal_engine [] None 120 []) ''postgresql://db''
            (PyStr ''update users set active = false'') (sim0 [], [])
        = (Inr \<lparr>success = True, data = None, row_count = 120, columns = None, error = None,
                  message = Some (''Updated '' @ str_int 120 @ '' row(s)'')\<rparr>,
             (\<lparr>pending = [], committed = [PyStr ''update users set active = false''],
               script = []\<rparr>,
              [DbConnect ''postgresql://db'', DbCursor,
               DbExecute (PyStr ''update users set active = false''), DbCommit, DbClose,
               DbCommit]))"
    using upd update_not_select [OF upd]
    by (simp add: execute_query_def execute_query_body_def run_statement_def update_branch_def
        py_bind_def call_def py_lift_def py_return_def with_exit_def sim_defs)
  with run have "ds = str_int 120" by simp
  also have "str_int 120 = ''120''"
    by (simp add: str_int_def str_nat.simps digit_char_def)
  finally show ?thesis using run by simp
qed

text \<open>
  C10. Every call of \<^verbatim>\<open>execute_query\<close> returns a result, and in that result \<open>success\<close> is
  true exactly when \<open>error\<close> is \<open>None\<close>; when \<open>success\<close> is false, \<open>data\<close> is \<open>None\<close> and
  \<open>row_count\<close> is 0.
\<close>

theorem result_invariant:
  "\<exists>r s'. execute_query E cs q s = (Inr r, s')
     \<and> (success r \<longleftrightarrow> error r = None)
     \<and> (\<not> success r \<longrightarrow> data r = None \<and> row_count r = 0)"
proof -
  obtain r s' where res: "execute_query E cs q s = (Inr r, s')"
    using execute_query_total by blast
  from execute_query_shape [OF res]
  have "(success r \<longleftrightarrow> error r = None) \<and> (\<not> success r \<longrightarrow> data r = None \<and> row_count r = 0)"
    by (auto simp: success_shape_def failure_shape_def)
  with res show ?thesis by (intro exI [of _ r] exI [of _ s']) simp
qed

theorem result_invariant_witness:
  "\<exists>r s'. execute_query (journal_engine [] None 0 []) ''postgresql://db''
            (PyStr ''DROP TABLE users'') (sim0 [], []) = (Inr r, s')
     \<and> \<not> success r \<and> error r \<noteq> None \<and> data r = None \<and> row_count r = 0"
proof -
  have "\<not> is_select ''DROP TABLE users''" and "\<not> is_update ''DROP TABLE users''"
    by (simp_all add: str_tests)
  then have run: "execute_query (journal_engine [] None 0 []) ''postgresql://db''
      (PyStr ''DROP TABLE users'') (sim0 [], [])
    = (Inr unsupported,
       (\<lparr>pending = [], committed = [PyStr ''DROP TABLE users''], script = []\<rparr>,
        [DbConnect ''postgresql://db'', DbCursor, DbExecute (PyStr ''DROP TABLE users''),
         DbClose, DbCommit]))"
    using rejected_path
      [of "''DROP TABLE users''" "journal_engine [] None 0 []" "''postgresql://db''"
        "sim0 []" "sim0 []" "sim0 []"
        "\<lparr>pending = [PyStr ''DROP TABLE users''], committed = [], script = []\<rparr>"
        "\<lparr>pending = [PyStr ''DROP TABLE users''], committed = [], script = []\<rparr>"
        "\<lparr>pending = [], committed = [PyStr ''DROP TABLE users''], script = []\<rparr>" "[]"]
    by (simp add: sim_defs)
  have "\<not> success unsupported"
    by (simp add: unsupported_def failure_def)
  with run result_invariant [of "journal_engine [] None 0 []" "''postgresql://db''"
      "PyStr ''DROP TABLE users''" "(sim0 [], [])"]
  show ?thesis by auto
qed

section \<open>Facts about the tool gateway\<close>

lemma first_some_None_iff: "first_some xs = None \<longleftrightarrow> (\<forall>x \<in> set xs. x = None)"
  by (induction xs rule: first_some.induct) auto

lemma result_dict_clean:
  "first_opaque (result_dict r) = None \<longleftrightarrow>
     (\<forall>ds. data r = Some ds \<longrightarrow> (\<forall>d \<in> set ds. \<forall>kv \<in> set d. first_opaque (snd kv) = None))"
  by (auto simp: result_dict_def first_some_None_iff split: option.splits)

lemma failure_shape_clean: "failure_shape r \<Longrightarrow> first_opaque (result_dict r) = None"
  by (simp add: result_dict_clean failure_shape_def)

lemma json_dumps_clean: "first_opaque v = None \<Longrightarrow> json_dumps v = Inr (json_text v)"
  by (simp add: json_dumps_def)

lemma py_dict_zip_values: "kv \<in> set (py_dict (zip ks row)) \<Longrightarrow> snd kv \<in> set row"
  using py_dict_subset [of "zip ks row"] by (cases kv) (auto dest: set_zip_rightD)

lemma update_branch_clean:
  "update_branch E s = (Inr r, s') \<Longrightarrow> first_opaque (result_dict r) = None"
  unfolding update_branch_def
  by (auto dest!: py_bind_InrD simp: py_return_def Let_def result_dict_clean)

lemma db_call_sliceable:
  "query_slice q = Inr () \<Longrightarrow>
     db_call self q s = execute_query (db_engine self) (connection_string self) q s"
  by (simp add: db_call_def py_lift_Inr)

text \<open>One turn of the loop of \<^verbatim>\<open>_handle_tool_calls\<close>, forwards and backwards.\<close>

lemma handle_tool_calls_step:
  assumes "fn_name tc = ''db_call''"
    and "json_loads self (fn_arguments tc) = Inr args" and "args_get_query args = Inr q"
    and "db_call self q s = (Inr r, s1)" and "json_dumps (result_dict r) = Inr body"
  shows "handle_tool_calls self (tc # tcs) outs s =
           handle_tool_calls self tcs (outs @ [\<lparr>tool_call_id = tc_id tc, output_text = body\<rparr>]) s1"
  using assms by (simp add: py_bind_def py_lift_def)

lemma handle_tool_calls_stepD:
  assumes "handle_tool_calls self (tc # tcs) outs s = (Inr res, s')"
    and "fn_name tc = ''db_call''"
  shows "\<exists>r body s1. (success_shape r \<or> failure_shape r) \<and>
           json_dumps (result_dict r) = Inr body \<and>
           handle_tool_calls self tcs (outs @ [\<lparr>tool_call_id = tc_id tc, output_text = body\<rparr>]) s1
             = (Inr res, s')"
proof (cases "json_loads self (fn_arguments tc)")
  case (Inl e)
  with assms show ?thesis by (simp add: py_bind_def py_lift_def)
next
  case args: (Inr args)
  show ?thesis
  proof (cases "args_get_query args")
    case (Inl e)
    with assms args show ?thesis by (simp add: py_bind_def py_lift_def)
  next
    case q: (Inr q)
    obtain rr s1 where run: "db_call self q s = (rr, s1)"
      by (cases "db_call self q s")
    show ?thesis
    proof (cases rr)
      case (Inl e)
      with assms args q run show ?thesis by (simp add: py_bind_def py_lift_def)
    next
      case r: (Inr r)
      show ?thesis
      proof (cases "json_dumps (result_dict r)")
        case (Inl e)
        with assms args q run r show ?thesis by (simp add: py_bind_def py_lift_def)
      next
        case (Inr body)
        with assms args q run r
        have "handle_tool_calls self tcs
                (outs @ [\<lparr>tool_call_id = tc_id tc, output_text = body\<rparr>]) s1 = (Inr res, s')"
          by (simp add: py_bind_def py_lift_def)
        moreover from run r have "success_shape r \<or> failure_shape r"
          unfolding db_call_def by (blast dest: py_bind_InrD execute_query_shape)
        ultimately show ?thesis using Inr by blast
      qed
    qed
  qed
qed

lemma handle_tool_calls_outputs:
  "handle_tool_calls self tcs outs s = (Inr res, s') \<Longrightarrow>
     \<exists>new. res = outs @ new
       \<and> map tool_call_id new = map tc_id (filter (\<lambda>tc. fn_name tc = ''db_call'') tcs)
       \<and> (\<forall>out \<in> set new. \<exists>r. (success_shape r \<or> failure_shape r)
              \<and> json_dumps (result_dict r) = Inr (output_text out))"
proof (induction tcs arbitrary: outs s)
  case Nil
  then show ?case by (simp add: py_return_def)
next
  case (Cons tc tcs)
  show ?case
  proof (cases "fn_name tc = ''db_call''")
    case False
    with Cons.prems have "handle_tool_calls self tcs outs s = (Inr res, s')" by simp
    from Cons.IH [OF this] False show ?thesis by simp
  next
    case True
    from handle_tool_calls_stepD [OF Cons.prems True] obtain r body s1 where
      shape: "success_shape r \<or> failure_shape r" and
      body: "json_dumps (result_dict r) = Inr body" and
      rest: "handle_tool_calls self tcs
               (outs @ [\<lparr>tool_call_id = tc_id tc, output_text = body\<rparr>]) s1 = (Inr res, s')"
      by blast
    from Cons.IH [OF rest] obtain new where
      new: "res = (outs @ [\<lparr>tool_call_id = tc_id tc, output_text = body\<rparr>]) @ new"
        "map tool_call_id new = map tc_id (filter (\<lambda>tc. fn_name tc = ''db_call'') tcs)"
        "\<forall>out \<in> set new. \<exists>r. (success_shape r \<or> failure_shape r)
           \<and> json_dumps (result_dict r) = Inr (output_text out)"
      by blast
    show ?thesis
    proof (intro exI [of _ "\<lparr>tool_call_id = tc_id tc, output_text = body\<rparr> # new"] conjI)
      show "res = outs @ \<lparr>tool_call_id = tc_id tc, output_text = body\<rparr> # new"
        using new(1) by simp
      show "map tool_call_id (\<lparr>tool_call_id = tc_id tc, output_text = body\<rparr> # new) =
              map tc_id (filter (\<lambda>tc. fn_name tc = ''db_call'') (tc # tcs))"
        using new(2) True by simp
      show "\<forall>out \<in> set (\<lparr>tool_call_id = tc_id tc, output_text = body\<rparr> # new).
              \<exists>r. (success_shape r \<or> failure_shape r)
                \<and> json_dumps (result_dict r) = Inr (output_text out)"
        using new(3) body shape by auto
    qed
  qed
qed

text \<open>The gateway and the executor add only database calls to the trace.\<close>

lemma db_only_return: "db_only (py_return a)"
  by (simp add: db_only_def py_return_def)

lemma db_only_lift: "db_only (py_lift r)"
  by (simp add: db_only_def py_lift_def)

lemma db_only_call: "is_db_event ev \<Longrightarrow> db_only (call ev f)"
  by (auto simp: db_only_def call_def split: prod.splits)

lemma db_only_bind:
  assumes "db_only m" and "\<And>a. db_only (f a)"
  shows "db_only (py_bind m f)"
  unfolding db_only_def
proof (intro allI impI)
  fix s r s' assume run: "py_bind m f s = (r, s')"
  obtain r1 s1 where m: "m s = (r1, s1)" by (cases "m s")
  with assms(1) obtain evs1 where evs1: "snd s1 = snd s @ evs1" "list_all is_db_event evs1"
    unfolding db_only_def by blast
  show "\<exists>evs. snd s' = snd s @ evs \<and> list_all is_db_event evs"
  proof (cases r1)
    case (Inl e)
    with m run have "s' = s1" by (simp add: py_bind_def)
    with evs1 show ?thesis by blast
  next
    case (Inr a)
    with m run have "f a s1 = (r, s')" by (simp add: py_bind_def)
    with assms(2) obtain evs2 where "snd s' = snd s1 @ evs2" "list_all is_db_event evs2"
      unfolding db_only_def by blast
    with evs1 have "snd s' = snd s @ (evs1 @ evs2) \<and> list_all is_db_event (evs1 @ evs2)"
      by simp
    then show ?thesis by blast
  qed
qed

lemma db_only_with_exit:
  assumes "db_only body" and "db_only on_ok" and "db_only on_exn"
  shows "db_only (with_exit body on_ok on_exn)"
  unfolding db_only_def
proof (intro allI impI)
  fix s r s' assume run: "with_exit body on_ok on_exn s = (r, s')"
  obtain r1 s1 where b: "body s = (r1, s1)" by (cases "body s")
  with assms(1) obtain evs1 where evs1: "snd s1 = snd s @ evs1" "list_all is_db_event evs1"
    unfolding db_only_def by blast
  have "\<exists>evs2. snd s' = snd s1 @ evs2 \<and> list_all is_db_event evs2"
  proof (cases r1)
    case (Inl e)
    obtain r2 s2 where x: "on_exn s1 = (r2, s2)" by (cases "on_exn s1")
    with Inl b run have "s' = s2" by (auto simp: with_exit_def split: sum.splits)
    with x assms(3) show ?thesis unfolding db_only_def by blast
  next
    case (Inr a)
    obtain r2 s2 where x: "on_ok s1 = (r2, s2)" by (cases "on_ok s1")
    with Inr b run have "s' = s2" by (auto simp: with_exit_def split: sum.splits)
    with x assms(2) show ?thesis unfolding db_only_def by blast
  qed
  then obtain evs2 where "snd s' = snd s1 @ evs2" "list_all is_db_event evs2" by blast
  with evs1 have "snd s' = snd s @ (evs1 @ evs2) \<and> list_all is_db_event (evs1 @ evs2)"
    by simp
  then show "\<exists>evs. snd s' = snd s @ evs \<and> list_all is_db_event evs" by blast
qed

lemma db_only_select_branch: "db_only (select_branch E)"
proof -
  have "db_only (\<lambda>s. case description E (fst s) of
            None \<Rightarrow> py_raise e s | Some desc \<Rightarrow> py_return (g desc) s)" for e g
    by (auto simp: db_only_def py_raise_def py_return_def split: option.splits)
  then show ?thesis
    unfolding select_branch_def Let_def
    by (intro db_only_bind db_only_call) simp_all
qed

lemma db_only_update_branch: "db_only (update_branch E)"
  unfolding update_branch_def db_only_def
  by (auto simp: Let_def py_bind_def call_def py_return_def split: prod.splits sum.splits)

lemma db_only_run_statement: "db_only (run_statement E q)"
  unfolding run_statement_def
  by (intro db_only_bind db_only_call db_only_lift)
    (simp_all add: db_only_select_branch db_only_update_branch db_only_return db_only_bind
      db_only_lift)

lemma db_only_execute_query_body: "db_only (execute_query_body E cs q)"
  unfolding execute_query_body_def
  by (intro db_only_bind db_only_with_exit db_only_call db_only_run_statement) simp_all

lemma db_only_execute_query: "db_only (execute_query E cs q)"
  unfolding db_only_def
proof (intro allI impI)
  fix s r s' assume run: "execute_query E cs q s = (r, s')"
  obtain r1 s1 where body: "execute_query_body E cs q s = (r1, s1)"
    by (cases "execute_query_body E cs q s")
  with run have "s' = s1"
    by (auto simp: execute_query_def split: sum.splits exn.splits)
  with body db_only_execute_query_body [of E cs q]
  show "\<exists>evs. snd s' = snd s @ evs \<and> list_all is_db_event evs"
    unfolding db_only_def by blast
qed

lemma db_only_db_call: "db_only (db_call self q)"
  unfolding db_call_def by (intro db_only_bind db_only_lift db_only_execute_query)

lemma db_only_handle_tool_calls: "db_only (handle_tool_calls self tcs outs)"
proof (induction tcs arbitrary: outs)
  case Nil
  show ?case by (simp add: db_only_return)
next
  case (Cons tc tcs)
  show ?case
    by (simp, intro conjI impI db_only_bind db_only_lift db_only_db_call Cons)
qed

text \<open>The record of the engine during a batch of requests.\<close>

lemma serialisable_rows_append:
  "serialisable_rows (xs @ ys) \<longleftrightarrow> serialisable_rows xs \<and> serialisable_rows ys"
  by (auto simp: serialisable_rows_def)

lemma serialisable_rows_Nil: "serialisable_rows []"
  by (simp add: serialisable_rows_def)

lemma tracks_grows: "tracks responses m \<Longrightarrow> grows responses m"
  unfolding grows_def
proof (intro allI impI)
  fix s r s' assume "tracks responses m" and "m s = (r, s')"
  from tracksD [OF this] show "\<exists>new. responses (fst s') = responses (fst s) @ new" by blast
qed

lemma growsD:
  "grows responses m \<Longrightarrow> m s = (r, s') \<Longrightarrow> \<exists>new. responses (fst s') = responses (fst s) @ new"
  unfolding grows_def by blast

lemma fetchesD:
  "fetches responses m \<Longrightarrow> m s = (Inr r, s') \<Longrightarrow>
     \<exists>new. responses (fst s') = responses (fst s) @ new
       \<and> (serialisable_rows new \<longrightarrow> first_opaque (result_dict r) = None)"
  unfolding fetches_def by blast

lemma fetches_bind:
  assumes "grows responses m" and "\<And>a. fetches responses (f a)"
  shows "fetches responses (py_bind m f)"
  unfolding fetches_def
proof (intro allI impI)
  fix s r s'
  assume "py_bind m f s = (Inr r, s')"
  from py_bind_InrD [OF this] obtain a s1 where m: "m s = (Inr a, s1)"
    and f: "f a s1 = (Inr r, s')"
    by blast
  from growsD [OF assms(1) m] obtain new1 where n1: "responses (fst s1) = responses (fst s) @ new1"
    by blast
  from fetchesD [OF assms(2) f] obtain new2 where n2: "responses (fst s') = responses (fst s1) @ new2"
    and c: "serialisable_rows new2 \<longrightarrow> first_opaque (result_dict r) = None"
    by blast
  from n1 n2 c show "\<exists>new. responses (fst s') = responses (fst s) @ new
           \<and> (serialisable_rows new \<longrightarrow> first_opaque (result_dict r) = None)"
    by (intro exI [of _ "new1 @ new2"]) (simp add: serialisable_rows_append)
qed

lemma fetches_with_exit:
  assumes "fetches responses body" and "grows responses on_ok"
  shows "fetches responses (with_exit body on_ok on_exn)"
  unfolding fetches_def
proof (intro allI impI)
  fix s r s'
  assume run: "with_exit body on_ok on_exn s = (Inr r, s')"
  from with_exit_InrD [OF this] obtain s1 where b: "body s = (Inr r, s1)" by blast
  obtain r2 s2 where x: "on_ok s1 = (r2, s2)" by (cases "on_ok s1")
  with run b have s': "s' = s2" by (cases r2) (simp_all add: with_exit_def)
  from fetchesD [OF assms(1) b] obtain new1 where n1: "responses (fst s1) = responses (fst s) @ new1"
    and c: "serialisable_rows new1 \<longrightarrow> first_opaque (result_dict r) = None"
    by blast
  from growsD [OF assms(2) x] obtain new2 where n2: "responses (fst s2) = responses (fst s1) @ new2"
    by blast
  from n1 n2 c s' show "\<exists>new. responses (fst s') = responses (fst s) @ new
           \<and> (serialisable_rows new \<longrightarrow> first_opaque (result_dict r) = None)"
    by (intro exI [of _ "new1 @ new2"]) (simp add: serialisable_rows_append)
qed

lemma fetches_clean:
  assumes "grows responses m" and "\<And>s r s'. m s = (Inr r, s') \<Longrightarrow> first_opaque (result_dict r) = None"
  shows "fetches responses m"
  unfolding fetches_def
proof (intro allI impI)
  fix s r s' assume run: "m s = (Inr r, s')"
  from growsD [OF assms(1) run] obtain new where "responses (fst s') = responses (fst s) @ new"
    by blast
  with assms(2) [OF run] show "\<exists>new. responses (fst s') = responses (fst s) @ new
           \<and> (serialisable_rows new \<longrightarrow> first_opaque (result_dict r) = None)"
    by blast
qed

lemma fetches_select_branch:
  assumes "logs_responses E responses"
  shows "fetches responses (select_branch E)"
  unfolding fetches_def
proof (intro allI impI)
  fix s r s'
  assume run: "select_branch E s = (Inr r, s')"
  obtain res w1 where fetched: "fetchall E (fst s) = (res, w1)" by (cases "fetchall E (fst s)")
  from run fetched obtain rows where rows: "res = Inr rows"
    by (cases res) (simp_all add: select_branch_def py_bind_def call_def)
  from run fetched rows obtain desc :: "(string \<times> nat) list" where
    desc: "description E w1 = Some desc"
    by (cases "description E w1")
      (simp_all add: select_branch_def py_bind_def call_def py_raise_def)
  with run fetched rows have w1: "fst s' = w1"
    and data: "data r = Some (map (\<lambda>row. py_dict (zip (map fst desc) row)) rows)"
    by (auto simp: select_branch_def py_bind_def call_def py_return_def Let_def)
  from assms have "logs_call responses (\<lambda>rows. [Fetched rows]) (fetchall E)"
    by (simp add: logs_responses_def)
  with fetched rows have log: "responses w1 = responses (fst s) @ [Fetched rows]"
    unfolding logs_call_def by (drule_tac x = "fst s" in spec) simp
  have "first_opaque (result_dict r) = None" if "serialisable_rows [Fetched rows]"
  proof -
    from that have cells: "\<forall>row \<in> set rows. \<forall>v \<in> set row. first_opaque v = None"
      by (simp add: serialisable_rows_def)
    have "first_opaque (snd kv) = None"
      if "row \<in> set rows" and "kv \<in> set (py_dict (zip (map fst desc) row))" for row kv
      using that cells py_dict_zip_values [of kv "map fst desc" row] by blast
    with data show ?thesis by (auto simp: result_dict_clean)
  qed
  with log w1 show "\<exists>new. responses (fst s') = responses (fst s) @ new
           \<and> (serialisable_rows new \<longrightarrow> first_opaque (result_dict r) = None)"
    by (intro exI [of _ "[Fetched rows]"]) simp
qed

lemma fetches_run_statement:
  assumes "logs_responses E responses"
  shows "fetches responses (run_statement E q)"
proof -
  have lift: "grows responses (py_lift x :: ('a, 'b) py)" for x :: "exn + 'b"
    by (simp add: grows_def py_lift_def)
  have upd_b: "fetches responses (update_branch E)"
    by (rule fetches_clean [OF tracks_grows [OF tracks_update_branch [OF assms]]])
      (rule update_branch_clean)
  have ret: "fetches responses (py_return unsupported)"
    by (rule fetches_clean)
      (auto simp: grows_def py_return_def unsupported_def failure_shape_clean
        failure_shape_failure)
  have upd: "fetches responses (if upd then update_branch E else py_return unsupported)" for upd
    by (simp add: upd_b ret)
  have rest: "fetches responses
      (py_bind (py_lift (query_startswith is_update q))
         (\<lambda>upd. if upd then update_branch E else py_return unsupported))"
    by (rule fetches_bind [OF lift upd])
  have sel: "fetches responses
      (if sel then select_branch E
       else py_bind (py_lift (query_startswith is_update q))
         (\<lambda>upd. if upd then update_branch E else py_return unsupported))" for sel
    by (simp add: fetches_select_branch [OF assms] rest)
  have "grows responses (call (DbExecute q) (execute E q))"
    by (rule tracks_grows, rule strict_tracks, rule logs_responsesD [OF assms])
  then show ?thesis
    unfolding run_statement_def
    by (rule fetches_bind) (rule fetches_bind [OF lift sel])
qed

lemma fetches_execute_query_body:
  assumes "logs_responses E responses"
  shows "fetches responses (execute_query_body E cs q)"
proof -
  have g: "grows responses (call ev (connect E cs))" "grows responses (call ev (cursor E))"
    "grows responses (call ev (close E))" "grows responses (call ev (commit E))" for ev
    by (rule tracks_grows, rule strict_tracks, rule logs_responsesD [OF assms])+
  have inner: "fetches responses
      (with_exit (run_statement E q) (call DbClose (close E)) (call DbClose (close E)))"
    by (rule fetches_with_exit [OF fetches_run_statement [OF assms] g(3)])
  have "fetches responses
      (py_bind (call DbCursor (cursor E)) (\<lambda>_.
            with_exit (run_statement E q) (call DbClose (close E)) (call DbClose (close E))))"
    by (rule fetches_bind [OF g(2) inner])
  then have "fetches responses
      (with_exit
         (py_bind (call DbCursor (cursor E)) (\<lambda>_.
            with_exit (run_statement E q) (call DbClose (close E)) (call DbClose (close E))))
         (call DbCommit (commit E))
         (call DbRollback (rollback E)))"
    by (rule fetches_with_exit) (rule g(4))
  with g(1) show ?thesis
    unfolding execute_query_body_def by (rule fetches_bind)
qed

lemma execute_query_fetches:
  assumes "logs_responses E responses"
  shows "\<exists>r s' new. execute_query E cs q s = (Inr r, s')
    \<and> responses (fst s') = responses (fst s) @ new
    \<and> (success_shape r \<or> failure_shape r)
    \<and> (serialisable_rows new \<longrightarrow> first_opaque (result_dict r) = None)"
proof (rule execute_query_cases [of E cs q s])
  fix r s' assume body: "execute_query_body E cs q s = (Inr r, s')"
    and run: "execute_query E cs q s = (Inr r, s')"
  from fetchesD [OF fetches_execute_query_body [OF assms] body]
  obtain new where "responses (fst s') = responses (fst s) @ new"
    and "serialisable_rows new \<longrightarrow> first_opaque (result_dict r) = None"
    by blast
  with run execute_query_body_shape [OF body] show ?thesis by blast
next
  fix m s' assume body: "execute_query_body E cs q s = (Inl (Psycopg2Error m), s')"
    and run: "execute_query E cs q s = (Inr (failure m), s')"
  from tracksD [OF tracks_execute_query_body [OF assms] body]
  obtain new where "responses (fst s') = responses (fst s) @ new" by blast
  with run failure_shape_failure [of m] failure_shape_clean [OF failure_shape_failure, of m]
  show ?thesis by blast
next
  fix m s' assume body: "execute_query_body E cs q s = (Inl (PyException m), s')"
    and run: "execute_query E cs q s = (Inr (failure (''Unexpected error: '' @ m)), s')"
  from tracksD [OF tracks_execute_query_body [OF assms] body]
  obtain new where "responses (fst s') = responses (fst s) @ new" by blast
  with run failure_shape_failure [of "''Unexpected error: '' @ m"]
    failure_shape_clean [OF failure_shape_failure, of "''Unexpected error: '' @ m"]
  show ?thesis by blast
qed

lemma grows_return: "grows responses (py_return a)"
  by (simp add: grows_def py_return_def)

lemma grows_lift: "grows responses (py_lift r)"
  by (simp add: grows_def py_lift_def)

lemma grows_bind:
  assumes "grows responses m" and "\<And>a. grows responses (f a)"
  shows "grows responses (py_bind m f)"
  unfolding grows_def
proof (intro allI impI)
  fix s r s'
  assume run: "py_bind m f s = (r, s')"
  obtain r1 s1 where m: "m s = (r1, s1)" by (cases "m s")
  from growsD [OF assms(1) m] obtain new1 where n1: "responses (fst s1) = responses (fst s) @ new1"
    by blast
  show "\<exists>new. responses (fst s') = responses (fst s) @ new"
  proof (cases r1)
    case (Inl e)
    with run m have "s' = s1" by (simp add: py_bind_def)
    with n1 show ?thesis by blast
  next
    case (Inr a)
    with run m have "f a s1 = (r, s')" by (simp add: py_bind_def)
    from growsD [OF assms(2) this] obtain new2 where "responses (fst s') = responses (fst s1) @ new2"
      by blast
    with n1 show ?thesis by simp
  qed
qed

lemma grows_execute_query:
  assumes "logs_responses E responses"
  shows "grows responses (execute_query E cs q)"
  unfolding grows_def
proof (intro allI impI)
  fix s r s' assume "execute_query E cs q s = (r, s')"
  with execute_query_fetches [OF assms, of cs q s]
  show "\<exists>new. responses (fst s') = responses (fst s) @ new" by auto
qed

lemma grows_db_call:
  assumes "logs_responses (db_engine self) responses"
  shows "grows responses (db_call self q)"
  unfolding db_call_def
  by (rule grows_bind [OF grows_lift grows_execute_query [OF assms]])

lemma grows_handle_tool_calls:
  assumes "logs_responses (db_engine self) responses"
  shows "grows responses (handle_tool_calls self tcs outs)"
proof (induction tcs arbitrary: outs)
  case Nil
  show ?case by (simp add: grows_return)
next
  case (Cons tc tcs)
  show ?case
    by (simp, intro conjI impI grows_bind grows_lift grows_db_call [OF assms] Cons)
qed

lemma handle_tool_calls_returns_log:
  assumes logs: "logs_responses (db_engine self) responses"
  shows "handle_tool_calls self tcs outs s = (res, s') \<Longrightarrow>
     \<exists>new. responses (fst s') = responses (fst s) @ new
       \<and> ((\<forall>tc \<in> set tcs. fn_name tc = ''db_call'' \<longrightarrow> well_formed self tc)
            \<and> serialisable_rows new \<longrightarrow> (\<exists>outs'. res = Inr outs'))"
proof (induction tcs arbitrary: outs s)
  case Nil
  then have "res = Inr outs" "s' = s" by (simp_all add: py_return_def)
  then show ?case by (intro exI [of _ "[]"]) simp
next
  case (Cons tc tcs)
  show ?case
  proof (cases "fn_name tc = ''db_call''")
    case False
    with Cons.prems have "handle_tool_calls self tcs outs s = (res, s')" by simp
    from Cons.IH [OF this] False show ?thesis by auto
  next
    case True
    show ?thesis
    proof (cases "well_formed self tc")
      case False
      from growsD [OF grows_handle_tool_calls [OF logs] Cons.prems]
      obtain new where "responses (fst s') = responses (fst s) @ new" by blast
      with False True show ?thesis by (intro exI [of _ new]) simp
    next
      case wf: True
      then obtain args q where args: "json_loads self (fn_arguments tc) = Inr args"
        and q: "args_get_query args = Inr q" and slice: "query_slice q = Inr ()"
        unfolding well_formed_def by blast
      from execute_query_fetches [OF logs, of "connection_string self" q s]
      obtain r s1 new1 where
        run: "execute_query (db_engine self) (connection_string self) q s = (Inr r, s1)"
        and n1: "responses (fst s1) = responses (fst s) @ new1"
        and clean: "serialisable_rows new1 \<longrightarrow> first_opaque (result_dict r) = None"
        by blast
      from run slice have call: "db_call self q s = (Inr r, s1)"
        by (simp add: db_call_sliceable)
      show ?thesis
      proof (cases "json_dumps (result_dict r)")
        case (Inl e)
        with Cons.prems True args q call have "res = Inl e" "s' = s1"
          by (simp_all add: py_bind_def py_lift_def)
        moreover from Inl have "first_opaque (result_dict r) \<noteq> None"
          by (auto simp: json_dumps_def split: option.splits)
        ultimately show ?thesis using n1 clean by (intro exI [of _ new1]) auto
      next
        case (Inr body)
        from handle_tool_calls_step [OF True args q call Inr] Cons.prems
        have "handle_tool_calls self tcs
                (outs @ [\<lparr>tool_call_id = tc_id tc, output_text = body\<rparr>]) s1 = (res, s')"
          by simp
        from Cons.IH [OF this] obtain new2 where
          n2: "responses (fst s') = responses (fst s1) @ new2"
          and rest: "(\<forall>tc \<in> set tcs. fn_name tc = ''db_call'' \<longrightarrow> well_formed self tc)
            \<and> serialisable_rows new2 \<longrightarrow> (\<exists>outs'. res = Inr outs')"
          by blast
        from n1 n2 rest show ?thesis
          by (intro exI [of _ "new1 @ new2"]) (simp add: serialisable_rows_append)
      qed
    qed
  qed
qed

lemma handle_tool_calls_raises:
  "\<exists>tc \<in> set tcs. fn_name tc = ''db_call'' \<and> \<not> well_formed self tc
     \<Longrightarrow> \<exists>e s'. handle_tool_calls self tcs outs s = (Inl e, s')"
proof (induction tcs arbitrary: outs s)
  case Nil
  then show ?case by simp
next
  case (Cons tc tcs)
  show ?case
  proof (cases "fn_name tc = ''db_call''")
    case False
    with Cons.prems have "\<exists>tc \<in> set tcs. fn_name tc = ''db_call'' \<and> \<not> well_formed self tc"
      by auto
    from Cons.IH [OF this, of outs s] False show ?thesis by simp
  next
    case True
    show ?thesis
    proof (cases "json_loads self (fn_arguments tc)")
      case (Inl e)
      with True show ?thesis by (simp add: py_bind_def py_lift_def)
    next
      case args: (Inr args)
      show ?thesis
      proof (cases "args_get_query args")
        case (Inl e)
        with True args show ?thesis by (simp add: py_bind_def py_lift_def)
      next
        case q: (Inr q)
        show ?thesis
        proof (cases "query_slice q")
          case (Inl e)
          with True args q show ?thesis by (simp add: py_bind_def py_lift_def db_call_def)
        next
          case (Inr u)
          then have slice: "query_slice q = Inr ()" by simp
          with args q have "well_formed self tc" unfolding well_formed_def by blast
          with Cons.prems
          have bad: "\<exists>tc \<in> set tcs. fn_name tc = ''db_call'' \<and> \<not> well_formed self tc"
            by auto
          from execute_query_total [of "db_engine self" "connection_string self" q s]
          obtain r s1 where
            "execute_query (db_engine self) (connection_string self) q s = (Inr r, s1)"
            by blast
          with slice have call: "db_call self q s = (Inr r, s1)"
            by (simp add: db_call_sliceable)
          show ?thesis
          proof (cases "json_dumps (result_dict r)")
            case (Inl e)
            with True args q call show ?thesis by (simp add: py_bind_def py_lift_def)
          next
            case (Inr body)
            from handle_tool_calls_step [OF True args q call Inr]
              Cons.IH [OF bad, of "outs @ [\<lparr>tool_call_id = tc_id tc, output_text = body\<rparr>]" s1]
            show ?thesis by simp
          qed
        qed
      qed
    qed
  qed
qed

lemma logged_manager_simps:
  "db_engine (logged_manager self) = logged (db_engine self)"
  "connection_string (logged_manager self) = connection_string self"
  "json_loads (logged_manager self) = json_loads self"
  by (simp_all add: logged_manager_def)

lemma mirrors_db_call: "mirrors (db_call self q) (db_call (logged_manager self) q)"
  unfolding db_call_def logged_manager_simps
  by (rule mirrors_bind [OF mirrors_lift mirrors_execute_query])

lemma mirrors_handle_tool_calls:
  "mirrors (handle_tool_calls self tcs outs) (handle_tool_calls (logged_manager self) tcs outs)"
proof (induction tcs arbitrary: outs)
  case Nil
  show ?case by (simp add: mirrors_return)
next
  case (Cons tc tcs)
  show ?case
    by (simp add: logged_manager_simps,
        intro conjI impI mirrors_bind mirrors_lift mirrors_db_call Cons)
qed

lemma well_formed_logged: "well_formed (logged_manager self) tc = well_formed self tc"
  by (simp add: well_formed_def logged_manager_simps)

section \<open>The claims about the tool gateway\<close>

lemmas run_defs =
  py_bind_def call_def py_lift_def py_return_def py_raise_def with_exit_def tool_calls_of_def
  db_call_def execute_query_def execute_query_body_def run_statement_def select_branch_def
  update_branch_def json_dumps_def result_dict_def demo_manager_def scripted_remote_def
  next_run_def journal_engine_def sim0_def table_loads_def py_dict_def unsupported_def
  failure_def Let_def

lemma select_1: "is_select ''SELECT 1''"
  by (simp add: str_tests)

text \<open>
  C5, as the claim states it: each pending request of a run in requires-action receives
  exactly one output in the batch submitted before the next poll. It fails for a request
  that names another tool than \<^verbatim>\<open>db_call\<close>: the loop of \<^verbatim>\<open>_handle_tool_calls\<close> has no
  branch for it, and the batch submitted for the run below is empty.
\<close>

theorem unknown_tool_gets_no_output:
  "poll_step (demo_manager [] (Inl (PyException ''connection reset'')) [] None) ''thread_1''
     \<lparr>run_id = ''run_1'', status = QUEUED, required_action = None\<rparr>
     (sim0 [\<lparr>run_id = ''run_1'', status = REQUIRES_ACTION,
             required_action =
               Some [\<lparr>tc_id = ''call_1'', fn_name = ''get_weather'', fn_arguments = ''{}''\<rparr>]\<rparr>,
            \<lparr>run_id = ''run_1'', status = IN_PROGRESS, required_action = None\<rparr>], [])
   = (Inr \<lparr>run_id = ''run_1'', status = IN_PROGRESS, required_action = None\<rparr>,
      (sim0 [],
       [Sleep 1, GetRun ''thread_1'' ''run_1'', SubmitToolOutputs ''thread_1'' ''run_1'' []]))"
  by (simp add: poll_step_def run_defs)

text \<open>
  C5, amended: in a turn of the loop in which the run is in requires-action and the
  gateway raises no exception, the turn fetches the run once, then makes only database
  calls, and its last call submits one batch to the run; the batch holds exactly one
  output for each pending request that names \<^verbatim>\<open>db_call\<close>, in the order of the requests
  and with their ids. A request that names another tool receives no output.
\<close>

theorem poll_step_answers_db_calls:
  assumes "get_run (project_client self) thread_id (run_id run0) w = (Inr run1, w1)"
    and "status run1 = REQUIRES_ACTION"
    and "required_action run1 = Some tool_calls"
    and "handle_tool_calls self tool_calls [] (w1, tr @ [Sleep 1, GetRun thread_id (run_id run0)])
           = (Inr tool_outputs, (w2, tr2))"
    and "submit_tool_outputs_to_run (project_client self) thread_id (run_id run1) tool_outputs w2
           = (res, w3)"
  shows "poll_step self thread_id run0 (w, tr)
           = (res, (w3, tr2 @ [SubmitToolOutputs thread_id (run_id run1) tool_outputs]))
         \<and> map tool_call_id tool_outputs
             = map tc_id (filter (\<lambda>tc. fn_name tc = ''db_call'') tool_calls)
         \<and> (\<exists>evs. tr2 = tr @ [Sleep 1, GetRun thread_id (run_id run0)] @ evs
                \<and> list_all is_db_event evs)"
proof (intro conjI)
  show "poll_step self thread_id run0 (w, tr)
          = (res, (w3, tr2 @ [SubmitToolOutputs thread_id (run_id run1) tool_outputs]))"
    using assms
    by (simp add: poll_step_def py_bind_def call_def py_lift_def tool_calls_of_def)
  from handle_tool_calls_outputs [OF assms(4)]
  show "map tool_call_id tool_outputs
          = map tc_id (filter (\<lambda>tc. fn_name tc = ''db_call'') tool_calls)"
    by auto
  from db_only_handle_tool_calls [of self tool_calls "[]"] assms(4)
  obtain evs where "tr2 = (tr @ [Sleep 1, GetRun thread_id (run_id run0)]) @ evs"
    and "list_all is_db_event evs"
    unfolding db_only_def by fastforce
  then show "\<exists>evs. tr2 = tr @ [Sleep 1, GetRun thread_id (run_id run0)] @ evs
               \<and> list_all is_db_event evs"
    by auto
qed

theorem poll_step_answers_db_calls_witness:
  \<open>poll_step (demo_manager [] (Inl (PyException ''connection reset'')) [[PyInt 1]]
       (Some [(''one'', 23)])) ''thread_1''
     \<lparr>run_id = ''run_1'', status = QUEUED, required_action = None\<rparr>
     (sim0 [\<lparr>run_id = ''run_1'', status = REQUIRES_ACTION,
             required_action =
               Some [\<lparr>tc_id = ''call_1'', fn_name = ''db_call'',
                      fn_arguments = ''{"query": "SELECT 1"}''\<rparr>,
                     \<lparr>tc_id = ''call_2'', fn_name = ''get_weather'', fn_arguments = ''{}''\<rparr>]\<rparr>,
            \<lparr>run_id = ''run_1'', status = IN_PROGRESS, required_action = None\<rparr>], [])
   = (Inr \<lparr>run_id = ''run_1'', status = IN_PROGRESS, required_action = None\<rparr>,
      (\<lparr>pending = [], committed = [PyStr ''SELECT 1''], script = []\<rparr>,
       [Sleep 1, GetRun ''thread_1'' ''run_1'', DbConnect ''postgresql://db'', DbCursor,
        DbExecute (PyStr ''SELECT 1''), DbFetchall, DbClose, DbCommit,
        SubmitToolOutputs ''thread_1'' ''run_1''
          [\<lparr>tool_call_id = ''call_1'',
            output_text =
              ''{"success": true, "data": [{"one": 1}], "row_count": 1, "columns": ["one"], "error": null}''\<rparr>]]))\<close>
proof -
  have handled:
    \<open>handle_tool_calls
       (demo_manager [] (Inl (PyException ''connection reset'')) [[PyInt 1]] (Some [(''one'', 23)]))
       [\<lparr>tc_id = ''call_1'', fn_name = ''db_call'', fn_arguments = ''{"query": "SELECT 1"}''\<rparr>,
        \<lparr>tc_id = ''call_2'', fn_name = ''get_weather'', fn_arguments = ''{}''\<rparr>] []
       (\<lparr>pending = [], committed = [],
         script = [\<lparr>run_id = ''run_1'', status = IN_PROGRESS, required_action = None\<rparr>]\<rparr>,
        [] @ [Sleep 1, GetRun ''thread_1''
                (run_id \<lparr>run_id = ''run_1'', status = QUEUED, required_action = None\<rparr>)])
     = (Inr [\<lparr>tool_call_id = ''call_1'',
              output_text =
                ''{"success": true, "data": [{"one": 1}], "row_count": 1, "columns": ["one"], "error": null}''\<rparr>],
        (\<lparr>pending = [], committed = [PyStr ''SELECT 1''],
          script = [\<lparr>run_id = ''run_1'', status = IN_PROGRESS, required_action = None\<rparr>]\<rparr>,
         [Sleep 1, GetRun ''thread_1'' ''run_1'', DbConnect ''postgresql://db'', DbCursor,
          DbExecute (PyStr ''SELECT 1''), DbFetchall, DbClose, DbCommit]))\<close>
    by (simp add: run_defs select_1 json_string_def json_escape_char_def str_int_def
        str_nat.simps digit_char_def)
  show ?thesis
    using poll_step_answers_db_calls
      [of "demo_manager [] (Inl (PyException ''connection reset'')) [[PyInt 1]]
             (Some [(''one'', 23)])"
        "''thread_1''" "\<lparr>run_id = ''run_1'', status = QUEUED, required_action = None\<rparr>"
        _ _ _ _ "[]", OF _ _ _ handled]
    by (simp add: run_defs)
qed

text \<open>
  C6, as the claim states it: a batch of K requests that all name \<^verbatim>\<open>db_call\<close> gives K
  outputs. Two batches of one request for which the function raises instead and returns
  no output: one whose arguments are not JSON (the empty text), and a well-formed one whose
  SELECT returns a cell that \<^verbatim>\<open>json.dumps\<close> cannot serialise (a timestamp).
\<close>

theorem db_call_batch_can_raise:
  \<open>handle_tool_calls (demo_manager [] (Inl (PyException ''connection reset'')) [] None)
     [\<lparr>tc_id = ''call_1'', fn_name = ''db_call'', fn_arguments = ''''\<rparr>] [] (sim0 [], [])
   = (Inl (PyException ''Expecting value: line 1 column 1 (char 0)''), (sim0 [], []))
   \<and> handle_tool_calls
       (demo_manager [] (Inl (PyException ''connection reset'')) [[PyOpaque ''datetime'']]
          (Some [(''now'', 1184)]))
       [\<lparr>tc_id = ''call_1'', fn_name = ''db_call'', fn_arguments = ''{"query": "SELECT 1"}''\<rparr>]
       [] (sim0 [], [])
     = (Inl (PyException ''Object of type datetime is not JSON serializable''),
        (\<lparr>pending = [], committed = [PyStr ''SELECT 1''], script = []\<rparr>,
         [DbConnect ''postgresql://db'', DbCursor, DbExecute (PyStr ''SELECT 1''), DbFetchall,
          DbClose, DbCommit]))\<close>
  by (simp add: run_defs select_1)

text \<open>
  C6, amended: a batch of K requests that all name \<^verbatim>\<open>db_call\<close>, for every manager, engine and
  world. The call either raises, and then returns no output at all, or returns exactly K
  outputs; the i-th output carries the id of the i-th request, and its body is the JSON
  text of a result dictionary (a success or a failure). It raises whenever the arguments of
  some request are not a JSON object in which \<^verbatim>\<open>query\<close> is absent, a string or an array. It
  returns whenever the arguments of every request are such an object and \<^verbatim>\<open>json.dumps\<close>
  can serialise every cell of the rows that the engine returned during this call: run on
  the same manager with the record added to the engine (\<open>logged_manager self\<close>), the call
  has the same outcome and leaves the same world and trace, and \<open>new\<close> is what it added to
  the record.
\<close>

theorem handle_tool_calls_one_output_each:
  assumes "\<forall>tc \<in> set tool_calls. fn_name tc = ''db_call''"
  shows "\<exists>res w' tr' new.
      handle_tool_calls self tool_calls [] (w, tr) = (res, (w', tr'))
    \<and> handle_tool_calls (logged_manager self) tool_calls [] ((w, l), tr)
        = (res, ((w', l @ new), tr'))
    \<and> (\<forall>outs. res = Inr outs \<longrightarrow>
          length outs = length tool_calls
          \<and> map tool_call_id outs = map tc_id tool_calls
          \<and> (\<forall>out \<in> set outs. \<exists>r. (success_shape r \<or> failure_shape r)
                 \<and> json_dumps (result_dict r) = Inr (output_text out)
                 \<and> output_text out = json_text (result_dict r)))
    \<and> ((\<forall>tc \<in> set tool_calls. \<exists>args q.
            json_loads self (fn_arguments tc) = Inr args \<and> args_get_query args = Inr q
            \<and> query_slice q = Inr ())
        \<and> (\<forall>rows. Fetched rows \<in> set new
              \<longrightarrow> (\<forall>row \<in> set rows. \<forall>v \<in> set row. first_opaque v = None))
        \<longrightarrow> (\<exists>outs. res = Inr outs))
    \<and> ((\<exists>tc \<in> set tool_calls. \<not> (\<exists>args q.
            json_loads self (fn_arguments tc) = Inr args \<and> args_get_query args = Inr q
            \<and> query_slice q = Inr ()))
        \<longrightarrow> (\<exists>e. res = Inl e))"
proof -
  obtain res s' where run': "handle_tool_calls (logged_manager self) tool_calls [] ((w, l), tr)
      = (res, s')"
    by (cases "handle_tool_calls (logged_manager self) tool_calls [] ((w, l), tr)")
  obtain w' l' tr' where s': "s' = ((w', l'), tr')" by (cases s') auto
  from mirrorsD [OF mirrors_handle_tool_calls run']
  have run: "handle_tool_calls self tool_calls [] (w, tr) = (res, (w', tr'))"
    by (simp add: erase_def s')
  have logs: "logs_responses (db_engine (logged_manager self)) snd"
    by (simp add: logged_manager_simps logs_responses_logged)
  from handle_tool_calls_returns_log [OF logs run']
  obtain new where n: "snd (fst s') = snd (fst ((w, l), tr)) @ new"
    and returns: "(\<forall>tc \<in> set tool_calls. fn_name tc = ''db_call''
                      \<longrightarrow> well_formed (logged_manager self) tc)
            \<and> serialisable_rows new \<longrightarrow> (\<exists>outs'. res = Inr outs')"
    by blast
  from n s' have l': "l' = l @ new" by simp
  have outputs: "length outs = length tool_calls
          \<and> map tool_call_id outs = map tc_id tool_calls
          \<and> (\<forall>out \<in> set outs. \<exists>r. (success_shape r \<or> failure_shape r)
                 \<and> json_dumps (result_dict r) = Inr (output_text out)
                 \<and> output_text out = json_text (result_dict r))"
    if res: "res = Inr outs" for outs
  proof -
    from assms have all: "filter (\<lambda>tc. fn_name tc = ''db_call'') tool_calls = tool_calls"
      by (simp add: filter_id_conv)
    from run res have "handle_tool_calls self tool_calls [] (w, tr) = (Inr outs, (w', tr'))"
      by simp
    from handle_tool_calls_outputs [OF this] all
    have ids: "map tool_call_id outs = map tc_id tool_calls"
      and bodies: "\<forall>out \<in> set outs. \<exists>r. (success_shape r \<or> failure_shape r)
                   \<and> json_dumps (result_dict r) = Inr (output_text out)"
      by auto
    from ids have len: "length outs = length tool_calls"
      by (rule map_eq_imp_length_eq)
    have texts: "\<forall>out \<in> set outs. \<exists>r. (success_shape r \<or> failure_shape r)
                 \<and> json_dumps (result_dict r) = Inr (output_text out)
                 \<and> output_text out = json_text (result_dict r)"
    proof
      fix out assume "out \<in> set outs"
      with bodies obtain r where r: "success_shape r \<or> failure_shape r"
        "json_dumps (result_dict r) = Inr (output_text out)"
        by blast
      from r(2) have "output_text out = json_text (result_dict r)"
        by (auto simp: json_dumps_def split: option.splits)
      with r show "\<exists>r. (success_shape r \<or> failure_shape r)
                 \<and> json_dumps (result_dict r) = Inr (output_text out)
                 \<and> output_text out = json_text (result_dict r)"
        by blast
    qed
    from len ids texts show ?thesis by blast
  qed
  have raises: "\<exists>e. res = Inl e"
    if "\<exists>tc \<in> set tool_calls. \<not> (\<exists>args q.
            json_loads self (fn_arguments tc) = Inr args \<and> args_get_query args = Inr q
            \<and> query_slice q = Inr ())"
  proof -
    from that assms
    have "\<exists>tc \<in> set tool_calls. fn_name tc = ''db_call'' \<and> \<not> well_formed self tc"
      unfolding well_formed_def by blast
    from handle_tool_calls_raises [OF this, of "[]" "(w, tr)"] run show ?thesis by auto
  qed
  have returns': "\<exists>outs. res = Inr outs"
    if "(\<forall>tc \<in> set tool_calls. \<exists>args q.
            json_loads self (fn_arguments tc) = Inr args \<and> args_get_query args = Inr q
            \<and> query_slice q = Inr ())
        \<and> (\<forall>rows. Fetched rows \<in> set new
              \<longrightarrow> (\<forall>row \<in> set rows. \<forall>v \<in> set row. first_opaque v = None))"
  proof -
    from that have "\<forall>tc \<in> set tool_calls. well_formed self tc"
      unfolding well_formed_def by blast
    then have "\<forall>tc \<in> set tool_calls. fn_name tc = ''db_call''
                      \<longrightarrow> well_formed (logged_manager self) tc"
      by (simp add: well_formed_logged)
    moreover from that have "serialisable_rows new"
      by (simp add: serialisable_rows_def)
    ultimately show ?thesis using returns by blast
  qed
  show ?thesis
  proof (intro exI [of _ res] exI [of _ w'] exI [of _ tr'] exI [of _ new] conjI allI impI)
    show "handle_tool_calls self tool_calls [] (w, tr) = (res, (w', tr'))" by (rule run)
    show "handle_tool_calls (logged_manager self) tool_calls [] ((w, l), tr)
        = (res, ((w', l @ new), tr'))"
      using run' s' l' by simp
  next
    fix outs assume "res = Inr outs"
    from outputs [OF this] show "length outs = length tool_calls"
      and "map tool_call_id outs = map tc_id tool_calls"
      and "\<forall>out \<in> set outs. \<exists>r. (success_shape r \<or> failure_shape r)
                 \<and> json_dumps (result_dict r) = Inr (output_text out)
                 \<and> output_text out = json_text (result_dict r)"
      by blast+
  next
    assume "(\<forall>tc \<in> set tool_calls. \<exists>args q.
            json_loads self (fn_arguments tc) = Inr args \<and> args_get_query args = Inr q
            \<and> query_slice q = Inr ())
        \<and> (\<forall>rows. Fetched rows \<in> set new
              \<longrightarrow> (\<forall>row \<in> set rows. \<forall>v \<in> set row. first_opaque v = None))"
    then show "\<exists>outs. res = Inr outs" by (rule returns')
  next
    assume "\<exists>tc \<in> set tool_calls. \<not> (\<exists>args q.
            json_loads self (fn_arguments tc) = Inr args \<and> args_get_query args = Inr q
            \<and> query_slice q = Inr ())"
    then show "\<exists>e. res = Inl e" by (rule raises)
  qed
qed

theorem handle_tool_calls_one_output_each_witness:
  \<open>handle_tool_calls
     (logged_manager
        (demo_manager [] (Inl (PyException ''connection reset'')) [[PyInt 1]]
           (Some [(''one'', 23)])))
     [\<lparr>tc_id = ''call_1'', fn_name = ''db_call'', fn_arguments = ''{"query": "SELECT 1"}''\<rparr>,
      \<lparr>tc_id = ''call_2'', fn_name = ''db_call'', fn_arguments = ''{}''\<rparr>] []
     ((sim0 [], []), [])
   = (Inr [\<lparr>tool_call_id = ''call_1'',
            output_text =
              ''{"success": true, "data": [{"one": 1}], "row_count": 1, "columns": ["one"], "error": null}''\<rparr>,
           \<lparr>tool_call_id = ''call_2'',
            output_text =
              ''{"success": false, "data": null, "row_count": 0, "columns": null, "error": "can't execute an empty query"}''\<rparr>],
      ((\<lparr>pending = [], committed = [PyStr ''SELECT 1''], script = []\<rparr>,
        [Fetched [[PyInt 1]], Raised (Psycopg2Error ''can't execute an empty query'')]),
       [DbConnect ''postgresql://db'', DbCursor, DbExecute (PyStr ''SELECT 1''), DbFetchall,
        DbClose, DbCommit, DbConnect ''postgresql://db'', DbCursor, DbExecute (PyStr []),
        DbClose, DbRollback]))
   \<and> handle_tool_calls
       (demo_manager [] (Inl (PyException ''connection reset'')) [[PyInt 1]]
          (Some [(''one'', 23)]))
       [\<lparr>tc_id = ''call_1'', fn_name = ''db_call'', fn_arguments = ''{"query": "SELECT 1"}''\<rparr>,
        \<lparr>tc_id = ''call_2'', fn_name = ''db_call'', fn_arguments = ''{}''\<rparr>] []
       (sim0 [], [])
     = (Inr [\<lparr>tool_call_id = ''call_1'',
              output_text =
                ''{"success": true, "data": [{"one": 1}], "row_count": 1, "columns": ["one"], "error": null}''\<rparr>,
             \<lparr>tool_call_id = ''call_2'',
              output_text =
                ''{"success": false, "data": null, "row_count": 0, "columns": null, "error": "can't execute an empty query"}''\<rparr>],
        (\<lparr>pending = [], committed = [PyStr ''SELECT 1''], script = []\<rparr>,
         [DbConnect ''postgresql://db'', DbCursor, DbExecute (PyStr ''SELECT 1''), DbFetchall,
          DbClose, DbCommit, DbConnect ''postgresql://db'', DbCursor, DbExecute (PyStr []),
          DbClose, DbRollback]))\<close>
proof -
  let ?self = "demo_manager [] (Inl (PyException ''connection reset'')) [[PyInt 1]]
           (Some [(''one'', 23)])"
  let ?batch = \<open>[\<lparr>tc_id = ''call_1'', fn_name = ''db_call'', fn_arguments = ''{"query": "SELECT 1"}''\<rparr>,
      \<lparr>tc_id = ''call_2'', fn_name = ''db_call'', fn_arguments = ''{}''\<rparr>]\<close>
  have names: "\<forall>tc \<in> set ?batch. fn_name tc = ''db_call''" by simp
  from handle_tool_calls_one_output_each [OF names, of ?self "sim0 []" "[]" "[]"]
  obtain res w' tr' new where
    run: "handle_tool_calls ?self ?batch [] (sim0 [], []) = (res, (w', tr'))"
    and run': "handle_tool_calls (logged_manager ?self) ?batch [] ((sim0 [], []), [])
        = (res, ((w', new), tr'))"
    by (elim exE conjE) simp
  have \<open>handle_tool_calls (logged_manager ?self) ?batch [] ((sim0 [], []), [])
      = (Inr [\<lparr>tool_call_id = ''call_1'',
            output_text =
              ''{"success": true, "data": [{"one": 1}], "row_count": 1, "columns": ["one"], "error": null}''\<rparr>,
           \<lparr>tool_call_id = ''call_2'',
            output_text =
              ''{"success": false, "data": null, "row_count": 0, "columns": null, "error": "can't execute an empty query"}''\<rparr>],
      ((\<lparr>pending = [], committed = [PyStr ''SELECT 1''], script = []\<rparr>,
        [Fetched [[PyInt 1]], Raised (Psycopg2Error ''can't execute an empty query'')]),
       [DbConnect ''postgresql://db'', DbCursor, DbExecute (PyStr ''SELECT 1''), DbFetchall,
        DbClose, DbCommit, DbConnect ''postgresql://db'', DbCursor, DbExecute (PyStr []),
        DbClose, DbRollback]))\<close>
    by (simp add: run_defs logged_manager_def logged_def logged_call_def select_1
        empty_not_select empty_not_update json_string_def json_escape_char_def str_int_def
        str_nat.simps digit_char_def)
  with run run' show ?thesis by simp
qed

text \<open>
  C7, as the claim states it: a request with a bad argument never fails the whole batch.
  In the batch below the second request has arguments that are not JSON:
  \<^verbatim>\<open>json.loads\<close> raises, nothing catches the exception inside \<^verbatim>\<open>_handle_tool_calls\<close>, and
  the function returns no output, not even the one for the first request, which had
  been executed.
\<close>

theorem bad_arguments_fail_the_batch:
  "handle_tool_calls (demo_manager [] (Inl (PyException ''connection reset'')) [] None)
     [\<lparr>tc_id = ''call_1'', fn_name = ''db_call'', fn_arguments = ''{}''\<rparr>,
      \<lparr>tc_id = ''call_2'', fn_name = ''db_call'', fn_arguments = ''not json''\<rparr>] [] (sim0 [], [])
   = (Inl (PyException ''Expecting value: line 1 column 1 (char 0)''),
      (sim0 [],
       [DbConnect ''postgresql://db'', DbCursor, DbExecute (PyStr []), DbClose, DbRollback]))"
  by (simp add: run_defs empty_not_select empty_not_update)

text \<open>
  C7, amended: the arguments of each \<^verbatim>\<open>db_call\<close> request are parsed as JSON. When they
  parse as an object without the key \<^verbatim>\<open>query\<close>, the query is the empty string; the
  executor returns for it a failure result (\<open>success = False\<close>, \<open>data = None\<close>,
  \<open>row_count = 0\<close>, an error text), not an exception, and the loop goes on to the rest of
  the batch with one more output, whose body is the JSON text of that result. Arguments
  that are not JSON, or not an object, raise and fail the whole batch.
\<close>

theorem missing_query_defaults_to_failure_output:
  assumes "fn_name tc = ''db_call''"
    and "json_loads self (fn_arguments tc) = Inr (PyDict kvs)"
    and "map_of kvs ''query'' = None"
  shows "\<exists>r s1. execute_query (db_engine self) (connection_string self) (PyStr []) s = (Inr r, s1)
           \<and> \<not> success r \<and> data r = None \<and> row_count r = 0 \<and> columns r = None
           \<and> error r \<noteq> None
           \<and> handle_tool_calls self (tc # tool_calls) tool_outputs s
               = handle_tool_calls self tool_calls
                   (tool_outputs
                    @ [\<lparr>tool_call_id = tc_id tc, output_text = json_text (result_dict r)\<rparr>]) s1"
proof -
  obtain r s1 where
    run: "execute_query (db_engine self) (connection_string self) (PyStr []) s = (Inr r, s1)"
    using execute_query_total by blast
  from execute_query_rejects [OF run empty_not_select empty_not_update]
  have shape: "failure_shape r" .
  then have dumps: "json_dumps (result_dict r) = Inr (json_text (result_dict r))"
    by (simp add: json_dumps_clean failure_shape_clean)
  from assms(3) have query: "args_get_query (PyDict kvs) = Inr (PyStr [])"
    by simp
  from run have "db_call self (PyStr []) s = (Inr r, s1)"
    by (simp add: db_call_sliceable)
  from handle_tool_calls_step [OF assms(1,2) query this dumps]
  have "handle_tool_calls self (tc # tool_calls) tool_outputs s
          = handle_tool_calls self tool_calls
              (tool_outputs
               @ [\<lparr>tool_call_id = tc_id tc, output_text = json_text (result_dict r)\<rparr>]) s1" .
  with run shape show ?thesis
    unfolding failure_shape_def by blast
qed

theorem missing_query_defaults_to_failure_output_witness:
  \<open>handle_tool_calls (demo_manager [] (Inl (PyException ''connection reset'')) [] None)
     [\<lparr>tc_id = ''call_1'', fn_name = ''db_call'', fn_arguments = ''{}''\<rparr>] [] (sim0 [], [])
   = (Inr [\<lparr>tool_call_id = ''call_1'',
            output_text =
              ''{"success": false, "data": null, "row_count": 0, "columns": null, "error": "can't execute an empty query"}''\<rparr>],
      (sim0 [],
       [DbConnect ''postgresql://db'', DbCursor, DbExecute (PyStr []), DbClose, DbRollback]))\<close>
proof -
  have loads: "json_loads (demo_manager [] (Inl (PyException ''connection reset'')) [] None)
                 (fn_arguments \<lparr>tc_id = ''call_1'', fn_name = ''db_call'', fn_arguments = ''{}''\<rparr>)
               = Inr (PyDict [])"
    by (simp add: demo_manager_def table_loads_def)
  show ?thesis
    using missing_query_defaults_to_failure_output
      [of "\<lparr>tc_id = ''call_1'', fn_name = ''db_call'', fn_arguments = ''{}''\<rparr>"
        "demo_manager [] (Inl (PyException ''connection reset'')) [] None" "[]"
        "(sim0 [], [])" "[]" "[]", OF _ loads]
    by (simp add: run_defs empty_not_select empty_not_update json_string_def
        json_escape_char_def str_int_def str_nat.simps digit_char_def)
qed

section \<open>Facts about the run orchestrator\<close>

lemma poll_loop_within_sound:
  "poll_loop_within n self thread_id run0 s = Some x \<Longrightarrow> poll_loop self thread_id run0 s = Some x"
proof (induction n arbitrary: run0 s)
  case 0
  then show ?case by (subst poll_loop.simps) (simp split: if_splits)
next
  case (Suc n)
  show ?case
  proof (cases "polling (status run0)")
    case False
    with Suc.prems show ?thesis by (subst poll_loop.simps) simp
  next
    case True
    obtain r s1 where step: "poll_step self thread_id run0 s = (r, s1)"
      by (cases "poll_step self thread_id run0 s")
    show ?thesis
    proof (cases r)
      case (Inl e)
      with True step Suc.prems have "x = (Inl e, s1)" by simp
      with True step Inl show ?thesis by (subst poll_loop.simps) simp
    next
      case (Inr run1)
      with True step Suc.prems have "poll_loop_within n self thread_id run1 s1 = Some x"
        by simp
      from Suc.IH [OF this] True step Inr show ?thesis
        by (subst poll_loop.simps) simp
    qed
  qed
qed

lemma poll_loop_terminal:
  assumes "poll_loop self thread_id run0 s = Some y"
  shows "\<forall>run1 s'. y = (Inr run1, s') \<longrightarrow> \<not> polling (status run1)"
proof (rule poll_loop.raw_induct
    [where P = "\<lambda>self thread_id run0 s y. \<forall>run1 s'. y = (Inr run1, s') \<longrightarrow> \<not> polling (status run1)",
      OF _ assms])
  fix f self thread_id run0 s y
  assume IH: "\<And>self thread_id run0 s y. f self thread_id run0 s = Some y
                \<Longrightarrow> \<forall>run1 s'. y = (Inr run1, s') \<longrightarrow> \<not> polling (status run1)"
    and eq: "(if polling (status run0)
              then case poll_step self thread_id run0 s of
                     (Inl e, s') \<Rightarrow> Some (Inl e, s')
                   | (Inr run1, s') \<Rightarrow> f self thread_id run1 s'
              else Some (Inr run0, s)) = Some y"
  show "\<forall>run1 s'. y = (Inr run1, s') \<longrightarrow> \<not> polling (status run1)"
  proof (cases "polling (status run0)")
    case False
    with eq show ?thesis by auto
  next
    case True
    obtain r s1 where step: "poll_step self thread_id run0 s = (r, s1)"
      by (cases "poll_step self thread_id run0 s")
    show ?thesis
    proof (cases r)
      case (Inl e)
      with True step eq show ?thesis by auto
    next
      case (Inr run1)
      with True step eq have "f self thread_id run1 s1 = Some y" by simp
      then show ?thesis by (rule IH)
    qed
  qed
qed

lemma poll_loop_within_complete:
  assumes "poll_loop self thread_id run0 s = Some y"
  shows "\<exists>n. poll_loop_within n self thread_id run0 s = Some y"
proof (rule poll_loop.raw_induct
    [where P = "\<lambda>self thread_id run0 s y. \<exists>n. poll_loop_within n self thread_id run0 s = Some y",
      OF _ assms])
  fix f self thread_id run0 s y
  assume IH: "\<And>self thread_id run0 s y. f self thread_id run0 s = Some y
                \<Longrightarrow> \<exists>n. poll_loop_within n self thread_id run0 s = Some y"
    and eq: "(if polling (status run0)
              then case poll_step self thread_id run0 s of
                     (Inl e, s') \<Rightarrow> Some (Inl e, s')
                   | (Inr run1, s') \<Rightarrow> f self thread_id run1 s'
              else Some (Inr run0, s)) = Some y"
  show "\<exists>n. poll_loop_within n self thread_id run0 s = Some y"
  proof (cases "polling (status run0)")
    case False
    with eq have "poll_loop_within 0 self thread_id run0 s = Some y" by simp
    then show ?thesis ..
  next
    case True
    obtain r s1 where step: "poll_step self thread_id run0 s = (r, s1)"
      by (cases "poll_step self thread_id run0 s")
    show ?thesis
    proof (cases r)
      case (Inl e)
      with True step eq have y: "y = (Inl e, s1)" by simp
      from True step Inl have "poll_loop_within (Suc 0) self thread_id run0 s = Some y"
        unfolding y by simp
      then show ?thesis ..
    next
      case (Inr run1)
      with True step eq have "f self thread_id run1 s1 = Some y" by simp
      from IH [OF this] obtain n where "poll_loop_within n self thread_id run1 s1 = Some y" ..
      with True step Inr have "poll_loop_within (Suc n) self thread_id run0 s = Some y" by simp
      then show ?thesis ..
    qed
  qed
qed

lemma poll_loop_None_iff:
  "poll_loop self thread_id run0 s = None
     \<longleftrightarrow> (\<forall>n. poll_loop_within n self thread_id run0 s = None)"
proof
  assume none: "poll_loop self thread_id run0 s = None"
  show "\<forall>n. poll_loop_within n self thread_id run0 s = None"
  proof (rule allI, rule ccontr)
    fix n assume "poll_loop_within n self thread_id run0 s \<noteq> None"
    then obtain y where "poll_loop_within n self thread_id run0 s = Some y" by blast
    from poll_loop_within_sound [OF this] none show False by simp
  qed
next
  assume all: "\<forall>n. poll_loop_within n self thread_id run0 s = None"
  show "poll_loop self thread_id run0 s = None"
  proof (rule ccontr)
    assume "poll_loop self thread_id run0 s \<noteq> None"
    then obtain y where "poll_loop self thread_id run0 s = Some y" by blast
    from poll_loop_within_complete [OF this] all show False by simp
  qed
qed

lemma chat_None_iff:
  "chat_with_master_agent self user_message s = None
     \<longleftrightarrow> (\<exists>thread_id run0 s1. start_run self user_message s = (Inr (thread_id, run0), s1)
            \<and> poll_loop self thread_id run0 s1 = None)"
proof -
  obtain r s1 where start: "start_run self user_message s = (r, s1)"
    by (cases "start_run self user_message s")
  show ?thesis
  proof (cases r)
    case (Inl e)
    with start show ?thesis by (simp add: chat_with_master_agent_def chat_body_def)
  next
    case (Inr p)
    obtain thread_id run0 where p: "p = (thread_id, run0)" by (cases p)
    show ?thesis
    proof (cases "poll_loop self thread_id run0 s1")
      case None
      with start Inr p show ?thesis by (simp add: chat_with_master_agent_def chat_body_def)
    next
      case (Some y)
      obtain r2 s2 where y: "y = (r2, s2)" by (cases y)
      obtain r3 s3 where fin: "final_response self thread_id (projr r2) s2 = (r3, s3)"
        by (cases "final_response self thread_id (projr r2) s2")
      from start Inr p Some y fin show ?thesis
        by (cases r2; cases r3) (simp_all add: chat_with_master_agent_def chat_body_def)
    qed
  qed
qed

text \<open>A service that answers every request for the run with the status queued.\<close>

lemma stuck_poll_step:
  "script w = [] \<Longrightarrow>
     poll_step
       (demo_manager [] (Inr \<lparr>run_id = ''run_1'', status = QUEUED, required_action = None\<rparr>) [] None)
       thread_id run0 (w, tr)
     = (Inr \<lparr>run_id = ''run_1'', status = QUEUED, required_action = None\<rparr>,
        (w, tr @ [Sleep 1, GetRun thread_id (run_id run0)]))"
  by (simp add: poll_step_def py_bind_def call_def py_return_def demo_manager_def
      scripted_remote_def next_run_def)

lemma stuck_poll_loop:
  assumes "poll_loop self thread_id run0 s = Some y"
  shows "\<not> (self = demo_manager []
                 (Inr \<lparr>run_id = ''run_1'', status = QUEUED, required_action = None\<rparr>) [] None
        \<and> status run0 = QUEUED \<and> script (fst s) = [])"
proof (rule poll_loop.raw_induct
    [where P = "\<lambda>self thread_id run0 s y.
        \<not> (self = demo_manager []
                 (Inr \<lparr>run_id = ''run_1'', status = QUEUED, required_action = None\<rparr>) [] None
           \<and> status run0 = QUEUED \<and> script (fst s) = [])",
      OF _ assms])
  fix f self thread_id run0 s y
  assume IH: "\<And>self thread_id run0 s y. f self thread_id run0 s = Some y
                \<Longrightarrow> \<not> (self = demo_manager []
                 (Inr \<lparr>run_id = ''run_1'', status = QUEUED, required_action = None\<rparr>) [] None
                     \<and> status run0 = QUEUED \<and> script (fst s) = [])"
    and eq: "(if polling (status run0)
              then case poll_step self thread_id run0 s of
                     (Inl e, s') \<Rightarrow> Some (Inl e, s')
                   | (Inr run1, s') \<Rightarrow> f self thread_id run1 s'
              else Some (Inr run0, s)) = Some y"
  show "\<not> (self = demo_manager []
                 (Inr \<lparr>run_id = ''run_1'', status = QUEUED, required_action = None\<rparr>) [] None
        \<and> status run0 = QUEUED \<and> script (fst s) = [])"
  proof
    assume stuck: "self = demo_manager []
                 (Inr \<lparr>run_id = ''run_1'', status = QUEUED, required_action = None\<rparr>) [] None
        \<and> status run0 = QUEUED \<and> script (fst s) = []"
    obtain w tr where s: "s = (w, tr)" by (cases s)
    with stuck stuck_poll_step [of w thread_id run0 tr] eq
    have "f self thread_id
            \<lparr>run_id = ''run_1'', status = QUEUED, required_action = None\<rparr>
            (w, tr @ [Sleep 1, GetRun thread_id (run_id run0)]) = Some y"
      by (simp add: polling_def)
    from IH [OF this] stuck s show False by simp
  qed
qed

lemma assistant_reply_none:
  "\<forall>m \<in> set msgs. role m \<noteq> ''assistant''
     \<Longrightarrow> assistant_reply msgs = Inr ''No response received from agent''"
  by (induction msgs) simp_all

lemma assistant_reply_latest:
  assumes "sorted_wrt (\<lambda>a b. created_at b \<le> created_at a) msgs"
    and "m \<in> set msgs" and "role m = ''assistant''"
    and "\<forall>m' \<in> set msgs. role m' = ''assistant'' \<and> m' \<noteq> m \<longrightarrow> created_at m' < created_at m"
  shows "assistant_reply msgs = message_text m"
  using assms
proof (induction msgs)
  case Nil
  then show ?case by simp
next
  case (Cons x xs)
  show ?case
  proof (cases "role x = ''assistant''")
    case True
    have "x = m"
    proof (rule ccontr)
      assume neq: "x \<noteq> m"
      with Cons.prems(2) have "m \<in> set xs" by simp
      with Cons.prems(1) have "created_at m \<le> created_at x" by simp
      moreover from Cons.prems(4) True neq have "created_at x < created_at m" by simp
      ultimately show False by simp
    qed
    with True show ?thesis by simp
  next
    case False
    with Cons.prems(2,3) have "m \<in> set xs" by auto
    moreover from Cons.prems(1) have "sorted_wrt (\<lambda>a b. created_at b \<le> created_at a) xs"
      by simp
    moreover from Cons.prems(4)
    have "\<forall>m' \<in> set xs. role m' = ''assistant'' \<and> m' \<noteq> m \<longrightarrow> created_at m' < created_at m"
      by simp
    ultimately have "assistant_reply xs = message_text m"
      using Cons.IH Cons.prems(3) by blast
    with False show ?thesis by simp
  qed
qed

lemma chat_after_loop:
  assumes "start_run self user_message s = (Inr (thread_id, run0), s1)"
    and "poll_loop self thread_id run0 s1 = Some (Inr run1, s2)"
    and "final_response self thread_id run1 s2 = (Inr text, s3)"
  shows "chat_with_master_agent self user_message s = Some (Inr text, s3)"
  using assms by (simp add: chat_with_master_agent_def chat_body_def)

lemma assistant_reply_first:
  "\<forall>m' \<in> set pre. role m' \<noteq> ''assistant'' \<Longrightarrow> role m = ''assistant''
     \<Longrightarrow> assistant_reply (pre @ m # post) = message_text m"
  by (induction pre) simp_all

lemma first_assistant_is_latest:
  assumes "sorted_wrt (\<lambda>a b. created_at b \<le> created_at a) (pre @ m # post)"
    and "\<forall>m' \<in> set pre. role m' \<noteq> ''assistant''"
    and "m' \<in> set (pre @ m # post)" and "role m' = ''assistant''"
  shows "created_at m' \<le> created_at m"
proof -
  from assms(2,3,4) have "m' = m \<or> m' \<in> set post" by auto
  then show ?thesis
  proof
    assume "m' = m" then show ?thesis by simp
  next
    assume "m' \<in> set post"
    with assms(1) show ?thesis by (simp add: sorted_wrt_append)
  qed
qed

lemma chat_after_loop_raises:
  assumes "start_run self user_message s = (Inr (thread_id, run0), s1)"
    and "poll_loop self thread_id run0 s1 = Some (Inr run1, s2)"
    and "final_response self thread_id run1 s2 = (Inl e, s3)"
  shows "chat_with_master_agent self user_message s = Some (Inr (''Error: '' @ exn_str e), s3)"
  using assms by (simp add: chat_with_master_agent_def chat_body_def)

section \<open>The claims about the run orchestrator\<close>

text \<open>
  C2, as the claim states it: for every behaviour of the service the function returns a
  string. The loop has no bound. With a service that keeps the run queued, every turn of
  the loop leads to another one, and the function never returns.
\<close>

theorem chat_never_returns_while_queued:
  "chat_with_master_agent
     (demo_manager [] (Inr \<lparr>run_id = ''run_1'', status = QUEUED, required_action = None\<rparr>) [] None)
     ''hello'' (sim0 [], []) = None"
proof -
  have start: "start_run
      (demo_manager [] (Inr \<lparr>run_id = ''run_1'', status = QUEUED, required_action = None\<rparr>) []
         None) ''hello'' (sim0 [], [])
    = (Inr (''thread_1'', \<lparr>run_id = ''run_1'', status = QUEUED, required_action = None\<rparr>),
       (sim0 [], [CreateThread, CreateMessage ''thread_1'' ''user'' ''hello'',
                  CreateRun ''thread_1'' ''asst_1'']))"
    by (simp add: start_run_def run_defs)
  have "poll_loop
      (demo_manager [] (Inr \<lparr>run_id = ''run_1'', status = QUEUED, required_action = None\<rparr>) []
         None) ''thread_1'' \<lparr>run_id = ''run_1'', status = QUEUED, required_action = None\<rparr>
      (sim0 [], [CreateThread, CreateMessage ''thread_1'' ''user'' ''hello'',
                 CreateRun ''thread_1'' ''asst_1'']) = None"
  proof (rule ccontr)
    assume "poll_loop
      (demo_manager [] (Inr \<lparr>run_id = ''run_1'', status = QUEUED, required_action = None\<rparr>) []
         None) ''thread_1'' \<lparr>run_id = ''run_1'', status = QUEUED, required_action = None\<rparr>
      (sim0 [], [CreateThread, CreateMessage ''thread_1'' ''user'' ''hello'',
                 CreateRun ''thread_1'' ''asst_1'']) \<noteq> None"
    then obtain y where "poll_loop
      (demo_manager [] (Inr \<lparr>run_id = ''run_1'', status = QUEUED, required_action = None\<rparr>) []
         None) ''thread_1'' \<lparr>run_id = ''run_1'', status = QUEUED, required_action = None\<rparr>
      (sim0 [], [CreateThread, CreateMessage ''thread_1'' ''user'' ''hello'',
                 CreateRun ''thread_1'' ''asst_1'']) = Some y"
      by blast
    from stuck_poll_loop [OF this] show False by (simp add: sim0_def)
  qed
  with start show ?thesis
    by (simp add: chat_with_master_agent_def chat_body_def)
qed

text \<open>
  C2, amended: \<^verbatim>\<open>chat_with_master_agent\<close> never raises, and whenever it returns it returns
  a string. When a step of its body raises, it returns \<^verbatim>\<open>Error: \<close> followed by the text of
  the exception: so it does when the service raises on creating the thread, the message or
  the run, when a turn of the loop raises (the service raises on fetching the run, or the
  arguments of a \<^verbatim>\<open>db_call\<close> request are not JSON), and when the loop has ended and
  composing the response raises. It returns whenever the loop ends within some number \<open>n\<close>
  of turns, by a status outside queued, in-progress and requires-action or by an exception.
  It does not return exactly when thread, message and run are created and the loop ends
  within no number of turns.
\<close>

theorem chat_returns_a_string:
  "(\<forall>r s'. chat_with_master_agent self user_message s = Some (r, s') \<longrightarrow> (\<exists>reply. r = Inr reply))
   \<and> (\<forall>e s'. chat_body self user_message s = Some (Inl e, s')
         \<longrightarrow> chat_with_master_agent self user_message s
               = Some (Inr (''Error: '' @ exn_str e), s'))
   \<and> (\<forall>e w1. create_thread (project_client self) (fst s) = (Inl e, w1)
         \<longrightarrow> chat_with_master_agent self user_message s
               = Some (Inr (''Error: '' @ exn_str e), (w1, snd s @ [CreateThread])))
   \<and> (\<forall>t w1 e w2.
         create_thread (project_client self) (fst s) = (Inr t, w1)
         \<and> create_message (project_client self) t ''user'' user_message w1 = (Inl e, w2)
         \<longrightarrow> chat_with_master_agent self user_message s
               = Some (Inr (''Error: '' @ exn_str e),
                       (w2, snd s @ [CreateThread, CreateMessage t ''user'' user_message])))
   \<and> (\<forall>t w1 w2 e w3.
         create_thread (project_client self) (fst s) = (Inr t, w1)
         \<and> create_message (project_client self) t ''user'' user_message w1 = (Inr (), w2)
         \<and> create_run (project_client self) t (master_agent_id self) register_tools w2 = (Inl e, w3)
         \<longrightarrow> chat_with_master_agent self user_message s
               = Some (Inr (''Error: '' @ exn_str e),
                       (w3, snd s @ [CreateThread, CreateMessage t ''user'' user_message,
                                     CreateRun t (master_agent_id self)])))
   \<and> (\<forall>thread_id run0 w1 tr1 e w2.
         start_run self user_message s = (Inr (thread_id, run0), (w1, tr1))
         \<and> polling (status run0)
         \<and> get_run (project_client self) thread_id (run_id run0) w1 = (Inl e, w2)
         \<longrightarrow> chat_with_master_agent self user_message s
               = Some (Inr (''Error: '' @ exn_str e),
                       (w2, tr1 @ [Sleep 1, GetRun thread_id (run_id run0)])))
   \<and> (\<forall>thread_id run0 w1 tr1 run1 w2 tc tcs e.
         start_run self user_message s = (Inr (thread_id, run0), (w1, tr1))
         \<and> polling (status run0)
         \<and> get_run (project_client self) thread_id (run_id run0) w1 = (Inr run1, w2)
         \<and> status run1 = REQUIRES_ACTION \<and> required_action run1 = Some (tc # tcs)
         \<and> fn_name tc = ''db_call'' \<and> json_loads self (fn_arguments tc) = Inl e
         \<longrightarrow> chat_with_master_agent self user_message s
               = Some (Inr (''Error: '' @ exn_str e),
                       (w2, tr1 @ [Sleep 1, GetRun thread_id (run_id run0)])))
   \<and> (\<forall>thread_id run0 s1 n e s2.
         start_run self user_message s = (Inr (thread_id, run0), s1)
         \<and> poll_loop_within n self thread_id run0 s1 = Some (Inl e, s2)
         \<longrightarrow> chat_with_master_agent self user_message s
               = Some (Inr (''Error: '' @ exn_str e), s2))
   \<and> (\<forall>thread_id run0 s1 n run1 s2 e s3.
         start_run self user_message s = (Inr (thread_id, run0), s1)
         \<and> poll_loop_within n self thread_id run0 s1 = Some (Inr run1, s2)
         \<and> final_response self thread_id run1 s2 = (Inl e, s3)
         \<longrightarrow> chat_with_master_agent self user_message s
               = Some (Inr (''Error: '' @ exn_str e), s3))
   \<and> (\<forall>thread_id run0 s1 n.
         start_run self user_message s = (Inr (thread_id, run0), s1)
         \<and> poll_loop_within n self thread_id run0 s1 \<noteq> None
         \<longrightarrow> (\<exists>reply s'. chat_with_master_agent self user_message s = Some (Inr reply, s')))
   \<and> (chat_with_master_agent self user_message s = None
        \<longleftrightarrow> (\<exists>thread_id run0 s1.
               start_run self user_message s = (Inr (thread_id, run0), s1)
               \<and> (\<forall>n. poll_loop_within n self thread_id run0 s1 = None)))"
proof (intro conjI allI impI)
  fix r s' assume "chat_with_master_agent self user_message s = Some (r, s')"
  then show "\<exists>reply. r = Inr reply"
    by (auto simp: chat_with_master_agent_def split: option.splits prod.splits sum.splits)
next
  fix e s' assume "chat_body self user_message s = Some (Inl e, s')"
  then show "chat_with_master_agent self user_message s
               = Some (Inr (''Error: '' @ exn_str e), s')"
    by (simp add: chat_with_master_agent_def)
next
  fix e w1 assume "create_thread (project_client self) (fst s) = (Inl e, w1)"
  then show "chat_with_master_agent self user_message s
               = Some (Inr (''Error: '' @ exn_str e), (w1, snd s @ [CreateThread]))"
    by (simp add: chat_with_master_agent_def chat_body_def start_run_def py_bind_def call_def)
next
  fix t w1 e w2
  assume "create_thread (project_client self) (fst s) = (Inr t, w1)
         \<and> create_message (project_client self) t ''user'' user_message w1 = (Inl e, w2)"
  then show "chat_with_master_agent self user_message s
               = Some (Inr (''Error: '' @ exn_str e),
                       (w2, snd s @ [CreateThread, CreateMessage t ''user'' user_message]))"
    by (simp add: chat_with_master_agent_def chat_body_def start_run_def py_bind_def call_def)
next
  fix t w1 w2 e w3
  assume "create_thread (project_client self) (fst s) = (Inr t, w1)
         \<and> create_message (project_client self) t ''user'' user_message w1 = (Inr (), w2)
         \<and> create_run (project_client self) t (master_agent_id self) register_tools w2 = (Inl e, w3)"
  then show "chat_with_master_agent self user_message s
               = Some (Inr (''Error: '' @ exn_str e),
                       (w3, snd s @ [CreateThread, CreateMessage t ''user'' user_message,
                                     CreateRun t (master_agent_id self)]))"
    by (simp add: chat_with_master_agent_def chat_body_def start_run_def py_bind_def call_def)
next
  fix thread_id run0 w1 tr1 e w2
  assume a: "start_run self user_message s = (Inr (thread_id, run0), (w1, tr1))
         \<and> polling (status run0)
         \<and> get_run (project_client self) thread_id (run_id run0) w1 = (Inl e, w2)"
  then have "poll_step self thread_id run0 (w1, tr1)
      = (Inl e, (w2, tr1 @ [Sleep 1, GetRun thread_id (run_id run0)]))"
    by (simp add: poll_step_def py_bind_def call_def)
  with a have "poll_loop self thread_id run0 (w1, tr1)
      = Some (Inl e, (w2, tr1 @ [Sleep 1, GetRun thread_id (run_id run0)]))"
    by (subst poll_loop.simps) simp
  with a show "chat_with_master_agent self user_message s
               = Some (Inr (''Error: '' @ exn_str e),
                       (w2, tr1 @ [Sleep 1, GetRun thread_id (run_id run0)]))"
    by (simp add: chat_with_master_agent_def chat_body_def)
next
  fix thread_id run0 w1 tr1 run1 w2 tc tcs e
  assume a: "start_run self user_message s = (Inr (thread_id, run0), (w1, tr1))
         \<and> polling (status run0)
         \<and> get_run (project_client self) thread_id (run_id run0) w1 = (Inr run1, w2)
         \<and> status run1 = REQUIRES_ACTION \<and> required_action run1 = Some (tc # tcs)
         \<and> fn_name tc = ''db_call'' \<and> json_loads self (fn_arguments tc) = Inl e"
  then have "poll_step self thread_id run0 (w1, tr1)
      = (Inl e, (w2, tr1 @ [Sleep 1, GetRun thread_id (run_id run0)]))"
    by (simp add: poll_step_def py_bind_def call_def py_lift_def tool_calls_of_def)
  with a have "poll_loop self thread_id run0 (w1, tr1)
      = Some (Inl e, (w2, tr1 @ [Sleep 1, GetRun thread_id (run_id run0)]))"
    by (subst poll_loop.simps) simp
  with a show "chat_with_master_agent self user_message s
               = Some (Inr (''Error: '' @ exn_str e),
                       (w2, tr1 @ [Sleep 1, GetRun thread_id (run_id run0)]))"
    by (simp add: chat_with_master_agent_def chat_body_def)
next
  fix thread_id run0 s1 n e s2
  assume a: "start_run self user_message s = (Inr (thread_id, run0), s1)
         \<and> poll_loop_within n self thread_id run0 s1 = Some (Inl e, s2)"
  then have "poll_loop_within n self thread_id run0 s1 = Some (Inl e, s2)" by simp
  then have "poll_loop self thread_id run0 s1 = Some (Inl e, s2)"
    by (rule poll_loop_within_sound)
  with a show "chat_with_master_agent self user_message s
               = Some (Inr (''Error: '' @ exn_str e), s2)"
    by (simp add: chat_with_master_agent_def chat_body_def)
next
  fix thread_id run0 s1 n run1 s2 e s3
  assume a: "start_run self user_message s = (Inr (thread_id, run0), s1)
         \<and> poll_loop_within n self thread_id run0 s1 = Some (Inr run1, s2)
         \<and> final_response self thread_id run1 s2 = (Inl e, s3)"
  then have "poll_loop_within n self thread_id run0 s1 = Some (Inr run1, s2)" by simp
  then have "poll_loop self thread_id run0 s1 = Some (Inr run1, s2)"
    by (rule poll_loop_within_sound)
  with a show "chat_with_master_agent self user_message s
               = Some (Inr (''Error: '' @ exn_str e), s3)"
    by (simp add: chat_with_master_agent_def chat_body_def)
next
  fix thread_id run0 s1 n
  assume a: "start_run self user_message s = (Inr (thread_id, run0), s1)
         \<and> poll_loop_within n self thread_id run0 s1 \<noteq> None"
  then have "poll_loop self thread_id run0 s1 \<noteq> None"
    by (auto simp: poll_loop_None_iff)
  with a have "chat_with_master_agent self user_message s \<noteq> None"
    by (auto simp: chat_None_iff)
  then obtain r s' where res: "chat_with_master_agent self user_message s = Some (r, s')"
    by (cases "chat_with_master_agent self user_message s") auto
  then obtain reply where "r = Inr reply"
    by (auto simp: chat_with_master_agent_def split: option.splits prod.splits sum.splits)
  with res show "\<exists>reply s'. chat_with_master_agent self user_message s = Some (Inr reply, s')"
    by blast
next
  show "chat_with_master_agent self user_message s = None
        \<longleftrightarrow> (\<exists>thread_id run0 s1.
               start_run self user_message s = (Inr (thread_id, run0), s1)
               \<and> (\<forall>n. poll_loop_within n self thread_id run0 s1 = None))"
    by (simp add: chat_None_iff poll_loop_None_iff)
qed

theorem chat_returns_a_string_witness:
  "chat_with_master_agent (demo_manager [] (Inl (PyException ''connection reset'')) [] None)
     ''hello'' (sim0 [\<lparr>run_id = ''run_1'', status = QUEUED, required_action = None\<rparr>], [])
   = Some (Inr ''Error: connection reset'',
           (sim0 [], [CreateThread, CreateMessage ''thread_1'' ''user'' ''hello'',
                      CreateRun ''thread_1'' ''asst_1'', Sleep 1, GetRun ''thread_1'' ''run_1'']))"
proof -
  let ?self = "demo_manager [] (Inl (PyException ''connection reset'')) [] None"
  let ?queued = "\<lparr>run_id = ''run_1'', status = QUEUED, required_action = None\<rparr>"
  have start: "start_run ?self ''hello'' (sim0 [?queued], [])
      = (Inr (''thread_1'', ?queued),
         (sim0 [], [CreateThread, CreateMessage ''thread_1'' ''user'' ''hello'',
                    CreateRun ''thread_1'' ''asst_1'']))"
    by (simp add: start_run_def run_defs)
  have polls: "polling (status ?queued)"
    by (simp add: polling_def)
  have raises: "get_run (project_client ?self) ''thread_1'' (run_id ?queued) (sim0 [])
      = (Inl (PyException ''connection reset''), sim0 [])"
    by (simp add: run_defs)
  from chat_returns_a_string [of ?self "''hello''" "(sim0 [?queued], [])"]
  have "\<forall>thread_id run0 w1 tr1 e w2.
         start_run ?self ''hello'' (sim0 [?queued], []) = (Inr (thread_id, run0), (w1, tr1))
         \<and> polling (status run0)
         \<and> get_run (project_client ?self) thread_id (run_id run0) w1 = (Inl e, w2)
         \<longrightarrow> chat_with_master_agent ?self ''hello'' (sim0 [?queued], [])
               = Some (Inr (''Error: '' @ exn_str e),
                       (w2, tr1 @ [Sleep 1, GetRun thread_id (run_id run0)]))"
    by (elim conjE)
  from this [rule_format, of "''thread_1''" ?queued "sim0 []" _ "PyException ''connection reset''"
      "sim0 []"] start polls raises
  show ?thesis by simp
qed

text \<open>
  C9, as the claim states it: for a completed run the result is the text of the most recent
  message of the assistant. The code reads \<^verbatim>\<open>message.content[0].text.value\<close> of the first
  message of the assistant in the listing. When the first content part of that message is
  not a text part (an image with a caption after it), the attribute \<^verbatim>\<open>text\<close> is missing, the
  exception is caught by the handler of the function, and the result is an error text, not
  the text of the message.
\<close>

theorem image_first_reply_is_an_error:
  "chat_with_master_agent
     (demo_manager
        [\<lparr>role = ''assistant'',
          content = [OtherContent ''MessageImageFileContent'', TextContent ''see the chart''],
          created_at = 2\<rparr>,
         \<lparr>role = ''user'', content = [TextContent ''plot it''], created_at = 1\<rparr>]
        (Inl (PyException ''connection reset'')) [] None)
     ''plot it''
     (sim0 [\<lparr>run_id = ''run_1'', status = COMPLETED, required_action = None\<rparr>], [])
   = Some (Inr (''Error: '' @ quoted ''MessageImageFileContent''
                  @ '' object has no attribute '' @ quoted ''text''),
           (sim0 [], [CreateThread, CreateMessage ''thread_1'' ''user'' ''plot it'',
                      CreateRun ''thread_1'' ''asst_1'', ListMessages ''thread_1'']))"
proof -
  let ?self = "demo_manager
        [\<lparr>role = ''assistant'',
          content = [OtherContent ''MessageImageFileContent'', TextContent ''see the chart''],
          created_at = 2\<rparr>,
         \<lparr>role = ''user'', content = [TextContent ''plot it''], created_at = 1\<rparr>]
        (Inl (PyException ''connection reset'')) [] None"
  let ?completed = "\<lparr>run_id = ''run_1'', status = COMPLETED, required_action = None\<rparr>"
  let ?tr1 = "[CreateThread, CreateMessage ''thread_1'' ''user'' ''plot it'',
        CreateRun ''thread_1'' ''asst_1'']"
  have start: "start_run ?self ''plot it'' (sim0 [?completed], [])
      = (Inr (''thread_1'', ?completed), (sim0 [], ?tr1))"
    by (simp add: start_run_def run_defs)
  have loop: "poll_loop ?self ''thread_1'' ?completed (sim0 [], ?tr1)
      = Some (Inr ?completed, (sim0 [], ?tr1))"
    by (subst poll_loop.simps) (simp add: polling_def)
  have fin: "final_response ?self ''thread_1'' ?completed (sim0 [], ?tr1)
      = (Inl (PyException (quoted ''MessageImageFileContent''
                  @ '' object has no attribute '' @ quoted ''text'')),
         (sim0 [], ?tr1 @ [ListMessages ''thread_1'']))"
    by (simp add: final_response_def run_defs)
  from start loop fin show ?thesis
    by (simp add: chat_with_master_agent_def chat_body_def)
qed

text \<open>
  C9, amended. When the loop ends with a run \<open>run1\<close>, its status is none of queued,
  in-progress and requires-action. For a status other than completed the result is
  \<^verbatim>\<open>Run failed with status: \<close> followed by the status as the f-string prints it (the field
  \<open>format_status\<close>: for a member of an enum class, Python 3.11 and later print class and
  member name). For the status completed the messages of the thread are fetched. If
  fetching raises, the result is \<^verbatim>\<open>Error: \<close> and the text of the exception. With no message
  of the assistant in the listing the result is \<^verbatim>\<open>No response received from agent\<close>.
  Otherwise the first message of the assistant in the listing decides: if its first content
  part is a text part, the result is the value of that part; if it has no content part, or
  its first content part is not a text part, the result is the error text of the exception
  raised by \<^verbatim>\<open>content[0].text\<close>. In a listing that is newest first, no message of the
  assistant is more recent than the first one. In each case the function returns a string
  and does not raise.
\<close>

theorem terminal_status_response:
  assumes "start_run self user_message s = (Inr (thread_id, run0), s1)"
    and "poll_loop self thread_id run0 s1 = Some (Inr run1, (w2, tr2))"
  shows "\<not> polling (status run1)
    \<and> (status run1 \<noteq> COMPLETED \<longrightarrow>
         (\<exists>t. status run1 = OtherStatus t)
         \<and> chat_with_master_agent self user_message s
             = Some (Inr (''Run failed with status: '' @ format_status self (status run1)),
                     (w2, tr2)))
    \<and> (status run1 = COMPLETED \<longrightarrow>
         (\<forall>e w3. list_messages (project_client self) thread_id w2 = (Inl e, w3) \<longrightarrow>
            chat_with_master_agent self user_message s
              = Some (Inr (''Error: '' @ exn_str e), (w3, tr2 @ [ListMessages thread_id])))
       \<and> (\<forall>msgs w3. list_messages (project_client self) thread_id w2 = (Inr msgs, w3) \<longrightarrow>
            ((\<forall>m \<in> set msgs. role m \<noteq> ''assistant'') \<longrightarrow>
               chat_with_master_agent self user_message s
                 = Some (Inr ''No response received from agent'',
                         (w3, tr2 @ [ListMessages thread_id])))
          \<and> (\<forall>pre m post.
                msgs = pre @ m # post \<and> (\<forall>m' \<in> set pre. role m' \<noteq> ''assistant'')
                \<and> role m = ''assistant'' \<longrightarrow>
                  (\<forall>reply parts. content m = TextContent reply # parts \<longrightarrow>
                     chat_with_master_agent self user_message s
                       = Some (Inr reply, (w3, tr2 @ [ListMessages thread_id])))
                \<and> (content m = [] \<longrightarrow>
                     chat_with_master_agent self user_message s
                       = Some (Inr ''Error: list index out of range'',
                               (w3, tr2 @ [ListMessages thread_id])))
                \<and> (\<forall>c parts. content m = OtherContent c # parts \<longrightarrow>
                     chat_with_master_agent self user_message s
                       = Some (Inr (''Error: '' @ quoted c @ '' object has no attribute ''
                                      @ quoted ''text''),
                               (w3, tr2 @ [ListMessages thread_id])))
                \<and> (sorted_wrt (\<lambda>a b. created_at b \<le> created_at a) msgs \<longrightarrow>
                     (\<forall>m' \<in> set msgs. role m' = ''assistant''
                         \<longrightarrow> created_at m' \<le> created_at m)))))"
proof (intro conjI impI allI ballI)
  from poll_loop_terminal [OF assms(2)] show terminal: "\<not> polling (status run1)"
    by simp
  {
    assume other: "status run1 \<noteq> COMPLETED"
    with terminal show "\<exists>t. status run1 = OtherStatus t"
      by (cases "status run1") (simp_all add: polling_def)
    from other have "final_response self thread_id run1 (w2, tr2)
        = (Inr (''Run failed with status: '' @ format_status self (status run1)), (w2, tr2))"
      by (simp add: final_response_def py_return_def)
    from chat_after_loop [OF assms this]
    show "chat_with_master_agent self user_message s
             = Some (Inr (''Run failed with status: '' @ format_status self (status run1)),
                     (w2, tr2))" .
  }
  assume completed: "status run1 = COMPLETED"
  {
    fix e w3
    assume "list_messages (project_client self) thread_id w2 = (Inl e, w3)"
    with completed have "final_response self thread_id run1 (w2, tr2)
        = (Inl e, (w3, tr2 @ [ListMessages thread_id]))"
      by (simp add: final_response_def py_bind_def call_def)
    from chat_after_loop_raises [OF assms this]
    show "chat_with_master_agent self user_message s
              = Some (Inr (''Error: '' @ exn_str e), (w3, tr2 @ [ListMessages thread_id]))" .
  }
  fix msgs w3
  assume listed: "list_messages (project_client self) thread_id w2 = (Inr msgs, w3)"
  with completed have fin: "final_response self thread_id run1 (w2, tr2)
      = (assistant_reply msgs, (w3, tr2 @ [ListMessages thread_id]))"
    by (simp add: final_response_def py_bind_def call_def py_lift_def)
  {
    assume "\<forall>m \<in> set msgs. role m \<noteq> ''assistant''"
    then have "assistant_reply msgs = Inr ''No response received from agent''"
      by (rule assistant_reply_none)
    with fin have "final_response self thread_id run1 (w2, tr2)
        = (Inr ''No response received from agent'', (w3, tr2 @ [ListMessages thread_id]))"
      by simp
    from chat_after_loop [OF assms this]
    show "chat_with_master_agent self user_message s
            = Some (Inr ''No response received from agent'',
                    (w3, tr2 @ [ListMessages thread_id]))" .
  }
  fix pre m post
  assume first: "msgs = pre @ m # post \<and> (\<forall>m' \<in> set pre. role m' \<noteq> ''assistant'')
                \<and> role m = ''assistant''"
  then have "assistant_reply msgs = message_text m"
    by (simp add: assistant_reply_first)
  with fin have fin': "final_response self thread_id run1 (w2, tr2)
      = (message_text m, (w3, tr2 @ [ListMessages thread_id]))"
    by simp
  {
    fix reply parts
    assume "content m = TextContent reply # parts"
    with fin' have "final_response self thread_id run1 (w2, tr2)
        = (Inr reply, (w3, tr2 @ [ListMessages thread_id]))"
      by simp
    from chat_after_loop [OF assms this]
    show "chat_with_master_agent self user_message s
            = Some (Inr reply, (w3, tr2 @ [ListMessages thread_id]))" .
  }
  {
    assume "content m = []"
    with fin' have "final_response self thread_id run1 (w2, tr2)
        = (Inl (PyException ''list index out of range''), (w3, tr2 @ [ListMessages thread_id]))"
      by simp
    from chat_after_loop_raises [OF assms this]
    show "chat_with_master_agent self user_message s
            = Some (Inr ''Error: list index out of range'',
                    (w3, tr2 @ [ListMessages thread_id]))"
      by simp
  }
  {
    fix c parts
    assume "content m = OtherContent c # parts"
    with fin' have "final_response self thread_id run1 (w2, tr2)
        = (Inl (PyException (quoted c @ '' object has no attribute '' @ quoted ''text'')),
           (w3, tr2 @ [ListMessages thread_id]))"
      by simp
    from chat_after_loop_raises [OF assms this]
    show "chat_with_master_agent self user_message s
            = Some (Inr (''Error: '' @ quoted c @ '' object has no attribute ''
                           @ quoted ''text''),
                    (w3, tr2 @ [ListMessages thread_id]))"
      by simp
  }
  fix m'
  assume "sorted_wrt (\<lambda>a b. created_at b \<le> created_at a) msgs"
    and "m' \<in> set msgs" and "role m' = ''assistant''"
  with first show "created_at m' \<le> created_at m"
    by (auto intro: first_assistant_is_latest [of pre m post m'])
qed

theorem terminal_status_response_witness:
  \<open>chat_with_master_agent
     (demo_manager
        [\<lparr>role = ''assistant'', content = [TextContent ''42''], created_at = 2\<rparr>,
         \<lparr>role = ''user'', content = [TextContent ''test''], created_at = 1\<rparr>]
        (Inl (PyException ''connection reset'')) [[PyInt 1]] (Some [(''one'', 23)]))
     ''test''
     (sim0 [\<lparr>run_id = ''run_1'', status = QUEUED, required_action = None\<rparr>,
            \<lparr>run_id = ''run_1'', status = REQUIRES_ACTION,
             required_action =
               Some [\<lparr>tc_id = ''call_1'', fn_name = ''db_call'',
                      fn_arguments = ''{"query": "SELECT 1"}''\<rparr>]\<rparr>,
            \<lparr>run_id = ''run_1'', status = IN_PROGRESS, required_action = None\<rparr>,
            \<lparr>run_id = ''run_1'', status = COMPLETED, required_action = None\<rparr>], [])
   = Some (Inr ''42'',
      (\<lparr>pending = [], committed = [PyStr ''SELECT 1''], script = []\<rparr>,
       [CreateThread, CreateMessage ''thread_1'' ''user'' ''test'',
        CreateRun ''thread_1'' ''asst_1'',
        Sleep 1, GetRun ''thread_1'' ''run_1'', DbConnect ''postgresql://db'', DbCursor,
        DbExecute (PyStr ''SELECT 1''), DbFetchall, DbClose, DbCommit,
        SubmitToolOutputs ''thread_1'' ''run_1''
          [\<lparr>tool_call_id = ''call_1'',
            output_text =
              ''{"success": true, "data": [{"one": 1}], "row_count": 1, "columns": ["one"], "error": null}''\<rparr>],
        Sleep 1, GetRun ''thread_1'' ''run_1'', ListMessages ''thread_1'']))
   \<and> chat_with_master_agent (demo_manager [] (Inl (PyException ''connection reset'')) [] None)
       ''test''
       (sim0 [\<lparr>run_id = ''run_1'', status = OtherStatus ''failed'', required_action = None\<rparr>], [])
     = Some (Inr ''Run failed with status: RunStatus.FAILED'',
        (sim0 [], [CreateThread, CreateMessage ''thread_1'' ''user'' ''test'',
                   CreateRun ''thread_1'' ''asst_1'']))\<close>
proof
  let ?self = "demo_manager
        [\<lparr>role = ''assistant'', content = [TextContent ''42''], created_at = 2\<rparr>,
         \<lparr>role = ''user'', content = [TextContent ''test''], created_at = 1\<rparr>]
        (Inl (PyException ''connection reset'')) [[PyInt 1]] (Some [(''one'', 23)])"
  let ?requires = \<open>\<lparr>run_id = ''run_1'', status = REQUIRES_ACTION,
             required_action =
               Some [\<lparr>tc_id = ''call_1'', fn_name = ''db_call'',
                      fn_arguments = ''{"query": "SELECT 1"}''\<rparr>]\<rparr>\<close>
  let ?queued = "\<lparr>run_id = ''run_1'', status = QUEUED, required_action = None\<rparr>"
  let ?progress = "\<lparr>run_id = ''run_1'', status = IN_PROGRESS, required_action = None\<rparr>"
  let ?completed = "\<lparr>run_id = ''run_1'', status = COMPLETED, required_action = None\<rparr>"
  let ?tr1 = "[CreateThread, CreateMessage ''thread_1'' ''user'' ''test'',
        CreateRun ''thread_1'' ''asst_1'']"
  let ?tr2 = \<open>?tr1 @ [Sleep 1, GetRun ''thread_1'' ''run_1'', DbConnect ''postgresql://db'',
        DbCursor, DbExecute (PyStr ''SELECT 1''), DbFetchall, DbClose, DbCommit,
        SubmitToolOutputs ''thread_1'' ''run_1''
          [\<lparr>tool_call_id = ''call_1'',
            output_text =
              ''{"success": true, "data": [{"one": 1}], "row_count": 1, "columns": ["one"], "error": null}''\<rparr>],
        Sleep 1, GetRun ''thread_1'' ''run_1'']\<close>
  have start: "start_run ?self ''test'' (sim0 [?queued, ?requires, ?progress, ?completed], [])
      = (Inr (''thread_1'', ?queued), (sim0 [?requires, ?progress, ?completed], ?tr1))"
    by (simp add: start_run_def run_defs)
  have "poll_loop_within 2 ?self ''thread_1'' ?queued (sim0 [?requires, ?progress, ?completed], ?tr1)
      = Some (Inr ?completed,
              (\<lparr>pending = [], committed = [PyStr ''SELECT 1''], script = []\<rparr>, ?tr2))"
    by (simp add: numeral_2_eq_2 polling_def poll_step_def run_defs select_1 json_string_def
        json_escape_char_def str_int_def str_nat.simps digit_char_def)
  then have loop: "poll_loop ?self ''thread_1'' ?queued (sim0 [?requires, ?progress, ?completed], ?tr1)
      = Some (Inr ?completed,
              (\<lparr>pending = [], committed = [PyStr ''SELECT 1''], script = []\<rparr>, ?tr2))"
    by (rule poll_loop_within_sound)
  have completed: "status ?completed = COMPLETED" by simp
  have listed: "list_messages (project_client ?self) ''thread_1''
        \<lparr>pending = [], committed = [PyStr ''SELECT 1''], script = []\<rparr>
      = (Inr ([] @ \<lparr>role = ''assistant'', content = [TextContent ''42''], created_at = 2\<rparr>
               # [\<lparr>role = ''user'', content = [TextContent ''test''], created_at = 1\<rparr>]),
         \<lparr>pending = [], committed = [PyStr ''SELECT 1''], script = []\<rparr>)"
    by (simp add: demo_manager_def scripted_remote_def)
  have "chat_with_master_agent ?self ''test'' (sim0 [?queued, ?requires, ?progress, ?completed], [])
      = Some (Inr ''42'',
              (\<lparr>pending = [], committed = [PyStr ''SELECT 1''], script = []\<rparr>,
               ?tr2 @ [ListMessages ''thread_1'']))"
    by (rule terminal_status_response
        [OF start loop, THEN conjunct2, THEN conjunct2, THEN mp, OF completed, THEN conjunct2,
          THEN spec, THEN spec, THEN mp, OF listed, THEN conjunct2,
          THEN spec [of _ "[]"],
          THEN spec [of _ "\<lparr>role = ''assistant'', content = [TextContent ''42''], created_at = 2\<rparr>"],
          THEN spec [of _ "[\<lparr>role = ''user'', content = [TextContent ''test''], created_at = 1\<rparr>]"],
          THEN mp, THEN conjunct1, THEN spec [of _ "''42''"], THEN spec [of _ "[]"], THEN mp])
      simp_all
  then show \<open>chat_with_master_agent ?self ''test''
      (sim0 [?queued, ?requires, ?progress, ?completed], [])
    = Some (Inr ''42'',
      (\<lparr>pending = [], committed = [PyStr ''SELECT 1''], script = []\<rparr>,
       [CreateThread, CreateMessage ''thread_1'' ''user'' ''test'',
        CreateRun ''thread_1'' ''asst_1'',
        Sleep 1, GetRun ''thread_1'' ''run_1'', DbConnect ''postgresql://db'', DbCursor,
        DbExecute (PyStr ''SELECT 1''), DbFetchall, DbClose, DbCommit,
        SubmitToolOutputs ''thread_1'' ''run_1''
          [\<lparr>tool_call_id = ''call_1'',
            output_text =
              ''{"success": true, "data": [{"one": 1}], "row_count": 1, "columns": ["one"], "error": null}''\<rparr>],
        Sleep 1, GetRun ''thread_1'' ''run_1'', ListMessages ''thread_1'']))\<close>
    by simp
next
  let ?self = "demo_manager [] (Inl (PyException ''connection reset'')) [] None"
  let ?failed = "\<lparr>run_id = ''run_1'', status = OtherStatus ''failed'', required_action = None\<rparr>"
  let ?tr1 = "[CreateThread, CreateMessage ''thread_1'' ''user'' ''test'',
        CreateRun ''thread_1'' ''asst_1'']"
  have start: "start_run ?self ''test'' (sim0 [?failed], [])
      = (Inr (''thread_1'', ?failed), (sim0 [], ?tr1))"
    by (simp add: start_run_def run_defs)
  have loop: "poll_loop ?self ''thread_1'' ?failed (sim0 [], ?tr1)
      = Some (Inr ?failed, (sim0 [], ?tr1))"
    by (subst poll_loop.simps) (simp add: polling_def)
  from terminal_status_response [OF start loop, THEN conjunct2, THEN conjunct1]
  show "chat_with_master_agent ?self ''test'' (sim0 [?failed], [])
     = Some (Inr ''Run failed with status: RunStatus.FAILED'',
        (sim0 [], [CreateThread, CreateMessage ''thread_1'' ''user'' ''test'',
                   CreateRun ''thread_1'' ''asst_1'']))"
    by (simp add: demo_manager_def upper_def upper_char_def)
qed

end
